theory Spec2Isabelle
  imports Main "HOL-Library.Word" "HOL-Library.Char_ord" "HOL-Library.List_Lexorder"
begin

unbundle bit_operations_syntax

section \<open>Command and option parse of pgBackRest (src/config/parse.c)\<close>

text \<open>
  A shallow embedding of the configuration resolution engine. Every function below keeps the
  name of the C function (or of the phase of \<open>configParse\<close>) it embeds. Exceptions raised with
  \<open>THROW\<close> are values of type \<open>error\<close> on the left of a sum; mutation of the parse structures
  is explicit state passing. Log output (\<open>LOG_WARN\<close>) is not part of the state.

  The generated rule table \<open>parse.auto.c\<close>, the \<open>getopt_long\<close> library function, the storage
  driver and the INI parser are collaborators of the engine: the rule table is a parameter
  (\<open>ParseRule\<close>), \<open>getopt_long\<close> is represented by the sequence of results it returns for the
  argument vector, storage and INI parser are records of query functions.
\<close>

subsection \<open>Errors\<close>

datatype errorType =
    AssertError
  | FormatError
  | CommandInvalidError
  | CommandRequiredError
  | OptionInvalidError
  | OptionInvalidValueError
  | OptionRequiredError
  | ParamInvalidError
  | FileMissingError
  | PathMissingError

datatype error = Throw errorType string

subsection \<open>Strings and conversions (common/type)\<close>

text \<open>\<open>tolower\<close> in the C locale, used by \<open>strLower\<close>.\<close>

definition chrLower :: "char \<Rightarrow> char" where
  "chrLower c =
     (case map_of (zip ''ABCDEFGHIJKLMNOPQRSTUVWXYZ'' ''abcdefghijklmnopqrstuvwxyz'') c of
        None \<Rightarrow> c | Some l \<Rightarrow> l)"

definition strLower :: "string \<Rightarrow> string" where
  "strLower s = map chrLower s"

definition strReplaceChr :: "string \<Rightarrow> char \<Rightarrow> char \<Rightarrow> string" where
  "strReplaceChr s findChr replaceChr = map (\<lambda>c. if c = findChr then replaceChr else c) s"

definition strBeginsWithZ :: "string \<Rightarrow> string \<Rightarrow> bool" where
  "strBeginsWithZ s beginsWith = (take (length beginsWith) s = beginsWith)"

definition strEndsWithZ :: "string \<Rightarrow> string \<Rightarrow> bool" where
  "strEndsWithZ s endsWith =
     (length endsWith \<le> length s \<and> drop (length s - length endsWith) s = endsWith)"

text \<open>\<open>strstr(s, "//") != NULL\<close>: some suffix of the string begins with the pattern.\<close>

fun strContains :: "string \<Rightarrow> string \<Rightarrow> bool" where
  "strContains [] pat = (pat = [])"
| "strContains (c # cs) pat = (strBeginsWithZ (c # cs) pat \<or> strContains cs pat)"

text \<open>\<open>strLstNewSplitZ\<close>: split on a single-character delimiter; an empty string gives one
  empty element.\<close>

fun strLstNewSplitChr :: "string \<Rightarrow> char \<Rightarrow> string list" where
  "strLstNewSplitChr [] d = [[]]"
| "strLstNewSplitChr (c # cs) d =
     (if c = d then [] # strLstNewSplitChr cs d
      else (case strLstNewSplitChr cs d of
              [] \<Rightarrow> [[c]]
            | x # xs \<Rightarrow> (c # x) # xs))"

text \<open>\<open>strLstJoin\<close>.\<close>

fun strLstJoin :: "string list \<Rightarrow> string \<Rightarrow> string" where
  "strLstJoin [] sep = []"
| "strLstJoin [x] sep = x"
| "strLstJoin (x # y # xs) sep = x @ sep @ strLstJoin (y # xs) sep"

text \<open>\<open>strBaseZ\<close>: the part of a path after the last slash.\<close>

definition strBaseZ :: "string \<Rightarrow> string" where
  "strBaseZ s = rev (takeWhile (\<lambda>c. c \<noteq> CHR ''/'') (rev s))"

definition isDigit :: "char \<Rightarrow> bool" where
  "isDigit c = (c \<in> set ''0123456789'')"

definition digitsToNat :: "string \<Rightarrow> nat" where
  "digitsToNat s = foldl (\<lambda>n c. 10 * n + (of_char c - 48)) 0 s"

text \<open>Decimal rendering, as \<open>%u\<close> and \<open>%d\<close> of the format strings do.\<close>

fun natToStr :: "nat \<Rightarrow> string" where
  "natToStr n =
     (if n < 10 then [''0123456789'' ! n]
      else natToStr (n div 10) @ [''0123456789'' ! (n mod 10)])"

definition intToStr :: "int \<Rightarrow> string" where
  "intToStr i = (if i < 0 then CHR ''-'' # natToStr (nat (- i)) else natToStr (nat i))"

definition quote :: "string \<Rightarrow> string" where
  "quote s = [CHR 0x27] @ s @ [CHR 0x27]"

text \<open>
  Modelled from the spec: \<open>cvtZToUInt64\<close> and \<open>cvtZToInt64\<close> live in common/type/convert.c,
  which is not part of the sources at hand. The spec describes them as base-10 parsers of an
  unsigned and a signed 64-bit integer whose failure is a \<open>FormatError\<close>.
\<close>

definition cvtZToUInt64 :: "string \<Rightarrow> error + 64 word" where
  "cvtZToUInt64 s =
     (if s \<noteq> [] \<and> list_all isDigit s \<and> digitsToNat s < 2 ^ 64
      then Inr (word_of_nat (digitsToNat s))
      else Inl (Throw FormatError (''unable to convert base 10 string '' @ quote s @ '' to uint64'')))"

definition cvtZToInt64 :: "string \<Rightarrow> error + 64 word" where
  "cvtZToInt64 s =
     (if s \<noteq> [] \<and> list_all isDigit s \<and> digitsToNat s < 2 ^ 63
      then Inr (word_of_nat (digitsToNat s))
      else if s \<noteq> [] \<and> hd s = CHR ''-'' \<and> tl s \<noteq> [] \<and> list_all isDigit (tl s)
              \<and> digitsToNat (tl s) \<le> 2 ^ 63
      then Inr (- word_of_nat (digitsToNat (tl s)))
      else Inl (Throw FormatError (''unable to convert base 10 string '' @ quote s @ '' to int64'')))"

subsection \<open>Regular expressions (common/regExp)\<close>

text \<open>
  \<open>regExpMatchOne\<close> is called with patterns anchored at both ends, so it decides membership
  of the whole string in the language of the expression. The matcher works by derivatives.
\<close>

datatype regExp =
    ReNever
  | ReEmpty
  | ReClass "char list"
  | ReSeq regExp regExp
  | ReAlt regExp regExp
  | ReStar regExp

fun reNullable :: "regExp \<Rightarrow> bool" where
  "reNullable ReNever = False"
| "reNullable ReEmpty = True"
| "reNullable (ReClass cs) = False"
| "reNullable (ReSeq r s) = (reNullable r \<and> reNullable s)"
| "reNullable (ReAlt r s) = (reNullable r \<or> reNullable s)"
| "reNullable (ReStar r) = True"

fun reDeriv :: "char \<Rightarrow> regExp \<Rightarrow> regExp" where
  "reDeriv c ReNever = ReNever"
| "reDeriv c ReEmpty = ReNever"
| "reDeriv c (ReClass cs) = (if c \<in> set cs then ReEmpty else ReNever)"
| "reDeriv c (ReSeq r s) =
     (if reNullable r then ReAlt (ReSeq (reDeriv c r) s) (reDeriv c s) else ReSeq (reDeriv c r) s)"
| "reDeriv c (ReAlt r s) = ReAlt (reDeriv c r) (reDeriv c s)"
| "reDeriv c (ReStar r) = ReSeq (reDeriv c r) (ReStar r)"

fun regExpMatchOne :: "regExp \<Rightarrow> string \<Rightarrow> bool" where
  "regExpMatchOne r [] = reNullable r"
| "regExpMatchOne r (c # cs) = regExpMatchOne (reDeriv c r) cs"

text \<open>The words of an expression, as the reference semantics of the matcher.\<close>

inductive reLang :: "regExp \<Rightarrow> string \<Rightarrow> bool" where
  langEmpty: "reLang ReEmpty []"
| langClass: "c \<in> set cs \<Longrightarrow> reLang (ReClass cs) [c]"
| langSeq: "reLang r u \<Longrightarrow> reLang s v \<Longrightarrow> reLang (ReSeq r s) (u @ v)"
| langAltL: "reLang r u \<Longrightarrow> reLang (ReAlt r s) u"
| langAltR: "reLang s u \<Longrightarrow> reLang (ReAlt r s) u"
| langStarNil: "reLang (ReStar r) []"
| langStarStep: "reLang r u \<Longrightarrow> reLang (ReStar r) v \<Longrightarrow> reLang (ReStar r) (u @ v)"

definition reStr :: "string \<Rightarrow> regExp" where
  "reStr s = foldr (\<lambda>c r. ReSeq (ReClass [c]) r) s ReEmpty"

definition reDigit :: regExp where
  "reDigit = ReClass ''0123456789''"

definition sizeQualifierList :: "string list" where
  "sizeQualifierList = [''kb'', ''k'', ''mb'', ''m'', ''gb'', ''g'', ''tb'', ''t'', ''pb'', ''p'', ''b'']"

definition reQualifier :: regExp where
  "reQualifier = foldr (\<lambda>q r. ReAlt (reStr q) r) sizeQualifierList ReNever"

subsection \<open>Size conversion\<close>

text \<open>The pattern of \<open>convertToByte\<close>: \<open>^[0-9]+(kb|k|mb|m|gb|g|tb|t|pb|p|b)*$\<close>.\<close>

definition sizeRegExp :: regExp where
  "sizeRegExp = ReSeq (ReSeq reDigit (ReStar reDigit)) (ReStar reQualifier)"

definition sizeQualifierToMultiplier :: "char \<Rightarrow> error + 64 word" where
  "sizeQualifierToMultiplier qualifier =
     (if qualifier = CHR ''b'' then Inr 1
      else if qualifier = CHR ''k'' then Inr 1024
      else if qualifier = CHR ''m'' then Inr (1024 * 1024)
      else if qualifier = CHR ''g'' then Inr (1024 * 1024 * 1024)
      else if qualifier = CHR ''t'' then Inr (1024 * 1024 * 1024 * 1024)
      else if qualifier = CHR ''p'' then Inr (1024 * 1024 * 1024 * 1024 * 1024)
      else Inl (Throw AssertError (quote [qualifier] @ '' is not a valid size qualifier'')))"

text \<open>The comparison \<open>chr > '9'\<close> of the C code; the pattern admits ASCII characters only.\<close>

definition chrGreater9 :: "char \<Rightarrow> bool" where
  "chrGreater9 c = ((of_char c :: nat) > of_char (CHR ''9''))"

text \<open>
  \<open>chrPos\<close> is \<open>None\<close> for the C value -1. The indexes \<open>size - 1\<close> and \<open>size - 2\<close> are read only
  after the pattern has matched, which guarantees a leading digit.
\<close>

definition convertToByte :: "string \<Rightarrow> error + 64 word" where
  "convertToByte value =
     (let valueLower = strLower value in
      if regExpMatchOne sizeRegExp valueLower then
        (let size = length valueLower;
             chrPos =
               (if valueLower ! (size - 1) = CHR ''b'' then
                  (if \<not> chrGreater9 (valueLower ! (size - 2)) then Some (size - 1)
                   else Some (size - 2))
                else if chrGreater9 (valueLower ! (size - 1)) then Some (size - 1)
                else None)
         in case chrPos of
              None \<Rightarrow>
                (case cvtZToUInt64 valueLower of Inl e \<Rightarrow> Inl e | Inr n \<Rightarrow> Inr (n * 1))
            | Some pos \<Rightarrow>
                (case sizeQualifierToMultiplier (valueLower ! pos) of
                   Inl e \<Rightarrow> Inl e
                 | Inr multiplier \<Rightarrow>
                     (case cvtZToUInt64 (take pos valueLower) of
                        Inl e \<Rightarrow> Inl e
                      | Inr n \<Rightarrow> Inr (n * multiplier))))
      else Inl (Throw FormatError (''value '' @ quote value @ '' is not valid'')))"

text \<open>
  The pattern as the specification words it, with an optional single qualifier:
  \<open>^[0-9]+(kb|k|mb|m|gb|g|tb|t|pb|p|b)?$\<close>, and the multipliers it lists.
\<close>

definition sizeRegExpSpec :: regExp where
  "sizeRegExpSpec = ReSeq (ReSeq reDigit (ReStar reDigit)) (ReAlt reQualifier ReEmpty)"

definition sizeMultiplierSpec :: "string \<Rightarrow> nat" where
  "sizeMultiplierSpec q =
     (if q = ''k'' \<or> q = ''kb'' then 1024
      else if q = ''m'' \<or> q = ''mb'' then 1024 ^ 2
      else if q = ''g'' \<or> q = ''gb'' then 1024 ^ 3
      else if q = ''t'' \<or> q = ''tb'' then 1024 ^ 4
      else if q = ''p'' \<or> q = ''pb'' then 1024 ^ 5
      else 1)"

subsection \<open>Rule table\<close>

datatype ConfigSection = cfgSectionCommandLine | cfgSectionGlobal | cfgSectionStanza

datatype ConfigOptionType =
    cfgOptTypeBoolean | cfgOptTypeHash | cfgOptTypeInteger | cfgOptTypeList
  | cfgOptTypePath | cfgOptTypeSize | cfgOptTypeString | cfgOptTypeTime

datatype ConfigSource = cfgSourceDefault | cfgSourceParam | cfgSourceConfig

text \<open>Command roles are the indexes 0 to 3 of \<open>commandRoleValid\<close>.\<close>

definition cfgCmdRoleDefault :: nat where "cfgCmdRoleDefault = 0"
definition cfgCmdRoleAsync :: nat where "cfgCmdRoleAsync = 1"
definition cfgCmdRoleLocal :: nat where "cfgCmdRoleLocal = 2"
definition cfgCmdRoleRemote :: nat where "cfgCmdRoleRemote = 3"

record ParseRuleCommand =
  cmdName :: string
  cmdCommandRoleValid :: nat
  cmdParameterAllowed :: bool

text \<open>
  An entry of the optional data array is a \<open>const void *\<close>: either an integer cast to a
  pointer, or the address of a string literal (kept with the string it points to).
\<close>

datatype cell = CellInt nat | CellStr nat string

fun cellBits :: "cell \<Rightarrow> nat" where
  "cellBits (CellInt n) = n"
| "cellBits (CellStr a s) = a"

fun cellStr :: "cell \<Rightarrow> string" where
  "cellStr (CellInt n) = []"
| "cellStr (CellStr a s) = s"

record ParseRuleOption =
  optName :: string
  optType :: ConfigOptionType
  optRequired :: bool
  optSection :: ConfigSection
  optSecure :: bool
  optMulti :: bool
  optGroup :: bool
  optGroupId :: nat
  optCommandRoleValid :: "nat list"
  optData :: "cell list option"

text \<open>An entry of the \<open>getopt_long\<close> option array \<open>optionList\<close>.\<close>

record OptionAlias =
  aliasName :: string
  aliasHasArg :: nat
  aliasVal :: nat

definition required_argument :: nat where "required_argument = 1"

text \<open>
  The generated tables and the constants of config.auto.h they are built with. None of them
  is in the sources at hand, so they are parameters of every function that reads them.
\<close>

record ParseRule =
  parseRuleCommand :: "ParseRuleCommand list"
  parseRuleOptionGroup :: "string list"
  parseRuleOption :: "ParseRuleOption list"
  optionList :: "OptionAlias list"
  optionResolveOrder :: "nat list"
  CFG_OPTION_TOTAL :: nat
  CFG_OPTION_GROUP_TOTAL :: nat
  CFG_OPTION_KEY_MAX :: nat
  LIST_INITIAL_SIZE :: nat
  cfgCmdNone :: nat
  cfgCmdHelp :: nat
  cfgCmdVersion :: nat
  cfgOptConfig :: nat
  cfgOptConfigPath :: nat
  cfgOptConfigIncludePath :: nat
  cfgOptStanza :: nat
  cfgOptPg :: nat
  cfgOptRepo :: nat
  cfgOptGrpPg :: nat
  cfgOptGrpRepo :: nat

subsection \<open>Optional data of an option\<close>

definition parseRuleOptionDataTypeEnd :: nat where "parseRuleOptionDataTypeEnd = 0"
definition parseRuleOptionDataTypeAllowList :: nat where "parseRuleOptionDataTypeAllowList = 1"
definition parseRuleOptionDataTypeAllowRange :: nat where "parseRuleOptionDataTypeAllowRange = 2"
definition parseRuleOptionDataTypeCommand :: nat where "parseRuleOptionDataTypeCommand = 3"
definition parseRuleOptionDataTypeDefault :: nat where "parseRuleOptionDataTypeDefault = 4"
definition parseRuleOptionDataTypeDepend :: nat where "parseRuleOptionDataTypeDepend = 5"
definition parseRuleOptionDataTypeRequired :: nat where "parseRuleOptionDataTypeRequired = 6"

definition UINT_MAX :: nat where "UINT_MAX = 2 ^ 32 - 1"

text \<open>
  \<open>PARSE_RULE_OPTION_OPTIONAL_PUSH_LIST(type, size, data, ...)\<close> followed by its list, and
  \<open>PARSE_RULE_OPTION_OPTIONAL_LIST\<close>, which ends the array with NULL. The three fields of the
  header do not overlap, so the bitwise or of the macro is a sum.
\<close>

record OptionalData =
  odType :: nat
  odData :: nat
  odList :: "cell list"

definition optionalPush :: "OptionalData \<Rightarrow> cell list" where
  "optionalPush r = CellInt (odType r * 2 ^ 24 + length (odList r) * 2 ^ 16 + odData r) # odList r"

definition optionalList :: "OptionalData list \<Rightarrow> cell list" where
  "optionalList rs = concat (map optionalPush rs) @ [CellInt 0]"

definition optionalValid :: "OptionalData \<Rightarrow> bool" where
  "optionalValid r =
     (0 < odType r \<and> odType r < 256 \<and> length (odList r) < 256 \<and> odData r < 65536)"

text \<open>Extracted option data; \<open>list\<close> points into the array, behind the header found.\<close>

record ParseRuleOptionData =
  pdFound :: bool
  pdData :: nat
  pdListSize :: nat
  pdList :: "cell list"

definition parseRuleOptionDataZero :: ParseRuleOptionData where
  "parseRuleOptionDataZero = \<lparr>pdFound = False, pdData = 0, pdListSize = 0, pdList = []\<rparr>"

text \<open>
  The \<open>do ... while\<close> loop of \<open>parseRuleOptionDataFind\<close>, from a given offset. Shifts and masks
  are written with \<open>div\<close> and \<open>mod\<close>. A read behind the array does not happen on an array that
  ends with NULL; the loop stops there.
\<close>

function parseRuleOptionDataFindLoop ::
  "cell list \<Rightarrow> nat \<Rightarrow> nat \<Rightarrow> nat \<Rightarrow> nat \<Rightarrow> ParseRuleOptionData \<Rightarrow> ParseRuleOptionData" where
  "parseRuleOptionDataFindLoop dataList typeFind commandId offset commandCurrent result =
     (if length dataList \<le> offset then result
      else
        (let type = (cellBits (dataList ! offset) div 2 ^ 24) mod 256;
             size = (cellBits (dataList ! offset) div 2 ^ 16) mod 256;
             data = cellBits (dataList ! offset) mod 65536
         in if type = parseRuleOptionDataTypeCommand then
              (if commandCurrent = commandId then result
               else parseRuleOptionDataFindLoop dataList typeFind commandId (offset + size + 1)
                      data result)
            else if type = typeFind \<and> (commandCurrent = UINT_MAX \<or> commandCurrent = commandId) then
              (if commandCurrent = commandId \<or> type = parseRuleOptionDataTypeEnd then
                 \<lparr>pdFound = True, pdData = data, pdListSize = size,
                  pdList = drop (offset + 1) dataList\<rparr>
               else parseRuleOptionDataFindLoop dataList typeFind commandId (offset + size + 1)
                      commandCurrent
                      \<lparr>pdFound = True, pdData = data, pdListSize = size,
                       pdList = drop (offset + 1) dataList\<rparr>)
            else if type = parseRuleOptionDataTypeEnd then result
            else parseRuleOptionDataFindLoop dataList typeFind commandId (offset + size + 1)
                   commandCurrent result))"
  by pat_completeness auto
termination
  by (relation "measure (\<lambda>(dataList, typeFind, commandId, offset, commandCurrent, result).
        length dataList - offset)") (auto simp: not_le intro!: diff_less_mono2)

declare parseRuleOptionDataFindLoop.simps [simp del]

definition parseRuleOptionDataFind :: "ParseRule \<Rightarrow> nat \<Rightarrow> nat \<Rightarrow> nat \<Rightarrow> ParseRuleOptionData" where
  "parseRuleOptionDataFind rules typeFind commandId optionId =
     (case optData (parseRuleOption rules ! optionId) of
        None \<Rightarrow> parseRuleOptionDataZero
      | Some dataList \<Rightarrow>
          parseRuleOptionDataFindLoop dataList typeFind commandId 0 UINT_MAX parseRuleOptionDataZero)"

text \<open>
  The records a lookup can return, for the comparison with the array contents: the unscoped
  records are those before the first \<open>Command\<close> record, the scoped ones follow the first
  \<open>Command\<close> record of the requested command up to the next \<open>Command\<close> record.
\<close>

definition odIsCommand :: "OptionalData \<Rightarrow> bool" where
  "odIsCommand r = (odType r = parseRuleOptionDataTypeCommand)"

definition optionalUnscoped :: "OptionalData list \<Rightarrow> OptionalData list" where
  "optionalUnscoped rs = takeWhile (\<lambda>r. \<not> odIsCommand r) rs"

definition optionalScoped :: "nat \<Rightarrow> OptionalData list \<Rightarrow> OptionalData list" where
  "optionalScoped commandId rs =
     takeWhile (\<lambda>r. \<not> odIsCommand r)
       (tl (dropWhile (\<lambda>r. \<not> (odIsCommand r \<and> odData r = commandId)) rs))"

definition optionalFindFirst :: "nat \<Rightarrow> nat \<Rightarrow> OptionalData list \<Rightarrow> OptionalData option" where
  "optionalFindFirst typeFind commandId rs =
     (case filter (\<lambda>r. odType r = typeFind) (optionalScoped commandId rs) of
        r # _ \<Rightarrow> Some r
      | [] \<Rightarrow>
          (case filter (\<lambda>r. odType r = typeFind) (optionalUnscoped rs) of
             [] \<Rightarrow> None
           | r # rest \<Rightarrow> Some (last (r # rest))))"

text \<open>
  The lookup as the specification words it: the last record of the tag in a block of the
  requested command, else the last unscoped record of the tag.
\<close>

fun optionalScopedAll :: "nat \<Rightarrow> nat \<Rightarrow> OptionalData list \<Rightarrow> OptionalData list" where
  "optionalScopedAll commandId commandCurrent [] = []"
| "optionalScopedAll commandId commandCurrent (r # rs) =
     (if odIsCommand r then optionalScopedAll commandId (odData r) rs
      else if commandCurrent = commandId then r # optionalScopedAll commandId commandCurrent rs
      else optionalScopedAll commandId commandCurrent rs)"

definition optionalFindSpec :: "nat \<Rightarrow> nat \<Rightarrow> OptionalData list \<Rightarrow> OptionalData option" where
  "optionalFindSpec typeFind commandId rs =
     (case filter (\<lambda>r. odType r = typeFind) (optionalScopedAll commandId UINT_MAX rs) of
        r # rest \<Rightarrow> Some (last (r # rest))
      | [] \<Rightarrow>
          (case filter (\<lambda>r. odType r = typeFind) (optionalUnscoped rs) of
             [] \<Rightarrow> None
           | r # rest \<Rightarrow> Some (last (r # rest))))"

definition pdView :: "ParseRuleOptionData \<Rightarrow> (nat \<times> cell list) option" where
  "pdView d = (if pdFound d then Some (pdData d, take (pdListSize d) (pdList d)) else None)"

text \<open>The loop of \<open>parseRuleOptionDataFind\<close> over the records themselves: the record found so far
  is carried along.\<close>

fun optionalFindLoop ::
  "nat \<Rightarrow> nat \<Rightarrow> nat \<Rightarrow> OptionalData option \<Rightarrow> OptionalData list \<Rightarrow> OptionalData option" where
  "optionalFindLoop typeFind commandId commandCurrent result [] = result"
| "optionalFindLoop typeFind commandId commandCurrent result (r # rs) =
     (if odIsCommand r then
        (if commandCurrent = commandId then result
         else optionalFindLoop typeFind commandId (odData r) result rs)
      else if odType r = typeFind \<and> (commandCurrent = UINT_MAX \<or> commandCurrent = commandId) then
        (if commandCurrent = commandId then Some r
         else optionalFindLoop typeFind commandId commandCurrent (Some r) rs)
      else optionalFindLoop typeFind commandId commandCurrent result rs)"

definition odView :: "OptionalData \<Rightarrow> nat \<times> cell list" where
  "odView r = (odData r, odList r)"

subsection \<open>Options parsed from the command line, the environment and the configuration file\<close>

record ParseOptionValue =
  pvFound :: bool
  pvNegate :: bool
  pvReset :: bool
  pvSource :: ConfigSource
  pvValueList :: "string list option"

definition parseOptionValueZero :: ParseOptionValue where
  "parseOptionValueZero =
     \<lparr>pvFound = False, pvNegate = False, pvReset = False, pvSource = cfgSourceDefault,
      pvValueList = None\<rparr>"

text \<open>
  \<open>ParseOption\<close> is the list \<open>indexList\<close>, whose length is \<open>indexListTotal\<close>; the empty list is
  the NULL pointer of an option never touched. \<open>parseOptionList\<close> maps an option id to it.
\<close>

type_synonym ParseOption = "ParseOptionValue list"

type_synonym ParseOptionList = "nat \<Rightarrow> ParseOption"

text \<open>
  \<open>parseOptionIdxValue\<close> grows the list when needed and returns a pointer to the indexed
  value: the model returns the grown list, and the value is then read and written at
  \<open>(optionId, optionKeyIdx)\<close> with \<open>parseOptionGet\<close> and \<open>parseOptionSet\<close>.
\<close>

definition parseOptionIdxValue :: "ParseRule \<Rightarrow> ParseOptionList \<Rightarrow> nat \<Rightarrow> nat \<Rightarrow> ParseOptionList" where
  "parseOptionIdxValue rules parseOptionList optionId optionKeyIdx =
     (if length (parseOptionList optionId) \<le> optionKeyIdx then
        (if optGroup (parseRuleOption rules ! optionId) then
           (if length (parseOptionList optionId) = 0 then
              parseOptionList(optionId :=
                replicate
                  (if LIST_INITIAL_SIZE rules div 2 \<le> optionKeyIdx then optionKeyIdx + 1
                   else LIST_INITIAL_SIZE rules div 2)
                  parseOptionValueZero)
            else
              parseOptionList(optionId :=
                parseOptionList optionId @
                  replicate (optionKeyIdx + 1 - length (parseOptionList optionId)) parseOptionValueZero))
         else parseOptionList(optionId := [parseOptionValueZero]))
      else parseOptionList)"

definition parseOptionGet :: "ParseOptionList \<Rightarrow> nat \<Rightarrow> nat \<Rightarrow> ParseOptionValue" where
  "parseOptionGet parseOptionList optionId optionKeyIdx = parseOptionList optionId ! optionKeyIdx"

definition parseOptionSet ::
  "ParseOptionList \<Rightarrow> nat \<Rightarrow> nat \<Rightarrow> ParseOptionValue \<Rightarrow> ParseOptionList" where
  "parseOptionSet parseOptionList optionId optionKeyIdx v =
     parseOptionList(optionId := (parseOptionList optionId)[optionKeyIdx := v])"

subsection \<open>Finding an option by name\<close>

record CfgParseOptionResult =
  porFound :: bool
  porId :: nat
  porKeyIdx :: nat
  porNegate :: bool
  porReset :: bool
  porDeprecated :: bool

definition cfgParseOptionInfo :: "nat \<Rightarrow> CfgParseOptionResult" where
  "cfgParseOptionInfo info =
     \<lparr>porFound = True,
      porId = info mod 256,
      porKeyIdx = (info div 2 ^ 8) mod 256,
      porNegate = ((info div 2 ^ 29) mod 2 = 1),
      porReset = ((info div 2 ^ 28) mod 2 = 1),
      porDeprecated = ((info div 2 ^ 27) mod 2 = 1)\<rparr>"

definition cfgParseOptionResultZero :: CfgParseOptionResult where
  "cfgParseOptionResultZero =
     \<lparr>porFound = False, porId = 0, porKeyIdx = 0, porNegate = False, porReset = False,
      porDeprecated = False\<rparr>"

definition cfgParseOption :: "ParseRule \<Rightarrow> string \<Rightarrow> CfgParseOptionResult" where
  "cfgParseOption rules optionName =
     (case find (\<lambda>a. aliasName a = optionName) (optionList rules) of
        Some a \<Rightarrow> cfgParseOptionInfo (aliasVal a)
      | None \<Rightarrow> cfgParseOptionResultZero)"

definition cfgParseOptionDefault :: "ParseRule \<Rightarrow> nat \<Rightarrow> nat \<Rightarrow> string option" where
  "cfgParseOptionDefault rules commandId optionId =
     (let data = parseRuleOptionDataFind rules parseRuleOptionDataTypeDefault commandId optionId
      in if pdFound data then Some (cellStr (pdList data ! 0)) else None)"

definition cfgParseOptionName :: "ParseRule \<Rightarrow> nat \<Rightarrow> string" where
  "cfgParseOptionName rules optionId = optName (parseRuleOption rules ! optionId)"

definition cfgParseOptionKeyIdxName :: "ParseRule \<Rightarrow> nat \<Rightarrow> nat \<Rightarrow> string" where
  "cfgParseOptionKeyIdxName rules optionId keyIdx =
     (if optGroup (parseRuleOption rules ! optionId) then
        parseRuleOptionGroup rules ! optGroupId (parseRuleOption rules ! optionId)
          @ natToStr (keyIdx + 1)
          @ drop (length (parseRuleOptionGroup rules ! optGroupId (parseRuleOption rules ! optionId)))
              (optName (parseRuleOption rules ! optionId))
      else optName (parseRuleOption rules ! optionId))"

definition cfgParseOptionRequired :: "ParseRule \<Rightarrow> nat \<Rightarrow> nat \<Rightarrow> bool" where
  "cfgParseOptionRequired rules commandId optionId =
     (let data = parseRuleOptionDataFind rules parseRuleOptionDataTypeRequired commandId optionId
      in if pdFound data then pdData data \<noteq> 0
         else optRequired (parseRuleOption rules ! optionId))"

definition cfgParseOptionSecure :: "ParseRule \<Rightarrow> nat \<Rightarrow> bool" where
  "cfgParseOptionSecure rules optionId = optSecure (parseRuleOption rules ! optionId)"

definition cfgParseOptionType :: "ParseRule \<Rightarrow> nat \<Rightarrow> ConfigOptionType" where
  "cfgParseOptionType rules optionId = optType (parseRuleOption rules ! optionId)"

definition cfgParseOptionValid :: "ParseRule \<Rightarrow> nat \<Rightarrow> nat \<Rightarrow> nat \<Rightarrow> bool" where
  "cfgParseOptionValid rules commandId commandRoleId optionId =
     ((optCommandRoleValid (parseRuleOption rules ! optionId) ! commandRoleId div 2 ^ commandId)
        mod 2 = 1)"

text \<open>
  Modelled from the spec: \<open>cfgCommandId\<close>, \<open>cfgCommandName\<close> and \<open>cfgCommandRoleEnum\<close> live in
  config/config.c, which is not part of the sources at hand. Commands are looked up by the
  name of their rule; the roles are \<open>default\<close>, \<open>async\<close>, \<open>local\<close> and \<open>remote\<close>.
\<close>

fun cfgCommandIdFrom :: "ParseRuleCommand list \<Rightarrow> nat \<Rightarrow> string \<Rightarrow> nat option" where
  "cfgCommandIdFrom [] commandId commandName = None"
| "cfgCommandIdFrom (c # cs) commandId commandName =
     (if cmdName c = commandName then Some commandId
      else cfgCommandIdFrom cs (commandId + 1) commandName)"

definition cfgCommandId :: "ParseRule \<Rightarrow> string \<Rightarrow> nat" where
  "cfgCommandId rules commandName =
     (case cfgCommandIdFrom (parseRuleCommand rules) 0 commandName of
        Some commandId \<Rightarrow> commandId
      | None \<Rightarrow> cfgCmdNone rules)"

definition cfgCommandName :: "ParseRule \<Rightarrow> nat \<Rightarrow> string" where
  "cfgCommandName rules commandId = cmdName (parseRuleCommand rules ! commandId)"

definition cfgCommandRoleEnum :: "string \<Rightarrow> error + nat" where
  "cfgCommandRoleEnum commandRole =
     (if commandRole = ''default'' then Inr cfgCmdRoleDefault
      else if commandRole = ''async'' then Inr cfgCmdRoleAsync
      else if commandRole = ''local'' then Inr cfgCmdRoleLocal
      else if commandRole = ''remote'' then Inr cfgCmdRoleRemote
      else Inl (Throw CommandInvalidError (''invalid command role '' @ quote commandRole)))"

subsection \<open>The configuration produced by the parse (config/config.intern.h)\<close>

datatype Variant =
    VarBool bool
  | VarInt64 "64 word"
  | VarStr string
  | VarVarLst "string list"
  | VarKv "(string \<times> string) list"

record ConfigOptionValue =
  covNegate :: bool
  covReset :: bool
  covSource :: ConfigSource
  covValue :: "Variant option"

text \<open>\<open>coIndex\<close> is the array \<open>index\<close>; the empty list is the NULL pointer.\<close>

record ConfigOption =
  coName :: string
  coValid :: bool
  coGroup :: bool
  coGroupId :: nat
  coIndex :: "ConfigOptionValue list"

record ConfigOptionGroup =
  cgName :: string
  cgValid :: bool
  cgIndexTotal :: nat
  cgIndexDefault :: nat
  cgIndexDefaultExists :: bool
  cgIndexMap :: "nat \<Rightarrow> nat"

record Config =
  cfgCommand :: nat
  cfgCommandRole :: nat
  cfgHelp :: bool
  cfgExe :: string
  cfgParamList :: "string list option"
  cfgOption :: "nat \<Rightarrow> ConfigOption"
  cfgOptionGroup :: "nat \<Rightarrow> ConfigOptionGroup"

definition configOptionZero :: ConfigOption where
  "configOptionZero =
     \<lparr>coName = [], coValid = False, coGroup = False, coGroupId = 0, coIndex = []\<rparr>"

definition configOptionGroupZero :: ConfigOptionGroup where
  "configOptionGroupZero =
     \<lparr>cgName = [], cgValid = False, cgIndexTotal = 0, cgIndexDefault = 0,
      cgIndexDefaultExists = False, cgIndexMap = (\<lambda>i. 0)\<rparr>"

text \<open>The designated initialiser of \<open>configParse\<close>: everything but command and exe is zero.\<close>

definition configNew :: "ParseRule \<Rightarrow> string \<Rightarrow> Config" where
  "configNew rules exe =
     \<lparr>cfgCommand = cfgCmdNone rules, cfgCommandRole = 0, cfgHelp = False, cfgExe = exe,
      cfgParamList = None, cfgOption = (\<lambda>i. configOptionZero),
      cfgOptionGroup = (\<lambda>i. configOptionGroupZero)\<rparr>"

subsection \<open>Phase 1: command line parameters\<close>

text \<open>
  What \<open>getopt_long\<close> returns for one step over the argument vector: a non-option argument
  (return value 1), an unknown option (\<open>?\<close>), an option without its argument (\<open>:\<close>), or an
  option of \<open>optionList\<close>, given by its index \<open>optionListIdx\<close> and \<open>optarg\<close> (read only when the
  option has a required argument).
\<close>

datatype GetoptResult =
    GetoptArg string
  | GetoptUnknown string
  | GetoptMissing string
  | GetoptOption nat string

record ParseState =
  psConfig :: Config
  psOptionList :: ParseOptionList
  psCommandSet :: bool
  psArgFound :: bool

text \<open>The state at the start of the parse: no command, no option parsed.\<close>

definition parseStateNew :: "ParseRule \<Rightarrow> string \<Rightarrow> ParseState" where
  "parseStateNew rules exe =
     \<lparr>psConfig = configNew rules exe, psOptionList = (\<lambda>optionId. []), psCommandSet = False,
      psArgFound = False\<rparr>"

definition configParseCommand :: "ParseRule \<Rightarrow> Config \<Rightarrow> string \<Rightarrow> error + Config" where
  "configParseCommand rules config command =
     (case
        (if cfgCommandId rules command = cfgCmdNone rules then
           (case strLstNewSplitChr command (CHR '':'') of
              [commandPart0, commandPart1] \<Rightarrow>
                (if cfgCommandId rules commandPart0 \<noteq> cfgCmdNone rules then
                   (case cfgCommandRoleEnum commandPart1 of
                      Inl e \<Rightarrow> Inl e
                    | Inr role \<Rightarrow> Inr (cfgCommandId rules commandPart0, role))
                 else Inr (cfgCommandId rules commandPart0, cfgCmdRoleDefault))
            | _ \<Rightarrow> Inr (cfgCommandId rules command, cfgCmdRoleDefault))
         else Inr (cfgCommandId rules command, cfgCmdRoleDefault))
      of
        Inl e \<Rightarrow> Inl e
      | Inr (commandId, commandRole) \<Rightarrow>
          if commandId = cfgCmdNone rules then
            Inl (Throw CommandInvalidError (''invalid command '' @ quote command))
          else if (cmdCommandRoleValid (parseRuleCommand rules ! commandId) div 2 ^ commandRole)
                    mod 2 \<noteq> 1 then
            Inl (Throw CommandInvalidError (''invalid command/role combination '' @ quote command))
          else Inr (config\<lparr>cfgCommand := commandId, cfgCommandRole := commandRole\<rparr>))"

definition configParseOptionArg ::
  "ParseRule \<Rightarrow> ParseOptionList \<Rightarrow> nat \<Rightarrow> string \<Rightarrow> error + ParseOptionList" where
  "configParseOptionArg rules parseOptionList optionListIdx optarg =
     (let option = cfgParseOptionInfo (aliasVal (optionList rules ! optionListIdx));
          hasArg = (aliasHasArg (optionList rules ! optionListIdx) = required_argument);
          name = cfgParseOptionKeyIdxName rules (porId option) (porKeyIdx option)
      in if CFG_OPTION_TOTAL rules \<le> porId option then
           Inl (Throw AssertError ''assertion option.id < CFG_OPTION_TOTAL failed'')
         else if cfgParseOptionSecure rules (porId option) then
           Inl (Throw OptionInvalidError
             (''option '' @ quote name @ '' is not allowed on the command-line''))
         else
           (let grown = parseOptionIdxValue rules parseOptionList (porId option) (porKeyIdx option);
                optionValue = parseOptionGet grown (porId option) (porKeyIdx option)
            in if \<not> pvFound optionValue then
                 Inr (parseOptionSet grown (porId option) (porKeyIdx option)
                   \<lparr>pvFound = True, pvNegate = porNegate option, pvReset = porReset option,
                    pvSource = cfgSourceParam,
                    pvValueList = (if hasArg then Some [optarg] else None)\<rparr>)
               else if pvNegate optionValue \<and> porNegate option then
                 Inl (Throw OptionInvalidError
                   (''option '' @ quote name @ '' is negated multiple times''))
               else if pvReset optionValue \<and> porReset option then
                 Inl (Throw OptionInvalidError
                   (''option '' @ quote name @ '' is reset multiple times''))
               else if (pvReset optionValue \<and> porNegate option)
                       \<or> (pvNegate optionValue \<and> porReset option) then
                 Inl (Throw OptionInvalidError
                   (''option '' @ quote name @ '' cannot be negated and reset''))
               else if pvNegate optionValue \<noteq> porNegate option then
                 Inl (Throw OptionInvalidError
                   (''option '' @ quote name @ '' cannot be set and negated''))
               else if pvReset optionValue \<noteq> porReset option then
                 Inl (Throw OptionInvalidError
                   (''option '' @ quote name @ '' cannot be set and reset''))
               else if hasArg \<and> optMulti (parseRuleOption rules ! porId option) then
                 (case pvValueList optionValue of
                    None \<Rightarrow> Inl (Throw AssertError ''assertion this != NULL failed'')
                  | Some valueList \<Rightarrow>
                      Inr (parseOptionSet grown (porId option) (porKeyIdx option)
                        (optionValue\<lparr>pvValueList := Some (valueList @ [optarg])\<rparr>)))
               else
                 Inl (Throw OptionInvalidError
                   (''option '' @ quote name @ '' cannot be set multiple times''))))"

text \<open>One iteration of the \<open>getopt_long\<close> loop.\<close>

definition configParseArg :: "ParseRule \<Rightarrow> ParseState \<Rightarrow> GetoptResult \<Rightarrow> error + ParseState" where
  "configParseArg rules st r =
     (case r of
        GetoptArg arg \<Rightarrow>
          (if \<not> psCommandSet st then
             (case configParseCommand rules (psConfig st) arg of
                Inl e \<Rightarrow> Inl e
              | Inr config \<Rightarrow>
                  if cfgCommand config = cfgCmdHelp rules then
                    Inr (st\<lparr>psConfig := config\<lparr>cfgHelp := True\<rparr>, psArgFound := True\<rparr>)
                  else
                    Inr (st\<lparr>psConfig := config, psCommandSet := True, psArgFound := True\<rparr>))
           else
             Inr (st\<lparr>psConfig := (psConfig st)
                        \<lparr>cfgParamList :=
                           Some ((case cfgParamList (psConfig st) of None \<Rightarrow> [] | Some l \<Rightarrow> l)
                                 @ [arg])\<rparr>,
                      psArgFound := True\<rparr>))
      | GetoptUnknown arg \<Rightarrow> Inl (Throw OptionInvalidError (''invalid option '' @ quote arg))
      | GetoptMissing arg \<Rightarrow>
          Inl (Throw OptionInvalidError (''option '' @ quote arg @ '' requires argument''))
      | GetoptOption optionListIdx optarg \<Rightarrow>
          (case configParseOptionArg rules (psOptionList st) optionListIdx optarg of
             Inl e \<Rightarrow> Inl e
           | Inr parseOptionList \<Rightarrow>
               Inr (st\<lparr>psOptionList := parseOptionList, psArgFound := True\<rparr>)))"

fun configParseArgList :: "ParseRule \<Rightarrow> ParseState \<Rightarrow> GetoptResult list \<Rightarrow> error + ParseState" where
  "configParseArgList rules st [] = Inr st"
| "configParseArgList rules st (r # rs) =
     (case configParseArg rules st r of
        Inl e \<Rightarrow> Inl e
      | Inr st' \<Rightarrow> configParseArgList rules st' rs)"

text \<open>The checks behind the loop: command not found, parameters not allowed.\<close>

definition configParseArgEnd :: "ParseRule \<Rightarrow> ParseState \<Rightarrow> error + Config" where
  "configParseArgEnd rules st =
     (if \<not> psCommandSet st \<and> \<not> cfgHelp (psConfig st) \<and> psArgFound st then
        Inl (Throw CommandRequiredError ''no command found'')
      else
        (let config =
               (if \<not> psCommandSet st \<and> \<not> cfgHelp (psConfig st)
                then (psConfig st)\<lparr>cfgHelp := True\<rparr> else psConfig st)
         in if cfgParamList config \<noteq> None \<and> \<not> cfgHelp config
               \<and> \<not> cmdParameterAllowed (parseRuleCommand rules ! cfgCommand config) then
              Inl (Throw ParamInvalidError ''command does not allow parameters'')
            else Inr config))"

subsection \<open>Phase 2: environment variables\<close>

definition PGBACKREST_ENV :: string where
  "PGBACKREST_ENV = ''PGBACKREST_''"

definition envKey :: "string \<Rightarrow> string" where
  "envKey keyValue =
     strReplaceChr
       (strLower (takeWhile (\<lambda>c. c \<noteq> CHR ''='') (drop (length PGBACKREST_ENV) keyValue)))
       (CHR ''_'') (CHR ''-'')"

definition envValue :: "string \<Rightarrow> string" where
  "envValue keyValue = tl (dropWhile (\<lambda>c. c \<noteq> CHR ''='') keyValue)"

text \<open>One entry of \<open>environ\<close>; \<open>continue\<close> returns the list of parsed options as it is.\<close>

definition configParseEnv ::
  "ParseRule \<Rightarrow> Config \<Rightarrow> ParseOptionList \<Rightarrow> string \<Rightarrow> error + ParseOptionList" where
  "configParseEnv rules config parseOptionList keyValue =
     (if strBeginsWithZ keyValue PGBACKREST_ENV then
        (if CHR ''='' \<notin> set keyValue then
           Inl (Throw AssertError ''assertion equalPtr != NULL failed'')
         else
           (let key = envKey keyValue;
                value = envValue keyValue;
                option = cfgParseOption rules key
            in if \<not> porFound option then Inr parseOptionList
               else if porNegate option then Inr parseOptionList
               else if porReset option then Inr parseOptionList
               else if \<not> cfgParseOptionValid rules (cfgCommand config) (cfgCommandRole config)
                          (porId option) then
                 Inr parseOptionList
               else if length value = 0 then
                 Inl (Throw OptionInvalidValueError
                   (''environment variable '' @ quote key @ '' must have a value''))
               else
                 (let grown = parseOptionIdxValue rules parseOptionList (porId option)
                                (porKeyIdx option);
                      optionValue = parseOptionGet grown (porId option) (porKeyIdx option)
                  in if pvFound optionValue then Inr grown
                     else if cfgParseOptionType rules (porId option) = cfgOptTypeBoolean then
                       (if value = ''n'' then
                          Inr (parseOptionSet grown (porId option) (porKeyIdx option)
                            (optionValue\<lparr>pvFound := True, pvSource := cfgSourceConfig,
                               pvNegate := True\<rparr>))
                        else if value \<noteq> ''y'' then
                          Inl (Throw OptionInvalidValueError
                            (''environment boolean option '' @ quote key
                               @ '' must be '' @ quote ''y'' @ '' or '' @ quote ''n''))
                        else
                          Inr (parseOptionSet grown (porId option) (porKeyIdx option)
                            (optionValue\<lparr>pvFound := True, pvSource := cfgSourceConfig\<rparr>)))
                     else if optMulti (parseRuleOption rules ! porId option) then
                       Inr (parseOptionSet grown (porId option) (porKeyIdx option)
                         (optionValue\<lparr>pvFound := True, pvSource := cfgSourceConfig,
                            pvValueList := Some (strLstNewSplitChr value (CHR '':''))\<rparr>))
                     else
                       Inr (parseOptionSet grown (porId option) (porKeyIdx option)
                         (optionValue\<lparr>pvFound := True, pvSource := cfgSourceConfig,
                            pvValueList := Some [value]\<rparr>)))))
      else Inr parseOptionList)"

fun configParseEnvList ::
  "ParseRule \<Rightarrow> Config \<Rightarrow> ParseOptionList \<Rightarrow> string list \<Rightarrow> error + ParseOptionList" where
  "configParseEnvList rules config parseOptionList [] = Inr parseOptionList"
| "configParseEnvList rules config parseOptionList (keyValue # environ) =
     (case configParseEnv rules config parseOptionList keyValue of
        Inl e \<Rightarrow> Inl e
      | Inr parseOptionList' \<Rightarrow> configParseEnvList rules config parseOptionList' environ)"


text \<open>The entries of the environment that pass the checks of the importer in front of the
  check of the value: a known option, no negate or reset alias, valid for command and role.\<close>

definition envAccepted :: "ParseRule \<Rightarrow> Config \<Rightarrow> string \<Rightarrow> bool" where
  "envAccepted rules config keyValue =
     (porFound (cfgParseOption rules (envKey keyValue))
      \<and> \<not> porNegate (cfgParseOption rules (envKey keyValue))
      \<and> \<not> porReset (cfgParseOption rules (envKey keyValue))
      \<and> cfgParseOptionValid rules (cfgCommand config) (cfgCommandRole config)
            (porId (cfgParseOption rules (envKey keyValue))))"

text \<open>An invariant of the generated option array: an alias of an option outside a group has
  key index 0.\<close>

definition aliasKeyValid :: "ParseRule \<Rightarrow> CfgParseOptionResult \<Rightarrow> bool" where
  "aliasKeyValid rules option =
     (optGroup (parseRuleOption rules ! porId option) \<or> porKeyIdx option = 0)"

definition optionListValid :: "ParseRule \<Rightarrow> bool" where
  "optionListValid rules =
     list_all (\<lambda>a. aliasKeyValid rules (cfgParseOptionInfo (aliasVal a))) (optionList rules)"

text \<open>A value of the list of parsed options that is allocated and found.\<close>

definition parseOptionIsFound :: "ParseOptionList \<Rightarrow> nat \<Rightarrow> nat \<Rightarrow> bool" where
  "parseOptionIsFound parseOptionList optionId optionKeyIdx =
     (optionKeyIdx < length (parseOptionList optionId)
      \<and> pvFound (parseOptionList optionId ! optionKeyIdx))"


subsection \<open>Collaborators: storage, INI parser, floating point\<close>

text \<open>
  The INI document as the parse reads it: the keys of a section in their order, whether a key
  holds a list, and its value or values.
\<close>

record Ini =
  iniSectionKeyList :: "string \<Rightarrow> string list"
  iniSectionKeyIsList :: "string \<Rightarrow> string \<Rightarrow> bool"
  iniGet :: "string \<Rightarrow> string \<Rightarrow> string"
  iniGetList :: "string \<Rightarrow> string \<Rightarrow> string list"

text \<open>
  The process environment and the services the parse calls: \<open>storageGet\<close> is the content of a
  file (\<open>None\<close> when it does not exist), \<open>storageList\<close> the names in a path that match an
  expression (\<open>None\<close> when the path does not exist), \<open>iniParse\<close> the INI parser, and
  \<open>cvtZToDoubleMs\<close> the conversion \<open>(int64_t)(cvtZToDouble(value) * MSEC_PER_SEC)\<close> of a time
  value, which is floating point arithmetic and stays a parameter.
\<close>

record World =
  environ :: "string list"
  storageGet :: "string \<Rightarrow> string option"
  storageList :: "string \<Rightarrow> string \<Rightarrow> string list option"
  iniParse :: "string \<Rightarrow> error + Ini"
  cvtZToDoubleMs :: "string \<Rightarrow> error + 64 word"

text \<open>
  Modelled from the spec: \<open>storageGetP\<close> and \<open>storageListP\<close> live in storage/storage.c, which
  is not part of the sources at hand. A missing file or path is an error when it is required
  and NULL otherwise.
\<close>

definition storageGetP :: "World \<Rightarrow> string \<Rightarrow> bool \<Rightarrow> error + string option" where
  "storageGetP world file ignoreMissing =
     (case storageGet world file of
        Some buffer \<Rightarrow> Inr (Some buffer)
      | None \<Rightarrow>
          if ignoreMissing then Inr None
          else Inl (Throw FileMissingError (''unable to open missing file '' @ quote file @ '' for read'')))"

definition storageListP :: "World \<Rightarrow> string \<Rightarrow> string \<Rightarrow> bool \<Rightarrow> bool \<Rightarrow> error + string list option" where
  "storageListP world path expression errorOnMissing nullOnMissing =
     (case storageList world path expression of
        Some list \<Rightarrow> Inr (Some list)
      | None \<Rightarrow>
          if errorOnMissing then
            Inl (Throw PathMissingError (''unable to list files for missing path '' @ quote path))
          else if nullOnMissing then Inr None
          else Inr (Some []))"

text \<open>\<open>strLstGet\<close> on a list that may be NULL: the assertions of the list type fail then.\<close>

definition strLstGet :: "string list option \<Rightarrow> nat \<Rightarrow> error + string" where
  "strLstGet list listIdx =
     (case list of
        None \<Rightarrow> Inl (Throw AssertError ''assertion this != NULL failed'')
      | Some l \<Rightarrow>
          if listIdx < length l then Inr (l ! listIdx)
          else Inl (Throw AssertError ''cannot get index from list''))"

subsection \<open>Loading the configuration files\<close>

definition LF_STR :: string where
  "LF_STR = [CHR 0x0A]"

text \<open>
  \<open>cfgFileLoadPart\<close>: the \<open>else\<close> in front of the first \<open>strCat\<close> makes the line feed the
  alternative of creating the result string; the part is appended in both cases.
\<close>

definition cfgFileLoadPart :: "World \<Rightarrow> string option \<Rightarrow> string option \<Rightarrow> error + string option" where
  "cfgFileLoadPart world config configPart =
     (case configPart of
        None \<Rightarrow> Inr config
      | Some configPartStr \<Rightarrow>
          if length configPartStr > 0 then
            (case iniParse world configPartStr of
               Inl e \<Rightarrow> Inl e
             | Inr configPartIni \<Rightarrow>
                 Inr (Some ((case config of None \<Rightarrow> [] | Some c \<Rightarrow> c @ LF_STR) @ configPartStr)))
          else Inr config)"

text \<open>A loop with exceptions: the first error ends it.\<close>

fun foldE :: "('s \<Rightarrow> 'a \<Rightarrow> error + 's) \<Rightarrow> 's \<Rightarrow> 'a list \<Rightarrow> error + 's" where
  "foldE f s [] = Inr s"
| "foldE f s (x # xs) = (case f s x of Inl e \<Rightarrow> Inl e | Inr s' \<Rightarrow> foldE f s' xs)"

text \<open>The expression \<open>.+\.conf$\<close> (written here with the code of the backslash).\<close>

definition CONF_EXPRESSION :: string where
  "CONF_EXPRESSION = ''.+'' @ [CHR 0x5C] @ ''.conf$''"

definition PGBACKREST_CONFIG_INCLUDE_PATH :: string where
  "PGBACKREST_CONFIG_INCLUDE_PATH = ''conf.d''"

definition cfgFileLoadInclude :: "World \<Rightarrow> string \<Rightarrow> string option \<Rightarrow> string \<Rightarrow> error + string option" where
  "cfgFileLoadInclude world configIncludePath result name =
     (case storageGetP world (configIncludePath @ ''/'' @ name) True of
        Inl e \<Rightarrow> Inl e
      | Inr configPart \<Rightarrow> cfgFileLoadPart world result configPart)"

definition parseOptionFound :: "ParseOptionList \<Rightarrow> nat \<Rightarrow> bool" where
  "parseOptionFound parseOptionList optionId =
     (parseOptionList optionId \<noteq> [] \<and> pvFound (parseOptionList optionId ! 0))"

definition cfgFileLoad ::
  "World \<Rightarrow> ParseRule \<Rightarrow> ParseOptionList \<Rightarrow> string \<Rightarrow> string \<Rightarrow> string \<Rightarrow> error + string option" where
  "cfgFileLoad world rules parseOptionList optConfigDefault optConfigIncludePathDefault origConfigDefault =
     (let configFound = parseOptionFound parseOptionList (cfgOptConfig rules);
          configPathRequired = parseOptionFound parseOptionList (cfgOptConfigPath rules);
          configIncludeFound = parseOptionFound parseOptionList (cfgOptConfigIncludePath rules);
          configNegate = (parseOptionList (cfgOptConfig rules) \<noteq> []
                          \<and> pvNegate (parseOptionList (cfgOptConfig rules) ! 0));
          loadConfig = (\<not> configNegate);
          configRequired = (configFound \<and> \<not> configNegate);
          loadConfigInclude = (\<not> (configFound \<and> \<not> (configPathRequired \<or> configIncludeFound)));
          configIncludeRequired = (configIncludeFound \<and> loadConfigInclude)
      in
      case
        (if configPathRequired then
           (case strLstGet (pvValueList (parseOptionList (cfgOptConfigPath rules) ! 0)) 0 of
              Inl e \<Rightarrow> Inl e
            | Inr configPath \<Rightarrow>
                Inr (configPath @ ''/'' @ strBaseZ optConfigDefault,
                     configPath @ ''/'' @ PGBACKREST_CONFIG_INCLUDE_PATH))
         else Inr (optConfigDefault, optConfigIncludePathDefault))
      of
        Inl e \<Rightarrow> Inl e
      | Inr (optConfigDefaultNew, optConfigIncludePathDefaultNew) \<Rightarrow>
      case
        (if loadConfig then
           (case (if configRequired
                  then strLstGet (pvValueList (parseOptionList (cfgOptConfig rules) ! 0)) 0
                  else Inr optConfigDefaultNew) of
              Inl e \<Rightarrow> Inl e
            | Inr configFileName \<Rightarrow>
                (case storageGetP world configFileName (\<not> configRequired) of
                   Inl e \<Rightarrow> Inl e
                 | Inr (Some buffer) \<Rightarrow> Inr (Some buffer)
                 | Inr None \<Rightarrow>
                     if configFileName = optConfigDefault then
                       storageGetP world origConfigDefault (\<not> configRequired)
                     else Inr None))
         else Inr None)
      of
        Inl e \<Rightarrow> Inl e
      | Inr result \<Rightarrow>
          if loadConfigInclude then
            (case (case result of None \<Rightarrow> Inr () | Some r \<Rightarrow> map_sum id (\<lambda>ini. ()) (iniParse world r)) of
               Inl e \<Rightarrow> Inl e
             | Inr u \<Rightarrow>
            (case (if configIncludeRequired
                   then strLstGet (pvValueList (parseOptionList (cfgOptConfigIncludePath rules) ! 0)) 0
                   else Inr optConfigIncludePathDefaultNew) of
               Inl e \<Rightarrow> Inl e
             | Inr configIncludePath \<Rightarrow>
                 (case storageListP world configIncludePath CONF_EXPRESSION configIncludeRequired
                         (\<not> configIncludeRequired) of
                    Inl e \<Rightarrow> Inl e
                  | Inr None \<Rightarrow> Inr result
                  | Inr (Some list) \<Rightarrow>
                      foldE (cfgFileLoadInclude world configIncludePath) result (sort list))))
          else Inr result)"

subsection \<open>Phase 3: configuration file\<close>

definition CFGDEF_SECTION_GLOBAL :: string where
  "CFGDEF_SECTION_GLOBAL = ''global''"

definition PGBACKREST_CONFIG_ORIG_PATH_FILE :: string where
  "PGBACKREST_CONFIG_ORIG_PATH_FILE = ''/etc/pgbackrest.conf''"

text \<open>The list of sections to search for options.\<close>

definition configParseSectionList :: "ParseRule \<Rightarrow> Config \<Rightarrow> string option \<Rightarrow> string list" where
  "configParseSectionList rules config stanza =
     (case stanza of
        None \<Rightarrow> []
      | Some s \<Rightarrow> [s @ '':'' @ cfgCommandName rules (cfgCommand config), s])
     @ [CFGDEF_SECTION_GLOBAL @ '':'' @ cfgCommandName rules (cfgCommand config),
        CFGDEF_SECTION_GLOBAL]"

text \<open>
  The state of the loop over the keys of a section: the names under which options were seen
  in this section (the key/value store \<open>optionFound\<close>), and the parsed options.
\<close>

record IniState =
  isOptionFound :: "(nat \<times> string) list"
  isOptionList :: ParseOptionList

definition configParseIniKey ::
  "ParseRule \<Rightarrow> Config \<Rightarrow> Ini \<Rightarrow> string \<Rightarrow> IniState \<Rightarrow> string \<Rightarrow> error + IniState" where
  "configParseIniKey rules config ini section st key =
     (let option = cfgParseOption rules key;
          optionFoundKey = porId option * CFG_OPTION_KEY_MAX rules + porKeyIdx option
      in if \<not> porFound option then Inr st
         else if porNegate option then Inr st
         else if porReset option then Inr st
         else if optSection (parseRuleOption rules ! porId option) = cfgSectionCommandLine then Inr st
         else
           (case map_of (isOptionFound st) optionFoundKey of
              Some optionFoundName \<Rightarrow>
                Inl (Throw OptionInvalidError
                  (''configuration file contains duplicate options ('' @ quote key @ '', ''
                     @ quote optionFoundName @ '') in section '' @ quote (''['' @ section @ '']'')))
            | None \<Rightarrow>
                (let st1 = st\<lparr>isOptionFound := isOptionFound st @ [(optionFoundKey, key)]\<rparr>
                 in if \<not> cfgParseOptionValid rules (cfgCommand config) (cfgCommandRole config)
                            (porId option) then
                      Inr st1
                    else if optSection (parseRuleOption rules ! porId option) = cfgSectionStanza
                            \<and> strBeginsWithZ section CFGDEF_SECTION_GLOBAL then
                      Inr st1
                    else
                      (let grown = parseOptionIdxValue rules (isOptionList st1) (porId option)
                                     (porKeyIdx option);
                           optionValue = parseOptionGet grown (porId option) (porKeyIdx option)
                       in if pvFound optionValue then Inr (st1\<lparr>isOptionList := grown\<rparr>)
                          else if iniSectionKeyIsList ini section key then
                            (if \<not> optMulti (parseRuleOption rules ! porId option) then
                               Inl (Throw OptionInvalidError
                                 (''option ''
                                    @ quote (cfgParseOptionKeyIdxName rules (porId option)
                                               (porKeyIdx option))
                                    @ '' cannot be set multiple times''))
                             else
                               Inr (st1\<lparr>isOptionList :=
                                 parseOptionSet grown (porId option) (porKeyIdx option)
                                   (optionValue\<lparr>pvFound := True, pvSource := cfgSourceConfig,
                                      pvValueList := Some (iniGetList ini section key)\<rparr>)\<rparr>))
                          else if length (iniGet ini section key) = 0 then
                            Inl (Throw OptionInvalidValueError
                              (''section '' @ quote section @ '', key '' @ quote key
                                 @ '' must have a value''))
                          else if cfgParseOptionType rules (porId option) = cfgOptTypeBoolean then
                            (if iniGet ini section key = ''n'' then
                               Inr (st1\<lparr>isOptionList :=
                                 parseOptionSet grown (porId option) (porKeyIdx option)
                                   (optionValue\<lparr>pvFound := True, pvSource := cfgSourceConfig,
                                      pvNegate := True\<rparr>)\<rparr>)
                             else if iniGet ini section key \<noteq> ''y'' then
                               Inl (Throw OptionInvalidValueError
                                 (''boolean option '' @ quote key @ '' must be '' @ quote ''y''
                                    @ '' or '' @ quote ''n''))
                             else
                               Inr (st1\<lparr>isOptionList :=
                                 parseOptionSet grown (porId option) (porKeyIdx option)
                                   (optionValue\<lparr>pvFound := True, pvSource := cfgSourceConfig\<rparr>)\<rparr>))
                          else
                            Inr (st1\<lparr>isOptionList :=
                              parseOptionSet grown (porId option) (porKeyIdx option)
                                (optionValue\<lparr>pvFound := True, pvSource := cfgSourceConfig,
                                   pvValueList := Some [iniGet ini section key]\<rparr>)\<rparr>)))))"

text \<open>One section: \<open>optionFound\<close> starts empty. The position of the section in the list
  only selects the warning logged for an option that is not valid for the command.\<close>

definition configParseIniSection ::
  "ParseRule \<Rightarrow> Config \<Rightarrow> Ini \<Rightarrow> ParseOptionList \<Rightarrow> string \<Rightarrow> error + ParseOptionList" where
  "configParseIniSection rules config ini parseOptionList section =
     (case foldE (configParseIniKey rules config ini section)
             \<lparr>isOptionFound = [], isOptionList = parseOptionList\<rparr>
             (iniSectionKeyList ini section) of
        Inl e \<Rightarrow> Inl e
      | Inr st \<Rightarrow> Inr (isOptionList st))"

definition configParseIni ::
  "ParseRule \<Rightarrow> Config \<Rightarrow> Ini \<Rightarrow> ParseOptionList \<Rightarrow> string list \<Rightarrow> error + ParseOptionList" where
  "configParseIni rules config ini parseOptionList sectionList =
     foldE (configParseIniSection rules config ini) parseOptionList sectionList"

definition configParseStanza :: "ParseRule \<Rightarrow> ParseOptionList \<Rightarrow> error + string option" where
  "configParseStanza rules parseOptionList =
     (if parseOptionList (cfgOptStanza rules) \<noteq> [] then
        (case strLstGet (pvValueList (parseOptionList (cfgOptStanza rules) ! 0)) 0 of
           Inl e \<Rightarrow> Inl e
         | Inr stanza \<Rightarrow> Inr (Some stanza))
      else Inr None)"

definition configParseFile ::
  "World \<Rightarrow> ParseRule \<Rightarrow> Config \<Rightarrow> ParseOptionList \<Rightarrow> error + ParseOptionList" where
  "configParseFile world rules config parseOptionList =
     (case cfgParseOptionDefault rules (cfgCommand config) (cfgOptConfig rules) of
        None \<Rightarrow> Inl (Throw AssertError ''assertion optConfigDefault != NULL failed'')
      | Some optConfigDefault \<Rightarrow>
     (case cfgParseOptionDefault rules (cfgCommand config) (cfgOptConfigIncludePath rules) of
        None \<Rightarrow> Inl (Throw AssertError ''assertion optConfigIncludePathDefault != NULL failed'')
      | Some optConfigIncludePathDefault \<Rightarrow>
     (case cfgFileLoad world rules parseOptionList optConfigDefault optConfigIncludePathDefault
             PGBACKREST_CONFIG_ORIG_PATH_FILE of
        Inl e \<Rightarrow> Inl e
      | Inr None \<Rightarrow> Inr parseOptionList
      | Inr (Some configString) \<Rightarrow>
          (case iniParse world configString of
             Inl e \<Rightarrow> Inl e
           | Inr ini \<Rightarrow>
               (case configParseStanza rules parseOptionList of
                  Inl e \<Rightarrow> Inl e
                | Inr stanza \<Rightarrow>
                    configParseIni rules config ini parseOptionList
                      (configParseSectionList rules config stanza))))))"

subsection \<open>Phase 4: indexed options of each group\<close>

record GroupScan =
  gsConfig :: Config
  gsGroupIdxMap :: "nat \<Rightarrow> nat \<Rightarrow> bool"

definition configOptionUpd :: "Config \<Rightarrow> nat \<Rightarrow> (ConfigOption \<Rightarrow> ConfigOption) \<Rightarrow> Config" where
  "configOptionUpd config optionId f =
     config\<lparr>cfgOption := (cfgOption config)(optionId := f (cfgOption config optionId))\<rparr>"

definition configGroupUpd :: "Config \<Rightarrow> nat \<Rightarrow> (ConfigOptionGroup \<Rightarrow> ConfigOptionGroup) \<Rightarrow> Config" where
  "configGroupUpd config groupId f =
     config\<lparr>cfgOptionGroup := (cfgOptionGroup config)(groupId := f (cfgOptionGroup config groupId))\<rparr>"

text \<open>The scan of the values of one option for the indexes in use.\<close>

definition configParseGroupKey :: "ParseOption \<Rightarrow> nat \<Rightarrow> GroupScan \<Rightarrow> nat \<Rightarrow> GroupScan" where
  "configParseGroupKey indexList groupId st optionKeyIdx =
     (if pvFound (indexList ! optionKeyIdx) \<and> \<not> pvReset (indexList ! optionKeyIdx)
         \<and> \<not> gsGroupIdxMap st groupId optionKeyIdx then
        \<lparr>gsConfig = configGroupUpd (gsConfig st) groupId
                      (\<lambda>g. g\<lparr>cgIndexTotal := cgIndexTotal g + 1\<rparr>),
         gsGroupIdxMap = (gsGroupIdxMap st)(groupId := (gsGroupIdxMap st groupId)(optionKeyIdx := True))\<rparr>
      else st)"

definition configParseGroupOption ::
  "ParseRule \<Rightarrow> ParseOptionList \<Rightarrow> GroupScan \<Rightarrow> nat \<Rightarrow> error + GroupScan" where
  "configParseGroupOption rules parseOptionList st optionId =
     (let named = configOptionUpd (gsConfig st) optionId
                    (\<lambda>opt. opt\<lparr>coName := optName (parseRuleOption rules ! optionId)\<rparr>)
      in if cfgParseOptionValid rules (cfgCommand named) (cfgCommandRole named) optionId then
           (let valid = configOptionUpd named optionId
                          (\<lambda>opt. opt\<lparr>coValid := True,
                                      coGroup := optGroup (parseRuleOption rules ! optionId),
                                      coGroupId := optGroupId (parseRuleOption rules ! optionId)\<rparr>)
            in if optGroup (parseRuleOption rules ! optionId) then
                 Inr (foldl
                       (configParseGroupKey (parseOptionList optionId)
                          (optGroupId (parseRuleOption rules ! optionId)))
                       (st\<lparr>gsConfig := configGroupUpd valid
                                          (optGroupId (parseRuleOption rules ! optionId))
                                          (\<lambda>g. g\<lparr>cgValid := True\<rparr>)\<rparr>)
                       [0..<length (parseOptionList optionId)])
               else Inr (st\<lparr>gsConfig := valid\<rparr>))
         else if parseOptionList optionId \<noteq> [] then
           Inl (Throw OptionInvalidError
             (''option '' @ quote (cfgParseOptionName rules optionId) @ '' not valid for command ''
                @ quote (cfgCommandName rules (cfgCommand named))))
         else Inr (st\<lparr>gsConfig := named\<rparr>))"

text \<open>Writing the keys in use into the index map of a group, in order; the state of the loop
  is the map and \<open>optionIdxMax\<close>.\<close>

definition configParseIndexMapKey ::
  "(nat \<Rightarrow> bool) \<Rightarrow> (nat \<Rightarrow> nat) \<times> nat \<Rightarrow> nat \<Rightarrow> (nat \<Rightarrow> nat) \<times> nat" where
  "configParseIndexMapKey groupIdxMap st optionKeyIdx =
     (if groupIdxMap optionKeyIdx then ((fst st)(snd st := optionKeyIdx), snd st + 1) else st)"

definition configParseGroupIndexMap ::
  "ParseRule \<Rightarrow> (nat \<Rightarrow> nat \<Rightarrow> bool) \<Rightarrow> Config \<Rightarrow> nat \<Rightarrow> Config" where
  "configParseGroupIndexMap rules groupIdxMap config groupId =
     (let named = configGroupUpd config groupId
                    (\<lambda>g. g\<lparr>cgName := parseRuleOptionGroup rules ! groupId\<rparr>)
      in if \<not> cgValid (cfgOptionGroup named groupId) then named
         else if cgIndexTotal (cfgOptionGroup named groupId) = 0 then
           configGroupUpd named groupId (\<lambda>g. g\<lparr>cgIndexTotal := 1\<rparr>)
         else
           configGroupUpd named groupId
             (\<lambda>g. g\<lparr>cgIndexMap :=
                fst (foldl (configParseIndexMapKey (groupIdxMap groupId))
                       (cgIndexMap g, if groupId = cfgOptGrpPg rules then 1 else 0)
                       [(if groupId = cfgOptGrpPg rules then 1 else 0)..<CFG_OPTION_KEY_MAX rules])\<rparr>))"

definition configParseGroup :: "ParseRule \<Rightarrow> Config \<Rightarrow> ParseOptionList \<Rightarrow> error + Config" where
  "configParseGroup rules config parseOptionList =
     (case foldE (configParseGroupOption rules parseOptionList)
             \<lparr>gsConfig = config, gsGroupIdxMap = (\<lambda>g k. False)\<rparr>
             [0..<CFG_OPTION_TOTAL rules] of
        Inl e \<Rightarrow> Inl e
      | Inr st \<Rightarrow>
          Inr (foldl (configParseGroupIndexMap rules (gsGroupIdxMap st)) (gsConfig st)
                 [0..<CFG_OPTION_GROUP_TOTAL rules]))"

subsection \<open>Phase 5: validation of the options and loading into the configuration\<close>

definition configOptionValueZero :: ConfigOptionValue where
  "configOptionValueZero =
     \<lparr>covNegate = False, covReset = False, covSource = cfgSourceDefault, covValue = None\<rparr>"

text \<open>\<open>PARSE_RULE_DATA_INT64\<close>: two pointer-sized cells, the first shifted left by 32.\<close>

definition PARSE_RULE_DATA_INT64 :: "ParseRuleOptionData \<Rightarrow> nat \<Rightarrow> 64 word" where
  "PARSE_RULE_DATA_INT64 data index =
     push_bit 32 (word_of_nat (cellBits (pdList data ! index)))
       OR word_of_nat (cellBits (pdList data ! (index + 1)))"

text \<open>\<open>kvPut\<close>: a key already present keeps its place and takes the new value.\<close>

fun kvPut :: "(string \<times> string) list \<Rightarrow> string \<Rightarrow> string \<Rightarrow> (string \<times> string) list" where
  "kvPut [] k v = [(k, v)]"
| "kvPut ((k', v') # kvs) k v = (if k' = k then (k, v) # kvs else (k', v') # kvPut kvs k v)"

definition configParseHashPair ::
  "string \<Rightarrow> (string \<times> string) list \<Rightarrow> string \<Rightarrow> error + (string \<times> string) list" where
  "configParseHashPair name keyValue pair =
     (if CHR ''='' \<notin> set pair then
        Inl (Throw OptionInvalidError
          (''key/value '' @ quote pair @ '' not valid for '' @ quote name @ '' option''))
      else
        Inr (kvPut keyValue (takeWhile (\<lambda>c. c \<noteq> CHR ''='') pair)
               (tl (dropWhile (\<lambda>c. c \<noteq> CHR ''='') pair))))"

text \<open>The message of an option set on the command line whose depend list is not met.\<close>

definition configParseDependError ::
  "ParseRule \<Rightarrow> nat \<Rightarrow> nat \<Rightarrow> ParseRuleOptionData \<Rightarrow> error" where
  "configParseDependError rules optionId optionKeyIdx depend =
     (let dependList = map cellStr (take (pdListSize depend) (pdList depend));
          dependBoolean = (cfgParseOptionType rules (pdData depend) = cfgOptTypeBoolean);
          dependName = cfgParseOptionKeyIdxName rules (pdData depend) optionKeyIdx;
          dependOptionName =
            (if dependBoolean \<and> ''0'' \<in> set dependList then ''no-'' @ dependName else dependName);
          dependValueList = (if dependBoolean then [] else map quote dependList);
          errorValue =
            (if length dependValueList = 1 then '' = '' @ dependValueList ! 0
             else if length dependValueList > 1 then
               '' in ('' @ strLstJoin dependValueList '', '' @ '')''
             else [])
      in Throw OptionInvalidError
           (''option '' @ quote (cfgParseOptionKeyIdxName rules optionId optionKeyIdx)
              @ '' not valid without option '' @ quote dependOptionName @ errorValue))"

text \<open>
  The depend check of one option value: \<open>Inr\<close> of \<open>dependResolved\<close>. A read of the depend
  option's values that are not allocated, or behind them, and \<open>varBool\<close> or \<open>varStr\<close> of a
  value of another type, are failed assertions.
\<close>

definition configParseDepend ::
  "ParseRule \<Rightarrow> Config \<Rightarrow> nat \<Rightarrow> nat \<Rightarrow> nat \<Rightarrow> bool \<Rightarrow> ParseOptionValue \<Rightarrow> error + bool" where
  "configParseDepend rules config optionId optionListIdx optionKeyIdx optionSet parseOptionValue =
     (let depend = parseRuleOptionDataFind rules parseRuleOptionDataTypeDepend (cfgCommand config)
                     optionId
      in if \<not> pdFound depend then Inr True
         else if length (coIndex (cfgOption config (pdData depend))) \<le> optionListIdx then
           Inl (Throw AssertError ''assertion config->option[dependOptionId].index != NULL failed'')
         else
           (case covValue (coIndex (cfgOption config (pdData depend)) ! optionListIdx) of
              None \<Rightarrow>
                if optionSet \<and> pvSource parseOptionValue = cfgSourceParam then
                  Inl (Throw OptionInvalidError
                    (''option '' @ quote (cfgParseOptionKeyIdxName rules optionId optionKeyIdx)
                       @ '' not valid without option ''
                       @ quote (cfgParseOptionKeyIdxName rules (pdData depend) optionKeyIdx)))
                else Inr False
            | Some dependValue \<Rightarrow>
                (case
                   (if cfgParseOptionType rules (pdData depend) = cfgOptTypeBoolean then
                      (case dependValue of
                         VarBool b \<Rightarrow> Inr (VarStr (if b then ''1'' else ''0''))
                       | _ \<Rightarrow> Inl (Throw AssertError ''assertion varType(this) == varTypeBool failed''))
                    else Inr dependValue)
                 of
                   Inl e \<Rightarrow> Inl e
                 | Inr dependStr \<Rightarrow>
                     if pdListSize depend > 0 then
                       (case dependStr of
                          VarStr s \<Rightarrow>
                            if s \<in> set (map cellStr (take (pdListSize depend) (pdList depend))) then
                              Inr True
                            else if optionSet \<and> pvSource parseOptionValue = cfgSourceParam then
                              Inl (configParseDependError rules optionId optionKeyIdx depend)
                            else Inr False
                        | _ \<Rightarrow>
                            Inl (Throw AssertError ''assertion varType(this) == varTypeString failed''))
                     else Inr True)))"

definition int64ToStr :: "64 word \<Rightarrow> string" where
  "int64ToStr v = intToStr (sint v)"

text \<open>The value of an option that is set, by type. \<open>valueAllow\<close> is the string checked against
  the allow list: the number in decimal for a size, else the value itself.\<close>

definition configParseValue ::
  "World \<Rightarrow> ParseRule \<Rightarrow> Config \<Rightarrow> nat \<Rightarrow> nat \<Rightarrow> ParseOptionValue \<Rightarrow> error + Variant" where
  "configParseValue world rules config optionId optionKeyIdx parseOptionValue =
     (let optionType = cfgParseOptionType rules optionId;
          name = cfgParseOptionKeyIdxName rules optionId optionKeyIdx
      in if optionType = cfgOptTypeBoolean then Inr (VarBool (\<not> pvNegate parseOptionValue))
         else if optionType = cfgOptTypeHash then
           (case pvValueList parseOptionValue of
              None \<Rightarrow> Inl (Throw AssertError ''assertion this != NULL failed'')
            | Some valueList \<Rightarrow>
                map_sum id VarKv (foldE (configParseHashPair name) [] valueList))
         else if optionType = cfgOptTypeList then
           Inr (VarVarLst (case pvValueList parseOptionValue of None \<Rightarrow> [] | Some l \<Rightarrow> l))
         else
           (case strLstGet (pvValueList parseOptionValue) 0 of
              Inl e \<Rightarrow> Inl e
            | Inr value \<Rightarrow>
                (case
                   (if optionType = cfgOptTypeInteger \<or> optionType = cfgOptTypeSize
                       \<or> optionType = cfgOptTypeTime then
                      (case
                         (if optionType = cfgOptTypeInteger then cvtZToInt64 value
                          else if optionType = cfgOptTypeSize then convertToByte value
                          else cvtZToDoubleMs world value)
                       of
                         Inl e \<Rightarrow>
                           Inl (Throw OptionInvalidValueError
                             (quote value @ '' is not valid for '' @ quote name @ '' option''))
                       | Inr valueInt64 \<Rightarrow>
                           (let allowRange = parseRuleOptionDataFind rules
                                  parseRuleOptionDataTypeAllowRange (cfgCommand config) optionId
                            in if pdFound allowRange
                                  \<and> (sint valueInt64 < sint (PARSE_RULE_DATA_INT64 allowRange 0)
                                     \<or> sint valueInt64 > sint (PARSE_RULE_DATA_INT64 allowRange 2)) then
                                 Inl (Throw OptionInvalidValueError
                                   (quote value @ '' is out of range for '' @ quote name
                                      @ '' option''))
                               else
                                 Inr (VarInt64 valueInt64, value,
                                      if optionType = cfgOptTypeSize then int64ToStr valueInt64
                                      else value)))
                    else if length value = 0 then
                      Inl (Throw OptionInvalidValueError
                        (quote value @ '' must be >= 1 character for '' @ quote name @ '' option''))
                    else if optionType = cfgOptTypePath then
                      (if \<not> strBeginsWithZ value ''/'' then
                         Inl (Throw OptionInvalidValueError
                           (quote value @ '' must begin with / for '' @ quote name @ '' option''))
                       else if strContains value ''//'' then
                         Inl (Throw OptionInvalidValueError
                           (quote value @ '' cannot contain // for '' @ quote name @ '' option''))
                       else if strEndsWithZ value ''/'' \<and> length value \<noteq> 1 then
                         Inr (VarStr (take (length value - 1) value),
                              take (length value - 1) value, take (length value - 1) value)
                       else Inr (VarStr value, value, value))
                    else Inr (VarStr value, value, value))
                 of
                   Inl e \<Rightarrow> Inl e
                 | Inr (variant, valueShown, valueAllow) \<Rightarrow>
                     (let allowList = parseRuleOptionDataFind rules
                            parseRuleOptionDataTypeAllowList (cfgCommand config) optionId
                      in if pdFound allowList
                            \<and> valueAllow \<notin> set (map cellStr (take (pdListSize allowList)
                                                                 (pdList allowList))) then
                           Inl (Throw OptionInvalidValueError
                             (quote valueShown @ '' is not allowed for '' @ quote name
                                @ '' option''))
                         else Inr variant))))"

text \<open>The default of an option that is not set, or the error of a required option.\<close>

definition configParseDefault ::
  "ParseRule \<Rightarrow> Config \<Rightarrow> nat \<Rightarrow> nat \<Rightarrow> error + Variant option" where
  "configParseDefault rules config optionId optionKeyIdx =
     (case cfgParseOptionDefault rules (cfgCommand config) optionId of
        Some value \<Rightarrow>
          if cfgParseOptionType rules optionId = cfgOptTypeBoolean then
            Inr (Some (VarBool (value = ''1'')))
          else if cfgParseOptionType rules optionId = cfgOptTypePath
                  \<or> cfgParseOptionType rules optionId = cfgOptTypeString then
            Inr (Some (VarStr value))
          else if cfgParseOptionType rules optionId = cfgOptTypeInteger
                  \<or> cfgParseOptionType rules optionId = cfgOptTypeSize
                  \<or> cfgParseOptionType rules optionId = cfgOptTypeTime then
            map_sum id (\<lambda>v. Some (VarInt64 v)) (cvtZToInt64 value)
          else Inl (Throw AssertError ''assertion optionType == cfgOptTypeInteger failed'')
      | None \<Rightarrow>
          if cfgParseOptionRequired rules (cfgCommand config) optionId \<and> \<not> cfgHelp config then
            Inl (Throw OptionRequiredError
              (cfgCommandName rules (cfgCommand config) @ '' command requires option: ''
                 @ cfgParseOptionKeyIdxName rules optionId optionKeyIdx
                 @ (if optSection (parseRuleOption rules ! optionId) = cfgSectionStanza
                    then [CHR 0x0A] @ ''HINT: does this stanza exist?'' else [])))
          else Inr None)"

text \<open>The body of the loop over the option indexes: the value stored at
  \<open>config->option[optionId].index[optionListIdx]\<close>.\<close>

definition configParseOptionKeyIdx :: "ParseRule \<Rightarrow> Config \<Rightarrow> nat \<Rightarrow> nat \<Rightarrow> nat" where
  "configParseOptionKeyIdx rules config optionId optionListIdx =
     (if optGroup (parseRuleOption rules ! optionId)
      then cgIndexMap (cfgOptionGroup config (optGroupId (parseRuleOption rules ! optionId)))
             optionListIdx
      else 0)"

definition configParseOptionValue :: "ParseOptionList \<Rightarrow> nat \<Rightarrow> nat \<Rightarrow> ParseOptionValue" where
  "configParseOptionValue parseOptionList optionId optionKeyIdx =
     (if optionKeyIdx < length (parseOptionList optionId)
      then parseOptionList optionId ! optionKeyIdx else parseOptionValueZero)"

definition optionSet :: "ParseRule \<Rightarrow> nat \<Rightarrow> ParseOptionValue \<Rightarrow> bool" where
  "optionSet rules optionId parseOptionValue =
     (pvFound parseOptionValue
      \<and> (cfgParseOptionType rules optionId = cfgOptTypeBoolean \<or> \<not> pvNegate parseOptionValue)
      \<and> \<not> pvReset parseOptionValue)"

definition configParseResolveIdx ::
  "World \<Rightarrow> ParseRule \<Rightarrow> ParseOptionList \<Rightarrow> Config \<Rightarrow> nat \<Rightarrow> nat \<Rightarrow> error + ConfigOptionValue" where
  "configParseResolveIdx world rules parseOptionList config optionId optionListIdx =
     (let optionKeyIdx = configParseOptionKeyIdx rules config optionId optionListIdx;
          parseOptionValue = configParseOptionValue parseOptionList optionId optionKeyIdx;
          configOptionValue =
            \<lparr>covNegate = pvNegate parseOptionValue, covReset = pvReset parseOptionValue,
             covSource = cfgSourceDefault, covValue = None\<rparr>
      in case configParseDepend rules config optionId optionListIdx optionKeyIdx
                (optionSet rules optionId parseOptionValue) parseOptionValue of
           Inl e \<Rightarrow> Inl e
         | Inr dependResolved \<Rightarrow>
             if dependResolved then
               (if optionSet rules optionId parseOptionValue then
                  (case configParseValue world rules config optionId optionKeyIdx parseOptionValue of
                     Inl e \<Rightarrow> Inl e
                   | Inr value \<Rightarrow>
                       Inr (configOptionValue\<lparr>covSource := pvSource parseOptionValue,
                                               covValue := Some value\<rparr>))
                else if pvNegate parseOptionValue then
                  Inr (configOptionValue\<lparr>covSource := pvSource parseOptionValue\<rparr>)
                else
                  (case configParseDefault rules config optionId optionKeyIdx of
                     Inl e \<Rightarrow> Inl e
                   | Inr value \<Rightarrow> Inr (configOptionValue\<lparr>covValue := value\<rparr>)))
             else Inr configOptionValue)"

definition configParseResolveStore ::
  "World \<Rightarrow> ParseRule \<Rightarrow> ParseOptionList \<Rightarrow> nat \<Rightarrow> Config \<Rightarrow> nat \<Rightarrow> error + Config" where
  "configParseResolveStore world rules parseOptionList optionId config optionListIdx =
     (case configParseResolveIdx world rules parseOptionList config optionId optionListIdx of
        Inl e \<Rightarrow> Inl e
      | Inr configOptionValue \<Rightarrow>
          Inr (configOptionUpd config optionId
                 (\<lambda>opt. opt\<lparr>coIndex := (coIndex opt)[optionListIdx := configOptionValue]\<rparr>)))"

definition configParseResolveOption ::
  "World \<Rightarrow> ParseRule \<Rightarrow> ParseOptionList \<Rightarrow> Config \<Rightarrow> nat \<Rightarrow> error + Config" where
  "configParseResolveOption world rules parseOptionList config optionOrderIdx =
     (let optionId = optionResolveOrder rules ! optionOrderIdx
      in if \<not> coValid (cfgOption config optionId) then Inr config
         else
           (let optionListIndexTotal =
                  (if optGroup (parseRuleOption rules ! optionId)
                   then cgIndexTotal (cfgOptionGroup config
                                        (optGroupId (parseRuleOption rules ! optionId)))
                   else 1)
            in foldE (configParseResolveStore world rules parseOptionList optionId)
                 (configOptionUpd config optionId
                    (\<lambda>opt. opt\<lparr>coIndex := replicate optionListIndexTotal configOptionValueZero\<rparr>))
                 [0..<optionListIndexTotal]))"

definition configParseResolve ::
  "World \<Rightarrow> ParseRule \<Rightarrow> Config \<Rightarrow> ParseOptionList \<Rightarrow> error + Config" where
  "configParseResolve world rules config parseOptionList =
     foldE (configParseResolveOption world rules parseOptionList) config
       [0..<CFG_OPTION_TOTAL rules]"

subsection \<open>Default index of each group, and the parse as a whole\<close>

text \<open>
  Modelled from the spec: \<open>cfgOptionTest\<close>, \<open>cfgOptionUInt\<close>, \<open>cfgOptionValid\<close>,
  \<open>cfgOptionGroupIdxTotal\<close> and \<open>cfgOptionName\<close> live in config/config.c, which is not part of
  the sources at hand. They read the configuration just built: an option tests true when it
  is valid and its first value is not null.
\<close>

definition cfgOptionTest :: "Config \<Rightarrow> nat \<Rightarrow> bool" where
  "cfgOptionTest config optionId =
     (coValid (cfgOption config optionId) \<and> coIndex (cfgOption config optionId) \<noteq> []
      \<and> covValue (coIndex (cfgOption config optionId) ! 0) \<noteq> None)"

definition cfgOptionUInt :: "Config \<Rightarrow> nat \<Rightarrow> error + nat" where
  "cfgOptionUInt config optionId =
     (case covValue (coIndex (cfgOption config optionId) ! 0) of
        Some (VarInt64 v) \<Rightarrow>
          if 0 \<le> sint v \<and> sint v < 2 ^ 32 then Inr (nat (sint v))
          else Inl (Throw FormatError ''unable to convert int64 to unsigned int'')
      | _ \<Rightarrow> Inl (Throw AssertError ''assertion varType(this) == varTypeInt64 failed''))"

definition configParseGroupDefault :: "ParseRule \<Rightarrow> Config \<Rightarrow> nat \<Rightarrow> error + Config" where
  "configParseGroupDefault rules config groupId =
     (if groupId \<noteq> cfgOptGrpPg rules \<and> groupId \<noteq> cfgOptGrpRepo rules then
        Inl (Throw AssertError ''assertion groupId == cfgOptGrpPg || groupId == cfgOptGrpRepo failed'')
      else
        (let defaultOptionId = (if groupId = cfgOptGrpPg rules then cfgOptPg rules else cfgOptRepo rules);
             exists = configGroupUpd config groupId
                        (\<lambda>g. g\<lparr>cgIndexDefaultExists :=
                                  (groupId = cfgOptGrpPg rules
                                   \<or> coValid (cfgOption config (cfgOptRepo rules)))\<rparr>)
         in if cfgOptionTest exists defaultOptionId then
              (case cfgOptionUInt exists defaultOptionId of
                 Inl e \<Rightarrow> Inl e
               | Inr key \<Rightarrow>
                   (case find (\<lambda>index. cgIndexMap (cfgOptionGroup exists groupId) index
                                         = (key + UINT_MAX) mod 2 ^ 32)
                           [0..<cgIndexTotal (cfgOptionGroup exists groupId)] of
                      None \<Rightarrow>
                        Inl (Throw OptionInvalidValueError
                          (''key '' @ quote (natToStr key) @ '' is not valid for ''
                             @ quote (coName (cfgOption exists defaultOptionId)) @ '' option''))
                    | Some index \<Rightarrow>
                        Inr (configGroupUpd exists groupId
                               (\<lambda>g. g\<lparr>cgIndexDefault := index, cgIndexDefaultExists := True\<rparr>))))
            else Inr exists))"

text \<open>
  \<open>configParse\<close>: the results of \<open>getopt_long\<close> over the argument vector, then, for a real
  command, environment, configuration file, groups and validation.
\<close>

definition configParse :: "World \<Rightarrow> ParseRule \<Rightarrow> string \<Rightarrow> GetoptResult list \<Rightarrow> error + Config" where
  "configParse world rules exe argList =
     (case configParseArgList rules (parseStateNew rules exe) argList of
        Inl e \<Rightarrow> Inl e
      | Inr st \<Rightarrow>
     (case configParseArgEnd rules st of
        Inl e \<Rightarrow> Inl e
      | Inr config \<Rightarrow>
     (case
        (if cfgCommand config \<noteq> cfgCmdNone rules \<and> cfgCommand config \<noteq> cfgCmdVersion rules
            \<and> cfgCommand config \<noteq> cfgCmdHelp rules then
           (case configParseEnvList rules config (psOptionList st) (environ world) of
              Inl e \<Rightarrow> Inl e
            | Inr envOptionList \<Rightarrow>
           (case configParseFile world rules config envOptionList of
              Inl e \<Rightarrow> Inl e
            | Inr parseOptionList \<Rightarrow>
           (case configParseGroup rules config parseOptionList of
              Inl e \<Rightarrow> Inl e
            | Inr grouped \<Rightarrow> configParseResolve world rules grouped parseOptionList)))
         else Inr config)
      of
        Inl e \<Rightarrow> Inl e
      | Inr resolved \<Rightarrow>
          foldE (configParseGroupDefault rules) resolved [0..<CFG_OPTION_GROUP_TOTAL rules])))"

subsection \<open>Predicates of the statements\<close>


text \<open>The section-search order in the words of the specification: \<open>[stanza:command]\<close>,
  \<open>[stanza]\<close>, \<open>[global:command]\<close>, \<open>[global]\<close>, the stanza sections only when a stanza is
  known; and the stanza that is known, which is the first value parsed for the stanza option.\<close>

definition sectionSearchOrder :: "string option \<Rightarrow> string \<Rightarrow> string list" where
  "sectionSearchOrder stanza command =
     (case stanza of None \<Rightarrow> [] | Some s \<Rightarrow> [s @ '':'' @ command, s])
     @ [''global:'' @ command, ''global'']"

definition parsedStanza :: "ParseRule \<Rightarrow> ParseOptionList \<Rightarrow> string option" where
  "parsedStanza rules parseOptionList =
     (if parseOptionList (cfgOptStanza rules) = [] then None
      else (case pvValueList (parseOptionList (cfgOptStanza rules) ! 0) of
              Some (stanza # rest) \<Rightarrow> Some stanza
            | _ \<Rightarrow> None))"

text \<open>A key of a section provides \<open>(optionId, k)\<close> when it passes the checks of the loop over
  the keys in front of the test of \<open>found\<close>: it names the option, by no negate or reset alias;
  the option is not command-line-only and is valid for the command and role; a stanza-only
  option is not read from a global section. A section provides the option when one of its
  keys does.\<close>

definition iniKeyProvides ::
  "ParseRule \<Rightarrow> Config \<Rightarrow> string \<Rightarrow> string \<Rightarrow> nat \<Rightarrow> nat \<Rightarrow> bool" where
  "iniKeyProvides rules config section key optionId k =
     (porFound (cfgParseOption rules key) \<and> \<not> porNegate (cfgParseOption rules key)
      \<and> \<not> porReset (cfgParseOption rules key)
      \<and> porId (cfgParseOption rules key) = optionId
      \<and> porKeyIdx (cfgParseOption rules key) = k
      \<and> optSection (parseRuleOption rules ! optionId) \<noteq> cfgSectionCommandLine
      \<and> cfgParseOptionValid rules (cfgCommand config) (cfgCommandRole config) optionId
      \<and> \<not> (optSection (parseRuleOption rules ! optionId) = cfgSectionStanza
            \<and> strBeginsWithZ section CFGDEF_SECTION_GLOBAL))"

definition iniSectionProvides ::
  "ParseRule \<Rightarrow> Config \<Rightarrow> Ini \<Rightarrow> string \<Rightarrow> nat \<Rightarrow> nat \<Rightarrow> bool" where
  "iniSectionProvides rules config ini section optionId k =
     list_ex (\<lambda>key. iniKeyProvides rules config section key optionId k)
       (iniSectionKeyList ini section)"

subsection \<open>A small rule table and environment for the examples\<close>

text \<open>
  One command \<open>backup\<close> besides \<open>help\<close> and \<open>version\<close>, the groups \<open>pg\<close> and \<open>repo\<close>, and a
  handful of options: \<open>config\<close> (0), \<open>config-include-path\<close> (1), \<open>config-path\<close> (2),
  \<open>stanza\<close> (3), \<open>pg\<close> (4), \<open>repo\<close> (5), \<open>pg-path\<close> (6, in group \<open>pg\<close>),
  \<open>log-level\<close> (7), \<open>buffer-size\<close> (8), \<open>exclude\<close> (9), \<open>spool-path\<close> (10).
\<close>

definition exOption ::
  "string \<Rightarrow> ConfigOptionType \<Rightarrow> bool \<Rightarrow> ConfigSection \<Rightarrow> bool \<Rightarrow> OptionalData list \<Rightarrow> ParseRuleOption" where
  "exOption name type required section multi data =
     \<lparr>optName = name, optType = type, optRequired = required, optSection = section,
      optSecure = False, optMulti = multi, optGroup = False, optGroupId = 0,
      optCommandRoleValid = [1, 1, 1, 1], optData = Some (optionalList data)\<rparr>"

definition exDefault :: "string \<Rightarrow> OptionalData" where
  "exDefault s = \<lparr>odType = parseRuleOptionDataTypeDefault, odData = 0, odList = [CellStr 4096 s]\<rparr>"

definition exCommand :: "nat \<Rightarrow> OptionalData" where
  "exCommand c = \<lparr>odType = parseRuleOptionDataTypeCommand, odData = c, odList = []\<rparr>"

definition exRules :: ParseRule where
  "exRules =
     \<lparr>parseRuleCommand =
        [\<lparr>cmdName = ''backup'', cmdCommandRoleValid = 15, cmdParameterAllowed = False\<rparr>,
         \<lparr>cmdName = ''help'', cmdCommandRoleValid = 1, cmdParameterAllowed = True\<rparr>,
         \<lparr>cmdName = ''version'', cmdCommandRoleValid = 1, cmdParameterAllowed = False\<rparr>],
      parseRuleOptionGroup = [''pg'', ''repo''],
      parseRuleOption =
        [exOption ''config'' cfgOptTypeString True cfgSectionCommandLine False
           [exDefault ''/etc/pgbackrest/pgbackrest.conf''],
         exOption ''config-include-path'' cfgOptTypePath True cfgSectionCommandLine False
           [exDefault ''/etc/pgbackrest/conf.d''],
         exOption ''config-path'' cfgOptTypePath False cfgSectionCommandLine False [],
         exOption ''stanza'' cfgOptTypeString True cfgSectionCommandLine False [],
         exOption ''pg'' cfgOptTypeInteger False cfgSectionCommandLine False [],
         exOption ''repo'' cfgOptTypeInteger False cfgSectionCommandLine False [],
         (exOption ''pg-path'' cfgOptTypePath True cfgSectionStanza False [])
           \<lparr>optGroup := True, optGroupId := 0\<rparr>,
         exOption ''log-level'' cfgOptTypeString True cfgSectionGlobal False [exDefault ''warn''],
         exOption ''buffer-size'' cfgOptTypeSize True cfgSectionGlobal False [exDefault ''1048576''],
         exOption ''exclude'' cfgOptTypeList False cfgSectionGlobal True [],
         exOption ''spool-path'' cfgOptTypePath False cfgSectionGlobal False
           [exDefault ''/var/spool/pgbackrest'']],
      optionList =
        [\<lparr>aliasName = ''config'', aliasHasArg = 1, aliasVal = 2 ^ 30\<rparr>,
         \<lparr>aliasName = ''no-config'', aliasHasArg = 0, aliasVal = 2 ^ 30 + 2 ^ 29\<rparr>,
         \<lparr>aliasName = ''config-include-path'', aliasHasArg = 1, aliasVal = 2 ^ 30 + 1\<rparr>,
         \<lparr>aliasName = ''config-path'', aliasHasArg = 1, aliasVal = 2 ^ 30 + 2\<rparr>,
         \<lparr>aliasName = ''stanza'', aliasHasArg = 1, aliasVal = 2 ^ 30 + 3\<rparr>,
         \<lparr>aliasName = ''pg'', aliasHasArg = 1, aliasVal = 2 ^ 30 + 4\<rparr>,
         \<lparr>aliasName = ''repo'', aliasHasArg = 1, aliasVal = 2 ^ 30 + 5\<rparr>,
         \<lparr>aliasName = ''pg1-path'', aliasHasArg = 1, aliasVal = 2 ^ 30 + 6\<rparr>,
         \<lparr>aliasName = ''pg2-path'', aliasHasArg = 1, aliasVal = 2 ^ 30 + 256 + 6\<rparr>,
         \<lparr>aliasName = ''log-level'', aliasHasArg = 1, aliasVal = 2 ^ 30 + 7\<rparr>,
         \<lparr>aliasName = ''buffer-size'', aliasHasArg = 1, aliasVal = 2 ^ 30 + 8\<rparr>,
         \<lparr>aliasName = ''exclude'', aliasHasArg = 1, aliasVal = 2 ^ 30 + 9\<rparr>,
         \<lparr>aliasName = ''spool-path'', aliasHasArg = 1, aliasVal = 2 ^ 30 + 10\<rparr>,
         \<lparr>aliasName = ''no-spool-path'', aliasHasArg = 0, aliasVal = 2 ^ 30 + 2 ^ 29 + 10\<rparr>],
      optionResolveOrder = [0, 1, 2, 3, 4, 5, 6, 7, 8, 9, 10],
      CFG_OPTION_TOTAL = 11,
      CFG_OPTION_GROUP_TOTAL = 2,
      CFG_OPTION_KEY_MAX = 256,
      LIST_INITIAL_SIZE = 8,
      cfgCmdNone = 3,
      cfgCmdHelp = 1,
      cfgCmdVersion = 2,
      cfgOptConfig = 0,
      cfgOptConfigPath = 2,
      cfgOptConfigIncludePath = 1,
      cfgOptStanza = 3,
      cfgOptPg = 4,
      cfgOptRepo = 5,
      cfgOptGrpPg = 0,
      cfgOptGrpRepo = 1\<rparr>"

text \<open>An INI document with the sections \<open>[demo]\<close> and \<open>[global]\<close>.\<close>

definition exIni :: Ini where
  "exIni =
     \<lparr>iniSectionKeyList =
        (\<lambda>section. if section = ''demo'' then [''pg1-path'', ''log-level'']
                    else if section = ''global'' then [''log-level'', ''config'']
                    else []),
      iniSectionKeyIsList = (\<lambda>section key. False),
      iniGet =
        (\<lambda>section key.
           if section = ''demo'' \<and> key = ''pg1-path'' then ''/stanza/db''
           else if section = ''demo'' \<and> key = ''log-level'' then ''detail''
           else if section = ''global'' \<and> key = ''log-level'' then ''info''
           else if section = ''global'' \<and> key = ''config'' then ''/file/pgbackrest.conf''
           else []),
      iniGetList = (\<lambda>section key. [])\<rparr>"

text \<open>A world without files and with an empty environment; the INI parser accepts every
  text and returns the document above.\<close>

definition exWorld :: World where
  "exWorld =
     \<lparr>environ = [],
      storageGet = (\<lambda>file. None),
      storageList = (\<lambda>path expression. None),
      iniParse = (\<lambda>text. Inr exIni),
      cvtZToDoubleMs = (\<lambda>value. Inl (Throw FormatError ''not a number''))\<rparr>"

definition exConfig :: Config where
  "exConfig = (configNew exRules ''pgbackrest'')\<lparr>cfgCommand := 0\<rparr>"

text \<open>Optional data with an unscoped default, a default for command 1 and two defaults in
  the block of command 0.\<close>

definition exScopedData :: "OptionalData list" where
  "exScopedData =
     [exDefault ''warn'', exCommand 1, exDefault ''info'', exCommand 0, exDefault ''detail'',
      exDefault ''debug'']"

definition exScopedRules :: ParseRule where
  "exScopedRules =
     exRules\<lparr>parseRuleOption :=
       [exOption ''log-level'' cfgOptTypeString True cfgSectionGlobal False exScopedData,
        (exOption ''stanza'' cfgOptTypeString True cfgSectionCommandLine False [])
          \<lparr>optData := None\<rparr>]\<rparr>"

text \<open>The same world with a main configuration file.\<close>

definition exWorldFile :: World where
  "exWorldFile =
     exWorld\<lparr>storageGet :=
       (\<lambda>file. if file = ''/etc/pgbackrest/pgbackrest.conf'' then Some ''[global]'' else None)\<rparr>"

text \<open>The values parsed from \<open>--log-level=detail\<close>.\<close>

definition exValue :: "ConfigSource \<Rightarrow> string \<Rightarrow> ParseOptionValue" where
  "exValue source value =
     \<lparr>pvFound = True, pvNegate = False, pvReset = False, pvSource = source,
      pvValueList = Some [value]\<rparr>"

definition exLogLevelParam :: ParseOptionList where
  "exLogLevelParam = (\<lambda>optionId. [])(7 := [exValue cfgSourceParam ''detail''])"

text \<open>The values parsed from \<open>--stanza=demo\<close>, and merged with the sections \<open>[demo]\<close> and
  \<open>[global]\<close> of the document above.\<close>

definition exStanzaParam :: ParseOptionList where
  "exStanzaParam = (\<lambda>optionId. [])(3 := [exValue cfgSourceParam ''demo''])"

definition exStanzaMerged :: ParseOptionList where
  "exStanzaMerged =
     exStanzaParam
       (6 := [exValue cfgSourceConfig ''/stanza/db'', parseOptionValueZero, parseOptionValueZero,
              parseOptionValueZero],
        7 := [exValue cfgSourceConfig ''detail''])"

text \<open>The arguments \<open>--stanza=demo --pg2-path=/db2 --pg1-path=/db/ backup\<close> as \<open>getopt_long\<close> returns
  them, and the values parsed from them.\<close>

definition exArgs :: "GetoptResult list" where
  "exArgs = [GetoptOption 4 ''demo'', GetoptOption 8 ''/db2'', GetoptOption 7 ''/db/'', GetoptArg ''backup'']"

definition exPol :: ParseOptionList where
  "exPol = (\<lambda>optionId. [])
     (3 := [exValue cfgSourceParam ''demo''],
      6 := [exValue cfgSourceParam ''/db/'', exValue cfgSourceParam ''/db2'', parseOptionValueZero, parseOptionValueZero])"

text \<open>The configuration of these arguments after the group phase, after the validation, and
  at the end of the parse.\<close>

definition exGroupedOption :: "string \<Rightarrow> bool \<Rightarrow> ConfigOption" where
  "exGroupedOption name isGroup =
     \<lparr>coName = name, coValid = True, coGroup = isGroup, coGroupId = 0, coIndex = []\<rparr>"

definition exGrouped :: Config where
  "exGrouped =
     exConfig\<lparr>cfgOption :=
         (\<lambda>i. configOptionZero)
           (0 := exGroupedOption ''config'' False,
            1 := exGroupedOption ''config-include-path'' False,
            2 := exGroupedOption ''config-path'' False,
            3 := exGroupedOption ''stanza'' False,
            4 := exGroupedOption ''pg'' False,
            5 := exGroupedOption ''repo'' False,
            6 := exGroupedOption ''pg-path'' True,
            7 := exGroupedOption ''log-level'' False,
            8 := exGroupedOption ''buffer-size'' False,
            9 := exGroupedOption ''exclude'' False,
            10 := exGroupedOption ''spool-path'' False),
       cfgOptionGroup :=
         (\<lambda>i. configOptionGroupZero)
           (0 := configOptionGroupZero\<lparr>cgName := ''pg'', cgValid := True, cgIndexTotal := 2,
                   cgIndexMap := (\<lambda>i. 0)(1 := 1)\<rparr>,
            1 := configOptionGroupZero\<lparr>cgName := ''repo''\<rparr>)\<rparr>"

definition exResolvedValue :: "ConfigSource \<Rightarrow> Variant option \<Rightarrow> ConfigOptionValue" where
  "exResolvedValue source v =
     \<lparr>covNegate = False, covReset = False, covSource = source, covValue = v\<rparr>"

definition exResolvedOption :: "string \<Rightarrow> ConfigSource \<Rightarrow> Variant option \<Rightarrow> ConfigOption" where
  "exResolvedOption name source v =
     \<lparr>coName = name, coValid = True, coGroup = False, coGroupId = 0,
      coIndex = [exResolvedValue source v]\<rparr>"

definition exResolved :: Config where
  "exResolved =
     exGrouped\<lparr>cfgOption :=
         (\<lambda>i. configOptionZero)
           (0 := exResolvedOption ''config'' cfgSourceDefault
                   (Some (VarStr ''/etc/pgbackrest/pgbackrest.conf'')),
            1 := exResolvedOption ''config-include-path'' cfgSourceDefault
                   (Some (VarStr ''/etc/pgbackrest/conf.d'')),
            2 := exResolvedOption ''config-path'' cfgSourceDefault None,
            3 := exResolvedOption ''stanza'' cfgSourceParam (Some (VarStr ''demo'')),
            4 := exResolvedOption ''pg'' cfgSourceDefault None,
            5 := exResolvedOption ''repo'' cfgSourceDefault None,
            6 := \<lparr>coName = ''pg-path'', coValid = True, coGroup = True, coGroupId = 0,
                   coIndex = [exResolvedValue cfgSourceParam (Some (VarStr ''/db'')),
                              exResolvedValue cfgSourceParam (Some (VarStr ''/db2''))]\<rparr>,
            7 := exResolvedOption ''log-level'' cfgSourceDefault (Some (VarStr ''warn'')),
            8 := exResolvedOption ''buffer-size'' cfgSourceDefault (Some (VarInt64 1048576)),
            9 := exResolvedOption ''exclude'' cfgSourceDefault None,
            10 := exResolvedOption ''spool-path'' cfgSourceDefault
                    (Some (VarStr ''/var/spool/pgbackrest'')))\<rparr>"

definition exParsed :: Config where
  "exParsed =
     exResolved\<lparr>cfgOptionGroup :=
         (\<lambda>i. configOptionGroupZero)
           (0 := configOptionGroupZero\<lparr>cgName := ''pg'', cgValid := True, cgIndexTotal := 2,
                   cgIndexDefaultExists := True, cgIndexMap := (\<lambda>i. 0)(1 := 1)\<rparr>,
            1 := configOptionGroupZero\<lparr>cgName := ''repo'', cgIndexDefaultExists := True\<rparr>)\<rparr>"

text \<open>The table with a single boolean option \<open>online\<close> whose default is \<open>1\<close>, and its aliases
  \<open>online\<close> and \<open>no-online\<close>.\<close>

definition exOnlineRules :: ParseRule where
  "exOnlineRules =
     exRules\<lparr>parseRuleOption :=
       [exOption ''online'' cfgOptTypeBoolean True cfgSectionGlobal False [exDefault ''1'']],
       optionList :=
       [\<lparr>aliasName = ''online'', aliasHasArg = 0, aliasVal = 2 ^ 30\<rparr>,
        \<lparr>aliasName = ''no-online'', aliasHasArg = 0, aliasVal = 2 ^ 30 + 2 ^ 29\<rparr>]\<rparr>"

text \<open>The arguments \<open>--stanza=demo backup\<close>, and \<open>--stanza=demo --pg2-path=/db2 --pg1-path=/db/
  --no-spool-path backup\<close> with the values and the configuration parsed from them.\<close>

definition exStanzaArgs :: "GetoptResult list" where
  "exStanzaArgs = [GetoptOption 4 ''demo'', GetoptArg ''backup'']"

definition exNegArgs :: "GetoptResult list" where
  "exNegArgs =
     [GetoptOption 4 ''demo'', GetoptOption 8 ''/db2'', GetoptOption 7 ''/db/'', GetoptOption 13 [],
      GetoptArg ''backup'']"

definition exNegValue :: ParseOptionValue where
  "exNegValue =
     \<lparr>pvFound = True, pvNegate = True, pvReset = False, pvSource = cfgSourceParam,
      pvValueList = None\<rparr>"

definition exNegPol :: ParseOptionList where
  "exNegPol = exPol(10 := [exNegValue])"

definition exNegSlot :: ConfigOptionValue where
  "exNegSlot =
     \<lparr>covNegate = True, covReset = False, covSource = cfgSourceParam, covValue = None\<rparr>"

definition exNegOption :: ConfigOption where
  "exNegOption =
     \<lparr>coName = ''spool-path'', coValid = True, coGroup = False, coGroupId = 0,
      coIndex = [exNegSlot]\<rparr>"

definition exNegResolved :: Config where
  "exNegResolved = exResolved\<lparr>cfgOption := (cfgOption exResolved)(10 := exNegOption)\<rparr>"

definition exNegParsed :: Config where
  "exNegParsed = exParsed\<lparr>cfgOption := (cfgOption exParsed)(10 := exNegOption)\<rparr>"

text \<open>The error of a run without \<open>pg1-path\<close>.\<close>

definition exRequiredError :: error where
  "exRequiredError =
     Throw OptionRequiredError
       (''backup command requires option: pg1-path'' @ [CHR 0x0A]
          @ ''HINT: does this stanza exist?'')"










section \<open>Properties\<close>

subsection \<open>The matcher decides the language of the expression\<close>

inductive_cases langNeverE: "reLang ReNever w"
inductive_cases langEmptyE: "reLang ReEmpty w"
inductive_cases langClassE: "reLang (ReClass cs) w"
inductive_cases langSeqE: "reLang (ReSeq r s) w"
inductive_cases langAltE: "reLang (ReAlt r s) w"

lemma reNullable_lang: "reNullable r \<longleftrightarrow> reLang r []"
proof (induction r)
  case (ReSeq r s)
  show ?case
  proof
    assume "reNullable (ReSeq r s)"
    then have "reLang r []" "reLang s []" using ReSeq by simp_all
    then have "reLang (ReSeq r s) ([] @ [])" by (rule langSeq)
    then show "reLang (ReSeq r s) []" by simp
  next
    assume "reLang (ReSeq r s) []"
    then show "reNullable (ReSeq r s)" using ReSeq by (auto elim!: langSeqE)
  qed
qed (auto intro: reLang.intros elim: langNeverE langEmptyE langClassE langAltE)

lemma langStar_cons:
  "reLang q w \<Longrightarrow> q = ReStar r \<Longrightarrow> w = c # t \<Longrightarrow>
     \<exists>u v. t = u @ v \<and> reLang r (c # u) \<and> reLang (ReStar r) v"
proof (induction arbitrary: t rule: reLang.induct)
  case (langStarStep r' u v)
  show ?case
  proof (cases u)
    case Nil
    then show ?thesis using langStarStep by simp
  next
    case (Cons a u')
    then show ?thesis using langStarStep by auto
  qed
qed simp_all

lemma reDeriv_lang: "reLang (reDeriv c r) w \<longleftrightarrow> reLang r (c # w)"
proof (induction r arbitrary: w)
  case ReNever
  show ?case by (auto elim: langNeverE)
next
  case ReEmpty
  show ?case by (auto elim: langNeverE langEmptyE)
next
  case (ReClass cs)
  show ?case
    by (auto elim: langNeverE langEmptyE langClassE intro: langClass langEmpty)
next
  case (ReSeq r s)
  show ?case
  proof
    assume "reLang (reDeriv c (ReSeq r s)) w"
    then consider (a) "reLang (ReSeq (reDeriv c r) s) w" | (b) "reNullable r" "reLang (reDeriv c s) w"
      by (auto split: if_splits elim: langAltE)
    then show "reLang (ReSeq r s) (c # w)"
    proof cases
      case a
      then obtain u v where "w = u @ v" "reLang (reDeriv c r) u" "reLang s v"
        by (auto elim: langSeqE)
      then have "reLang (ReSeq r s) ((c # u) @ v)" using ReSeq by (intro langSeq) simp_all
      then show ?thesis using \<open>w = u @ v\<close> by simp
    next
      case b
      then have "reLang r []" "reLang s (c # w)" using ReSeq by (simp_all add: reNullable_lang)
      then have "reLang (ReSeq r s) ([] @ (c # w))" by (rule langSeq)
      then show ?thesis by simp
    qed
  next
    assume "reLang (ReSeq r s) (c # w)"
    then obtain u v where uv: "c # w = u @ v" "reLang r u" "reLang s v"
      by (auto elim: langSeqE)
    show "reLang (reDeriv c (ReSeq r s)) w"
    proof (cases u)
      case Nil
      then have "reNullable r" "reLang (reDeriv c s) w" using uv ReSeq by (simp_all add: reNullable_lang)
      then show ?thesis by (simp add: langAltR)
    next
      case (Cons a u')
      then have "reLang (reDeriv c r) u'" "w = u' @ v" using uv ReSeq by simp_all
      then have "reLang (ReSeq (reDeriv c r) s) w" using uv by (auto intro: langSeq)
      then show ?thesis by (simp add: langAltL)
    qed
  qed
next
  case (ReAlt r s)
  then show ?case by (auto elim: langAltE intro: langAltL langAltR)
next
  case (ReStar r)
  show ?case
  proof
    assume "reLang (reDeriv c (ReStar r)) w"
    then obtain u v where "w = u @ v" "reLang (reDeriv c r) u" "reLang (ReStar r) v"
      by (auto elim: langSeqE)
    then have "reLang (ReStar r) ((c # u) @ v)" using ReStar by (intro langStarStep) simp_all
    then show "reLang (ReStar r) (c # w)" using \<open>w = u @ v\<close> by simp
  next
    assume "reLang (ReStar r) (c # w)"
    then obtain u v where "w = u @ v" "reLang r (c # u)" "reLang (ReStar r) v"
      using langStar_cons by blast
    then show "reLang (reDeriv c (ReStar r)) w" using ReStar by (auto intro: langSeq)
  qed
qed

lemma regExpMatchOne_lang: "regExpMatchOne r w \<longleftrightarrow> reLang r w"
  by (induction w arbitrary: r) (simp_all add: reNullable_lang reDeriv_lang)

subsection \<open>Size values\<close>

lemma isDigit_cases:
  "isDigit c \<Longrightarrow> c = CHR ''0'' \<or> c = CHR ''1'' \<or> c = CHR ''2'' \<or> c = CHR ''3'' \<or> c = CHR ''4''
     \<or> c = CHR ''5'' \<or> c = CHR ''6'' \<or> c = CHR ''7'' \<or> c = CHR ''8'' \<or> c = CHR ''9''"
  by (simp add: isDigit_def)

lemma isDigit_not_greater9: "isDigit c \<Longrightarrow> \<not> chrGreater9 c"
  by (drule isDigit_cases) (elim disjE; simp add: chrGreater9_def)

lemma isDigit_not_b: "isDigit c \<Longrightarrow> c \<noteq> CHR ''b''"
  by (drule isDigit_cases) (elim disjE; simp)

lemma isDigit_lower: "isDigit c \<Longrightarrow> chrLower c = c"
  by (drule isDigit_cases) (elim disjE; simp add: chrLower_def)

lemma isDigit_last: "ds \<noteq> [] \<Longrightarrow> list_all isDigit ds \<Longrightarrow> isDigit (last ds)"
  by (simp add: list_all_iff)

lemma reLang_reStr: "reLang (reStr s) w \<longleftrightarrow> w = s"
proof (induction s arbitrary: w)
  case Nil
  show ?case by (auto simp: reStr_def elim: langEmptyE intro: langEmpty)
next
  case (Cons c s)
  have IH: "\<And>w. reLang (foldr (\<lambda>c r. ReSeq (ReClass [c]) r) s ReEmpty) w \<longleftrightarrow> w = s"
    using Cons by (simp add: reStr_def)
  show ?case
  proof
    assume "reLang (reStr (c # s)) w"
    then show "w = c # s"
      by (auto simp: reStr_def IH elim!: langSeqE langClassE)
  next
    assume "w = c # s"
    moreover have "reLang (ReSeq (ReClass [c]) (foldr (\<lambda>c r. ReSeq (ReClass [c]) r) s ReEmpty)) ([c] @ s)"
      by (intro langSeq langClass) (simp_all add: IH)
    ultimately show "reLang (reStr (c # s)) w" by (simp add: reStr_def)
  qed
qed

lemma reLang_reQualifier: "reLang reQualifier q \<longleftrightarrow> q \<in> set sizeQualifierList"
proof -
  have "reLang (foldr (\<lambda>q r. ReAlt (reStr q) r) qs ReNever) q \<longleftrightarrow> q \<in> set qs" for qs
    by (induction qs) (auto simp: reLang_reStr elim: langNeverE langAltE intro: langAltL langAltR)
  then show ?thesis by (simp add: reQualifier_def)
qed

lemma reLang_reDigit: "reLang reDigit w \<longleftrightarrow> (\<exists>c. w = [c] \<and> isDigit c)"
  unfolding reDigit_def isDigit_def by (blast elim: langClassE intro: langClass)

lemma reLang_digitStar: "reLang r w \<Longrightarrow> r = ReStar reDigit \<Longrightarrow> list_all isDigit w"
proof (induction rule: reLang.induct)
  case (langStarStep r u v)
  then have "reLang reDigit u" "list_all isDigit v" by simp_all
  then show ?case by (auto simp: reLang_reDigit)
qed simp_all

lemma reLang_digitStarI: "list_all isDigit w \<Longrightarrow> reLang (ReStar reDigit) w"
proof (induction w)
  case Nil
  show ?case by (rule langStarNil)
next
  case (Cons c w)
  then have "reLang reDigit [c]" "reLang (ReStar reDigit) w"
    by (simp_all add: reLang_reDigit)
  then have "reLang (ReStar reDigit) ([c] @ w)" by (rule langStarStep)
  then show ?case by simp
qed

lemma reLang_digits:
  "reLang (ReSeq reDigit (ReStar reDigit)) w \<longleftrightarrow> w \<noteq> [] \<and> list_all isDigit w"
proof
  assume "reLang (ReSeq reDigit (ReStar reDigit)) w"
  then obtain u v where "w = u @ v" "reLang reDigit u" "reLang (ReStar reDigit) v"
    by (auto elim: langSeqE)
  moreover from this have "list_all isDigit v" "\<exists>c. u = [c] \<and> isDigit c"
    by (simp_all add: reLang_reDigit reLang_digitStar)
  ultimately show "w \<noteq> [] \<and> list_all isDigit w" by auto
next
  assume a: "w \<noteq> [] \<and> list_all isDigit w"
  then obtain c t where w: "w = c # t" by (cases w) auto
  with a have "reLang reDigit [c]" "reLang (ReStar reDigit) t"
    by (simp_all add: reLang_reDigit reLang_digitStarI)
  then have "reLang (ReSeq reDigit (ReStar reDigit)) ([c] @ t)" by (rule langSeq)
  then show "reLang (ReSeq reDigit (ReStar reDigit)) w" using w by simp
qed

lemma sizeRegExpSpec_decomp:
  "regExpMatchOne sizeRegExpSpec w \<longleftrightarrow>
     (\<exists>ds q. w = ds @ q \<and> ds \<noteq> [] \<and> list_all isDigit ds \<and> (q = [] \<or> q \<in> set sizeQualifierList))"
proof
  assume "regExpMatchOne sizeRegExpSpec w"
  then have "reLang sizeRegExpSpec w" by (simp add: regExpMatchOne_lang)
  then obtain ds q where "w = ds @ q" "reLang (ReSeq reDigit (ReStar reDigit)) ds"
      "reLang (ReAlt reQualifier ReEmpty) q"
    unfolding sizeRegExpSpec_def by (auto elim: langSeqE)
  moreover from this have "ds \<noteq> []" "list_all isDigit ds" "q = [] \<or> q \<in> set sizeQualifierList"
    by (auto simp: reLang_digits reLang_reQualifier elim: langAltE langEmptyE)
  ultimately show "\<exists>ds q. w = ds @ q \<and> ds \<noteq> [] \<and> list_all isDigit ds \<and> (q = [] \<or> q \<in> set sizeQualifierList)"
    by blast
next
  assume "\<exists>ds q. w = ds @ q \<and> ds \<noteq> [] \<and> list_all isDigit ds \<and> (q = [] \<or> q \<in> set sizeQualifierList)"
  then obtain ds q where w: "w = ds @ q" and ds: "ds \<noteq> []" "list_all isDigit ds"
    and q: "q = [] \<or> q \<in> set sizeQualifierList" by blast
  have "reLang (ReAlt reQualifier ReEmpty) q"
    using q by (auto simp: reLang_reQualifier intro: langAltL langAltR langEmpty)
  moreover have "reLang (ReSeq reDigit (ReStar reDigit)) ds" using ds by (simp add: reLang_digits)
  ultimately have "reLang sizeRegExpSpec (ds @ q)" unfolding sizeRegExpSpec_def by (rule langSeq[rotated])
  then show "regExpMatchOne sizeRegExpSpec w" using w by (simp add: regExpMatchOne_lang)
qed

lemma sizeRegExp_match:
  assumes "ds \<noteq> []" "list_all isDigit ds" "q = [] \<or> q \<in> set sizeQualifierList"
  shows "regExpMatchOne sizeRegExp (ds @ q)"
proof -
  have "reLang (ReStar reQualifier) q"
  proof (cases "q = []")
    case True
    then show ?thesis by (simp add: langStarNil)
  next
    case False
    then have "reLang reQualifier q" using assms by (simp add: reLang_reQualifier)
    then have "reLang (ReStar reQualifier) (q @ [])" by (intro langStarStep langStarNil)
    then show ?thesis by simp
  qed
  moreover have "reLang (ReSeq reDigit (ReStar reDigit)) ds" using assms by (simp add: reLang_digits)
  ultimately have "reLang sizeRegExp (ds @ q)" unfolding sizeRegExp_def by (rule langSeq[rotated])
  then show ?thesis by (simp add: regExpMatchOne_lang)
qed

lemma nth_last_append1: "(ds @ [a]) ! (length (ds @ [a]) - 1) = a"
  by (simp add: nth_append)

lemma nth_prev_append1: "ds \<noteq> [] \<Longrightarrow> (ds @ [a]) ! (length (ds @ [a]) - 2) = last ds"
  by (cases ds rule: rev_cases) (simp_all add: nth_append)

lemma nth_last_append2: "(ds @ [a, b]) ! (length (ds @ [a, b]) - 1) = b"
  by (simp add: nth_append)

lemma nth_prev_append2: "(ds @ [a, b]) ! (length (ds @ [a, b]) - 2) = a"
  by (simp add: nth_append)

lemma cvtZToUInt64_digits:
  "ds \<noteq> [] \<Longrightarrow> list_all isDigit ds \<Longrightarrow> digitsToNat ds < 2 ^ 64 \<Longrightarrow>
     cvtZToUInt64 ds = Inr (word_of_nat (digitsToNat ds))"
  by (simp add: cvtZToUInt64_def)

lemma convertToByte_none:
  assumes "strLower v = ds" "ds \<noteq> []" "list_all isDigit ds" "digitsToNat ds < 2 ^ 64"
  shows "convertToByte v = Inr (word_of_nat (digitsToNat ds))"
proof -
  have m: "regExpMatchOne sizeRegExp (strLower v)"
    using sizeRegExp_match[of ds "[]"] assms by simp
  have "isDigit (strLower v ! (length (strLower v) - Suc 0))"
    using assms isDigit_last[of ds] by (simp add: last_conv_nth)
  then have l: "strLower v ! (length (strLower v) - Suc 0) \<noteq> CHR ''b''"
      "\<not> chrGreater9 (strLower v ! (length (strLower v) - Suc 0))"
    by (simp_all add: isDigit_not_greater9 isDigit_not_b)
  have c: "cvtZToUInt64 (strLower v) = Inr (word_of_nat (digitsToNat ds))"
    using assms by (simp add: cvtZToUInt64_digits)
  show ?thesis
    unfolding convertToByte_def Let_def by (simp add: m l c)
qed

lemma convertToByte_one:
  assumes "strLower v = ds @ [a]" "ds \<noteq> []" "list_all isDigit ds" "digitsToNat ds < 2 ^ 64"
    "[a] \<in> set sizeQualifierList" "sizeQualifierToMultiplier a = Inr m"
  shows "convertToByte v = Inr (word_of_nat (digitsToNat ds) * m)"
proof -
  have m: "regExpMatchOne sizeRegExp (strLower v)"
    using sizeRegExp_match[of ds "[a]"] assms by simp
  have e1: "strLower v ! (length (strLower v) - Suc 0) = a"
    using assms(1) by (simp add: nth_append)
  have e2: "\<not> chrGreater9 (strLower v ! (length (strLower v) - 2))"
    using assms(1-3) nth_prev_append1[of ds a] isDigit_last[of ds] by (simp add: isDigit_not_greater9)
  have e3: "take (length (strLower v) - Suc 0) (strLower v) = ds"
    using assms(1) by simp
  have c: "cvtZToUInt64 ds = Inr (word_of_nat (digitsToNat ds))"
    using assms by (simp add: cvtZToUInt64_digits)
  have g: "a \<noteq> CHR ''b'' \<Longrightarrow> chrGreater9 a"
    using assms(5) by (auto simp: sizeQualifierList_def chrGreater9_def)
  show ?thesis
  proof (cases "a = CHR ''b''")
    case True
    then show ?thesis
      unfolding convertToByte_def Let_def using assms(6) by (simp add: m e1 e2 e3 c)
  next
    case False
    then show ?thesis
      unfolding convertToByte_def Let_def using assms(6) g by (simp add: m e1 e3 c)
  qed
qed

lemma convertToByte_two:
  assumes "strLower v = ds @ [a, CHR ''b'']" "ds \<noteq> []" "list_all isDigit ds" "digitsToNat ds < 2 ^ 64"
    "[a, CHR ''b''] \<in> set sizeQualifierList" "sizeQualifierToMultiplier a = Inr m"
  shows "convertToByte v = Inr (word_of_nat (digitsToNat ds) * m)"
proof -
  have m: "regExpMatchOne sizeRegExp (strLower v)"
    using sizeRegExp_match[of ds "[a, CHR ''b'']"] assms by simp
  have e1: "strLower v ! (length (strLower v) - Suc 0) = CHR ''b''"
    using assms(1) by (simp add: nth_append)
  have e2: "strLower v ! (length (strLower v) - 2) = a"
    using assms(1) by (simp add: nth_append)
  have e3: "take (length (strLower v) - 2) (strLower v) = ds"
    using assms(1) by simp
  have c: "cvtZToUInt64 ds = Inr (word_of_nat (digitsToNat ds))"
    using assms by (simp add: cvtZToUInt64_digits)
  have g: "chrGreater9 a"
    using assms(5) by (auto simp: sizeQualifierList_def chrGreater9_def)
  show ?thesis
    unfolding convertToByte_def Let_def using assms(6) by (simp add: m e1 e2 e3 c g)
qed

lemma convertToByte_decomp:
  assumes "strLower v = ds @ q" "ds \<noteq> []" "list_all isDigit ds" "digitsToNat ds < 2 ^ 64"
    "q = [] \<or> q \<in> set sizeQualifierList"
  shows "convertToByte v = Inr (word_of_nat (digitsToNat ds * sizeMultiplierSpec q))"
proof -
  consider "q = []" | a where "q = [a]" "[a] \<in> set sizeQualifierList"
    | a where "q = [a, CHR ''b'']" "[a, CHR ''b''] \<in> set sizeQualifierList"
    using assms(5) by (auto simp: sizeQualifierList_def)
  then show ?thesis
  proof cases
    case 1
    then show ?thesis using assms convertToByte_none[of v ds] by (simp add: sizeMultiplierSpec_def)
  next
    case 2
    then have "sizeQualifierToMultiplier a = Inr (word_of_nat (sizeMultiplierSpec q))"
      by (auto simp: sizeQualifierList_def sizeQualifierToMultiplier_def sizeMultiplierSpec_def)
    then show ?thesis using 2 assms convertToByte_one[of v ds a] by simp
  next
    case 3
    then have "sizeQualifierToMultiplier a = Inr (word_of_nat (sizeMultiplierSpec q))"
      by (auto simp: sizeQualifierList_def sizeQualifierToMultiplier_def sizeMultiplierSpec_def)
    then show ?thesis using 3 assms convertToByte_two[of v ds a] by simp
  qed
qed

lemma takeWhile_digits:
  assumes "list_all isDigit ds" "q = [] \<or> q \<in> set sizeQualifierList"
  shows "takeWhile isDigit (ds @ q) = ds \<and> dropWhile isDigit (ds @ q) = q"
proof -
  have "q = [] \<or> \<not> isDigit (hd q)"
    using assms(2) by (auto simp: sizeQualifierList_def isDigit_def)
  then have "takeWhile isDigit q = []" "dropWhile isDigit q = q" by (cases q; auto)+
  then show ?thesis using assms(1) by (simp add: takeWhile_append2 dropWhile_append2 list_all_iff)
qed

lemma convertToByte_spec_match:
  assumes "regExpMatchOne sizeRegExpSpec (strLower v)"
    "digitsToNat (takeWhile isDigit (strLower v)) < 2 ^ 64"
  shows "convertToByte v =
     Inr (word_of_nat (digitsToNat (takeWhile isDigit (strLower v)) *
          sizeMultiplierSpec (dropWhile isDigit (strLower v))))"
proof -
  obtain ds q where d: "strLower v = ds @ q" "ds \<noteq> []" "list_all isDigit ds"
      "q = [] \<or> q \<in> set sizeQualifierList"
    using assms(1) by (auto simp: sizeRegExpSpec_decomp)
  then have t: "takeWhile isDigit (strLower v) = ds" "dropWhile isDigit (strLower v) = q"
    using takeWhile_digits[of ds q] by simp_all
  show ?thesis using convertToByte_decomp[OF d(1-3) _ d(4)] assms(2) t by simp
qed

lemmas convertToByte_eval =
  convertToByte_def strLower_def chrLower_def sizeRegExp_def sizeRegExpSpec_def reDigit_def
  reQualifier_def sizeQualifierList_def reStr_def cvtZToUInt64_def sizeQualifierToMultiplier_def
  isDigit_def digitsToNat_def chrGreater9_def quote_def sizeMultiplierSpec_def

text \<open>
  Claim C3, as amended. A size value whose lower-cased form matches the pattern with at most
  one qualifier, \<open>^[0-9]+(kb|k|mb|m|gb|g|tb|t|pb|p|b)?$\<close>, and whose digits are below \<open>2^64\<close>,
  is accepted and converted to its number times the multiplier of the qualifier (b = 1,
  k = 1024, m = 1024^2, g = 1024^3, t = 1024^4, p = 1024^5), in 64-bit unsigned arithmetic,
  that is modulo \<open>2^64\<close>. A value whose lower-cased form does not match the pattern of the code,
  where the qualifier may be repeated, is rejected with a format error. In particular
  \<open>1kb\<close> gives 1024, \<open>2m\<close> gives 2097152 and \<open>5\<close> gives 5. Nothing is said about values
  with more than one qualifier.
\<close>

theorem convertToByte_size:
  "(regExpMatchOne sizeRegExpSpec (strLower v)
      \<and> digitsToNat (takeWhile isDigit (strLower v)) < 2 ^ 64 \<longrightarrow>
    convertToByte v =
      Inr (word_of_nat (digitsToNat (takeWhile isDigit (strLower v)) *
                        sizeMultiplierSpec (dropWhile isDigit (strLower v)))))
   \<and> (\<not> regExpMatchOne sizeRegExp (strLower w) \<longrightarrow>
        convertToByte w = Inl (Throw FormatError (''value '' @ quote w @ '' is not valid'')))
   \<and> convertToByte ''1kb'' = Inr 1024
   \<and> convertToByte ''2m'' = Inr 2097152
   \<and> convertToByte ''5'' = Inr 5"
proof (intro conjI impI)
  assume "regExpMatchOne sizeRegExpSpec (strLower v)
      \<and> digitsToNat (takeWhile isDigit (strLower v)) < 2 ^ 64"
  then show "convertToByte v =
      Inr (word_of_nat (digitsToNat (takeWhile isDigit (strLower v)) *
                        sizeMultiplierSpec (dropWhile isDigit (strLower v))))"
    using convertToByte_spec_match[of v] by blast
next
  assume "\<not> regExpMatchOne sizeRegExp (strLower w)"
  then show "convertToByte w = Inl (Throw FormatError (''value '' @ quote w @ '' is not valid''))"
    by (simp add: convertToByte_def)
next
  show "convertToByte ''1kb'' = Inr 1024" by (simp add: convertToByte_eval)
next
  show "convertToByte ''2m'' = Inr 2097152" by (simp add: convertToByte_eval)
next
  show "convertToByte ''5'' = Inr 5" by (simp add: convertToByte_eval)
qed

theorem convertToByte_size_witness:
  "regExpMatchOne sizeRegExpSpec (strLower ''3Gb'')
   \<and> digitsToNat (takeWhile isDigit (strLower ''3Gb'')) < 2 ^ 64
   \<and> convertToByte ''3Gb'' = Inr 3221225472
   \<and> \<not> regExpMatchOne sizeRegExp (strLower ''12x'')
   \<and> convertToByte ''12x'' = Inl (Throw FormatError (''value '' @ quote ''12x'' @ '' is not valid''))"
proof -
  have h1: "regExpMatchOne sizeRegExpSpec (strLower ''3Gb'')
      \<and> digitsToNat (takeWhile isDigit (strLower ''3Gb'')) < 2 ^ 64"
    by (simp add: convertToByte_eval)
  have h2: "\<not> regExpMatchOne sizeRegExp (strLower ''12x'')"
    by (simp add: convertToByte_eval)
  have v: "word_of_nat (digitsToNat (takeWhile isDigit (strLower ''3Gb'')) *
              sizeMultiplierSpec (dropWhile isDigit (strLower ''3Gb''))) = (3221225472 :: 64 word)"
    by (simp add: convertToByte_eval)
  from convertToByte_size[of "''3Gb''" "''12x''"] h1 h2 v show ?thesis by simp
qed

text \<open>
  The claim as stated fails: \<open>5bb\<close> does not match the pattern with at most one qualifier and
  is accepted all the same, as 5 bytes; and the product wraps around, \<open>2^54\<close> kB being 0.
\<close>

theorem convertToByte_size_counterexample:
  "\<not> regExpMatchOne sizeRegExpSpec (strLower ''5bb'')
   \<and> convertToByte ''5bb'' = Inr 5
   \<and> convertToByte ''18014398509481984k'' = Inr 0"
  by (simp add: convertToByte_eval)

subsection \<open>Concatenation of configuration parts\<close>

text \<open>
  Claim C4, as amended. \<open>cfgFileLoadPart\<close> leaves the accumulator unchanged for a null or
  empty part. A non-empty part that parses as INI is appended, with a newline separator
  inserted if and only if the accumulator exists (is not NULL), be it empty or not: the
  first part of a parse without main file is stored without a leading separator. A
  non-empty part that does not parse raises the error of the INI parser.
\<close>

theorem cfgFileLoadPart_separator:
  "(configPart = None \<or> configPart = Some [] \<longrightarrow>
      cfgFileLoadPart world config configPart = Inr config)
   \<and> (part \<noteq> [] \<and> iniParse world part = Inr ini \<longrightarrow>
        cfgFileLoadPart world None (Some part) = Inr (Some part)
        \<and> cfgFileLoadPart world (Some acc) (Some part) = Inr (Some (acc @ LF_STR @ part)))
   \<and> (part \<noteq> [] \<and> iniParse world part = Inl e \<longrightarrow>
        cfgFileLoadPart world config (Some part) = Inl e)"
  by (auto simp: cfgFileLoadPart_def)

theorem cfgFileLoadPart_separator_witness:
  "cfgFileLoadPart exWorld (Some ''[global]'') (Some []) = Inr (Some ''[global]'')
   \<and> ''a=b'' \<noteq> [] \<and> iniParse exWorld ''a=b'' = Inr exIni
   \<and> cfgFileLoadPart exWorld None (Some ''a=b'') = Inr (Some ''a=b'')
   \<and> cfgFileLoadPart exWorld (Some ''[global]'') (Some ''a=b'') = Inr (Some (''[global]'' @ LF_STR @ ''a=b''))
   \<and> iniParse (exWorld\<lparr>iniParse := (\<lambda>t. Inl (Throw FormatError ''bad''))\<rparr>) ''a=b'' = Inl (Throw FormatError ''bad'')
   \<and> cfgFileLoadPart (exWorld\<lparr>iniParse := (\<lambda>t. Inl (Throw FormatError ''bad''))\<rparr>) None (Some ''a=b'')
        = Inl (Throw FormatError ''bad'')"
proof -
  have h1: "''a=b'' \<noteq> [] \<and> iniParse exWorld ''a=b'' = Inr exIni" by (simp add: exWorld_def)
  have h2: "''a=b'' \<noteq> [] \<and> iniParse (exWorld\<lparr>iniParse := (\<lambda>t. Inl (Throw FormatError ''bad''))\<rparr>) ''a=b''
             = Inl (Throw FormatError ''bad'')" by simp
  from cfgFileLoadPart_separator[of "Some []" exWorld "Some ''[global]''" "''a=b''" exIni "''[global]''"]
       cfgFileLoadPart_separator[of None "exWorld\<lparr>iniParse := (\<lambda>t. Inl (Throw FormatError ''bad''))\<rparr>" None
          "''a=b''" exIni "[]" "Throw FormatError ''bad''"]
       h1 h2
  show ?thesis by simp
qed

text \<open>
  The claim as stated fails for an accumulator that exists and is empty, as it is after an
  empty main configuration file: the separator is inserted in front of the first part.
\<close>

theorem cfgFileLoadPart_separator_counterexample:
  "cfgFileLoadPart exWorld (Some []) (Some ''[global]'') = Inr (Some (LF_STR @ ''[global]''))
   \<and> LF_STR @ ''[global]'' \<noteq> ''[global]''
   \<and> cfgFileLoad
        (exWorld\<lparr>storageGet := (\<lambda>file. if file = ''/etc/pgbackrest/pgbackrest.conf'' then Some []
                                          else if file = ''/etc/pgbackrest/conf.d/a.conf'' then Some ''[global]''
                                          else None),
                  storageList := (\<lambda>path expression. if path = ''/etc/pgbackrest/conf.d'' then Some [''a.conf''] else None)\<rparr>)
        exRules (\<lambda>optionId. []) ''/etc/pgbackrest/pgbackrest.conf'' ''/etc/pgbackrest/conf.d''
        PGBACKREST_CONFIG_ORIG_PATH_FILE
      = Inr (Some (LF_STR @ ''[global]''))"
  by (simp add: cfgFileLoadPart_def exWorld_def LF_STR_def cfgFileLoad_def parseOptionFound_def
        storageGetP_def storageListP_def cfgFileLoadInclude_def exRules_def Let_def)

subsection \<open>Environment variables without a value\<close>

lemma configParseEnv_skipped:
  "strBeginsWithZ keyValue PGBACKREST_ENV \<Longrightarrow> CHR ''='' \<in> set keyValue \<Longrightarrow>
   \<not> envAccepted rules config keyValue \<Longrightarrow>
   configParseEnv rules config parseOptionList keyValue = Inr parseOptionList"
  by (auto simp: configParseEnv_def envAccepted_def Let_def)

lemma configParseEnv_empty:
  "strBeginsWithZ keyValue PGBACKREST_ENV \<Longrightarrow> CHR ''='' \<in> set keyValue \<Longrightarrow>
   envValue keyValue = [] \<Longrightarrow> envAccepted rules config keyValue \<Longrightarrow>
   configParseEnv rules config parseOptionList keyValue =
     Inl (Throw OptionInvalidValueError
            (''environment variable '' @ quote (envKey keyValue) @ '' must have a value''))"
  by (auto simp: configParseEnv_def envAccepted_def Let_def)

lemma configParseEnvList_skipped:
  "list_all (\<lambda>keyValue. strBeginsWithZ keyValue PGBACKREST_ENV \<and> CHR ''='' \<in> set keyValue
       \<and> \<not> envAccepted rules config keyValue) env \<Longrightarrow>
   configParseEnvList rules config parseOptionList env = Inr parseOptionList"
  by (induction env) (simp_all add: configParseEnv_skipped)

text \<open>
  Claim C9. For an entry of the environment with the prefix \<open>PGBACKREST_\<close> and an empty
  value, \<open>configParse\<close> raises the error "must have a value" exactly when the name derived
  from the entry resolves to a known option that is not a negate or reset alias and is valid
  for the command and role. Every other such entry is skipped: the parsed options stay as
  they are, and an environment of such entries only is passed without an error.
\<close>

theorem configParseEnv_empty_value:
  assumes "strBeginsWithZ keyValue PGBACKREST_ENV" "CHR ''='' \<in> set keyValue"
    "envValue keyValue = []"
  shows "(configParseEnv rules config parseOptionList keyValue =
            Inl (Throw OptionInvalidValueError
                   (''environment variable '' @ quote (envKey keyValue) @ '' must have a value''))
          \<longleftrightarrow> envAccepted rules config keyValue)
     \<and> (\<not> envAccepted rules config keyValue \<longrightarrow>
          configParseEnv rules config parseOptionList keyValue = Inr parseOptionList)
     \<and> (list_all (\<lambda>kv. strBeginsWithZ kv PGBACKREST_ENV \<and> CHR ''='' \<in> set kv
                       \<and> envValue kv = [] \<and> \<not> envAccepted rules config kv) env \<longrightarrow>
          configParseEnvList rules config parseOptionList env = Inr parseOptionList)"
proof (intro conjI impI)
  show "(configParseEnv rules config parseOptionList keyValue =
            Inl (Throw OptionInvalidValueError
                   (''environment variable '' @ quote (envKey keyValue) @ '' must have a value'')))
          = (envAccepted rules config keyValue)"
  proof (cases "envAccepted rules config keyValue")
    case True
    then show ?thesis
      using assms configParseEnv_empty[of keyValue rules config parseOptionList] by simp
  next
    case False
    then show ?thesis
      using assms configParseEnv_skipped[of keyValue rules config parseOptionList] by simp
  qed
next
  assume "\<not> envAccepted rules config keyValue"
  then show "configParseEnv rules config parseOptionList keyValue = Inr parseOptionList"
    using assms by (simp add: configParseEnv_skipped)
next
  assume "list_all (\<lambda>kv. strBeginsWithZ kv PGBACKREST_ENV \<and> CHR ''='' \<in> set kv
                       \<and> envValue kv = [] \<and> \<not> envAccepted rules config kv) env"
  then have "list_all (\<lambda>keyValue. strBeginsWithZ keyValue PGBACKREST_ENV \<and> CHR ''='' \<in> set keyValue
       \<and> \<not> envAccepted rules config keyValue) env"
    by (simp add: list_all_iff)
  then show "configParseEnvList rules config parseOptionList env = Inr parseOptionList"
    by (rule configParseEnvList_skipped)
qed

lemmas exEnv_eval =
  strBeginsWithZ_def PGBACKREST_ENV_def envValue_def envKey_def envAccepted_def cfgParseOption_def
  exRules_def exConfig_def configNew_def cfgParseOptionInfo_def cfgParseOptionValid_def
  strLower_def chrLower_def strReplaceChr_def cfgParseOptionResultZero_def exOption_def quote_def

theorem configParseEnv_empty_value_witness:
  "strBeginsWithZ ''PGBACKREST_LOG_LEVEL='' PGBACKREST_ENV
   \<and> CHR ''='' \<in> set ''PGBACKREST_LOG_LEVEL=''
   \<and> envValue ''PGBACKREST_LOG_LEVEL='' = []
   \<and> envAccepted exRules exConfig ''PGBACKREST_LOG_LEVEL=''
   \<and> configParseEnv exRules exConfig (\<lambda>optionId. []) ''PGBACKREST_LOG_LEVEL='' =
       Inl (Throw OptionInvalidValueError
              (''environment variable '' @ quote ''log-level'' @ '' must have a value''))
   \<and> strBeginsWithZ ''PGBACKREST_NO_CONFIG='' PGBACKREST_ENV
   \<and> CHR ''='' \<in> set ''PGBACKREST_NO_CONFIG=''
   \<and> envValue ''PGBACKREST_NO_CONFIG='' = []
   \<and> \<not> envAccepted exRules exConfig ''PGBACKREST_NO_CONFIG=''
   \<and> configParseEnv exRules exConfig (\<lambda>optionId. []) ''PGBACKREST_NO_CONFIG='' = Inr (\<lambda>optionId. [])
   \<and> configParseEnvList exRules exConfig (\<lambda>optionId. [])
        [''PGBACKREST_NO_CONFIG='', ''PGBACKREST_BOGUS=''] = Inr (\<lambda>optionId. [])"
proof -
  have a: "strBeginsWithZ ''PGBACKREST_LOG_LEVEL='' PGBACKREST_ENV"
    "CHR ''='' \<in> set ''PGBACKREST_LOG_LEVEL=''" "envValue ''PGBACKREST_LOG_LEVEL='' = []"
    by (simp_all add: exEnv_eval)
  have a': "envAccepted exRules exConfig ''PGBACKREST_LOG_LEVEL=''"
     "envKey ''PGBACKREST_LOG_LEVEL='' = ''log-level''"
    by (simp_all add: exEnv_eval)
  have b: "strBeginsWithZ ''PGBACKREST_NO_CONFIG='' PGBACKREST_ENV"
    "CHR ''='' \<in> set ''PGBACKREST_NO_CONFIG=''" "envValue ''PGBACKREST_NO_CONFIG='' = []"
    by (simp_all add: exEnv_eval)
  have b': "\<not> envAccepted exRules exConfig ''PGBACKREST_NO_CONFIG=''"
    by (simp add: exEnv_eval)
  have k: "envKey ''PGBACKREST_BOGUS='' = ''bogus''"
    by (simp add: envKey_def PGBACKREST_ENV_def strLower_def chrLower_def strReplaceChr_def)
  have o: "cfgParseOption exRules ''bogus'' = cfgParseOptionResultZero"
    by (simp add: cfgParseOption_def exRules_def)
  have s: "\<not> envAccepted exRules exConfig ''PGBACKREST_BOGUS=''"
    by (simp add: envAccepted_def k o cfgParseOptionResultZero_def)
  have g: "strBeginsWithZ ''PGBACKREST_BOGUS='' PGBACKREST_ENV"
    "CHR ''='' \<in> set ''PGBACKREST_BOGUS=''" "envValue ''PGBACKREST_BOGUS='' = []"
    by (simp_all add: strBeginsWithZ_def PGBACKREST_ENV_def envValue_def)
  have c: "list_all (\<lambda>kv. strBeginsWithZ kv PGBACKREST_ENV \<and> CHR ''='' \<in> set kv
                       \<and> envValue kv = [] \<and> \<not> envAccepted exRules exConfig kv)
             [''PGBACKREST_NO_CONFIG='', ''PGBACKREST_BOGUS='']"
    unfolding list.pred_inject by (intro conjI b b' g s) (rule list.pred_inject(1))
  have r1: "configParseEnv exRules exConfig (\<lambda>optionId. []) ''PGBACKREST_LOG_LEVEL='' =
       Inl (Throw OptionInvalidValueError
              (''environment variable '' @ quote ''log-level'' @ '' must have a value''))"
    using configParseEnv_empty_value[OF a, of exRules exConfig "\<lambda>optionId. []" "[]",
            THEN conjunct1, THEN iffD2, OF a'(1)]
    by (simp only: a'(2))
  have r2: "configParseEnv exRules exConfig (\<lambda>optionId. []) ''PGBACKREST_NO_CONFIG='' = Inr (\<lambda>optionId. [])"
    by (rule configParseEnv_empty_value[OF b, THEN conjunct2, THEN conjunct1, THEN mp, OF b'])
  have r3: "configParseEnvList exRules exConfig (\<lambda>optionId. [])
        [''PGBACKREST_NO_CONFIG='', ''PGBACKREST_BOGUS=''] = Inr (\<lambda>optionId. [])"
    by (rule configParseEnv_empty_value[OF b, THEN conjunct2, THEN conjunct2, THEN mp, OF c])
  show ?thesis
    by (intro conjI) (rule a a'(1) b b' r1 r2 r3)+
qed

subsection \<open>Lookup of optional data\<close>

lemma optionalPush_decode:
  assumes "optionalValid r"
  shows "(cellBits (hd (optionalPush r)) div 2 ^ 24) mod 256 = odType r"
    and "(cellBits (hd (optionalPush r)) div 2 ^ 16) mod 256 = length (odList r)"
    and "cellBits (hd (optionalPush r)) mod 65536 = odData r"
proof -
  let ?t = "odType r" and ?n = "length (odList r)" and ?d = "odData r"
  have b: "?t < 256" "?n < 256" "?d < 65536" using assms by (simp_all add: optionalValid_def)
  have h: "cellBits (hd (optionalPush r)) = ?t * 16777216 + ?n * 65536 + ?d"
    by (simp add: optionalPush_def)
  have low: "?n * 65536 + ?d < 16777216" using b by simp
  have "(?t * 16777216 + ?n * 65536 + ?d) div 16777216 = ?t"
    using low by (simp add: add.assoc)
  then show "(cellBits (hd (optionalPush r)) div 2 ^ 24) mod 256 = odType r"
    using b h by simp
  have "(?t * 16777216 + ?n * 65536 + ?d) div 65536 = ?t * 256 + ?n"
    using b by simp
  then show "(cellBits (hd (optionalPush r)) div 2 ^ 16) mod 256 = length (odList r)"
    using b h by simp
  have "(?t * 16777216 + ?n * 65536 + ?d) mod 65536 = ?d"
    using b by (simp add: add.assoc mod_add_eq [symmetric, of "?t * 16777216"]) 
  then show "cellBits (hd (optionalPush r)) mod 65536 = odData r"
    using h by simp
qed


lemma optionalPush_nth:
  "(pre @ optionalPush r @ rest) ! length pre = hd (optionalPush r)"
  by (simp add: optionalPush_def nth_append)

lemma optionalPush_length: "length (optionalPush r) = length (odList r) + 1"
  by (simp add: optionalPush_def)

lemma optionalPush_drop:
  "drop (length pre + 1) (pre @ optionalPush r @ rest) = odList r @ rest"
  by (simp add: optionalPush_def)

lemma loop_step:
  assumes "optionalValid r"
  shows "parseRuleOptionDataFindLoop (pre @ optionalPush r @ rest) typeFind commandId (length pre)
           commandCurrent result =
     (if odIsCommand r then
        (if commandCurrent = commandId then result
         else parseRuleOptionDataFindLoop (pre @ optionalPush r @ rest) typeFind commandId
                (length (pre @ optionalPush r)) (odData r) result)
      else if odType r = typeFind \<and> (commandCurrent = UINT_MAX \<or> commandCurrent = commandId) then
        (if commandCurrent = commandId then
           \<lparr>pdFound = True, pdData = odData r, pdListSize = length (odList r),
            pdList = odList r @ rest\<rparr>
         else parseRuleOptionDataFindLoop (pre @ optionalPush r @ rest) typeFind commandId
                (length (pre @ optionalPush r)) commandCurrent
                \<lparr>pdFound = True, pdData = odData r, pdListSize = length (odList r),
                 pdList = odList r @ rest\<rparr>)
      else parseRuleOptionDataFindLoop (pre @ optionalPush r @ rest) typeFind commandId
             (length (pre @ optionalPush r)) commandCurrent result)"
proof -
  have t: "0 < odType r" using assms by (simp add: optionalValid_def)
  have l: "\<not> length (pre @ optionalPush r @ rest) \<le> length pre"
    by (simp add: optionalPush_def)
  have o: "length pre + length (odList r) + 1 = length (pre @ optionalPush r)"
    by (simp add: optionalPush_length)
  show ?thesis
    apply (subst parseRuleOptionDataFindLoop.simps)
    apply (simp only: l if_False Let_def optionalPush_nth optionalPush_decode[OF assms]
        optionalPush_drop o)
    using t by (auto simp: odIsCommand_def parseRuleOptionDataTypeEnd_def)
qed

lemma loop_end:
  assumes "0 < typeFind"
  shows "parseRuleOptionDataFindLoop (pre @ [CellInt 0]) typeFind commandId (length pre)
           commandCurrent result = result"
  apply (subst parseRuleOptionDataFindLoop.simps)
  using assms
  by (simp add: nth_append parseRuleOptionDataTypeCommand_def parseRuleOptionDataTypeEnd_def)

lemma loop_records:
  assumes "list_all optionalValid rs" "0 < typeFind" "pdView result = map_option odView acc"
  shows "pdView (parseRuleOptionDataFindLoop (pre @ concat (map optionalPush rs) @ [CellInt 0])
                   typeFind commandId (length pre) commandCurrent result)
         = map_option odView (optionalFindLoop typeFind commandId commandCurrent acc rs)"
  using assms
proof (induction rs arbitrary: pre commandCurrent result acc)
  case Nil
  then show ?case by (simp add: loop_end)
next
  case (Cons r rs)
  let ?rest = "concat (map optionalPush rs) @ [CellInt 0]"
  let ?new = "\<lparr>pdFound = True, pdData = odData r, pdListSize = length (odList r),
               pdList = odList r @ ?rest\<rparr>"
  have v: "optionalValid r" "list_all optionalValid rs" using Cons.prems by simp_all
  have n: "pdView ?new = map_option odView (Some r)"
    by (simp add: pdView_def odView_def)
  have e: "pre @ concat (map optionalPush (r # rs)) @ [CellInt 0] = pre @ optionalPush r @ ?rest"
    by simp
  have e2: "pre @ optionalPush r @ ?rest = (pre @ optionalPush r) @ ?rest" by simp
  note IH = Cons.IH[OF v(2) Cons.prems(2), of _ _ "pre @ optionalPush r"]
  show ?case
    unfolding e loop_step[OF v(1)]
    unfolding e2
    using IH[OF Cons.prems(3)] IH[OF n] Cons.prems(3) n
    by (simp del: append_assoc)
qed


lemma optionalFindLoop_scoped:
  "optionalFindLoop typeFind commandId commandId result rs =
     (case filter (\<lambda>r. odType r = typeFind) (takeWhile (\<lambda>r. \<not> odIsCommand r) rs) of
        r # _ \<Rightarrow> Some r | [] \<Rightarrow> result)"
  by (induction rs) auto

lemma optionalFindLoop_other:
  assumes "list_all optionalValid rs" "commandCurrent \<noteq> commandId" "commandCurrent \<noteq> UINT_MAX"
  shows "optionalFindLoop typeFind commandId commandCurrent result rs =
     (case filter (\<lambda>r. odType r = typeFind) (optionalScoped commandId rs) of
        r # _ \<Rightarrow> Some r | [] \<Rightarrow> result)"
  using assms
proof (induction rs arbitrary: commandCurrent)
  case Nil
  then show ?case by (simp add: optionalScoped_def)
next
  case (Cons r rs)
  have d: "odData r \<noteq> UINT_MAX"
    using Cons.prems(1) by (simp add: optionalValid_def UINT_MAX_def)
  show ?case
  proof (cases "odIsCommand r")
    case True
    show ?thesis
    proof (cases "odData r = commandId")
      case eq: True
      then show ?thesis
        using True Cons.prems by (simp add: optionalFindLoop_scoped optionalScoped_def)
    next
      case False
      then have "optionalFindLoop typeFind commandId (odData r) result rs =
        (case filter (\<lambda>r. odType r = typeFind) (optionalScoped commandId rs) of
           r # _ \<Rightarrow> Some r | [] \<Rightarrow> result)"
        using Cons.IH[of "odData r"] Cons.prems(1) d by simp
      then show ?thesis
        using True False Cons.prems by (simp add: optionalScoped_def)
    qed
  next
    case False
    then show ?thesis
      using Cons.IH[of commandCurrent] Cons.prems by (simp add: optionalScoped_def)
  qed
qed

lemma optionalFindLoop_unscoped:
  assumes "list_all optionalValid rs" "commandId \<noteq> UINT_MAX"
  shows "optionalFindLoop typeFind commandId UINT_MAX result rs =
     (case filter (\<lambda>r. odType r = typeFind) (optionalScoped commandId rs) of
        r # _ \<Rightarrow> Some r
      | [] \<Rightarrow>
          (case filter (\<lambda>r. odType r = typeFind) (optionalUnscoped rs) of
             [] \<Rightarrow> result
           | x # xs \<Rightarrow> Some (last (x # xs))))"
  using assms
proof (induction rs arbitrary: result)
  case Nil
  then show ?case by (simp add: optionalScoped_def optionalUnscoped_def)
next
  case (Cons r rs)
  have d: "odData r \<noteq> UINT_MAX"
    using Cons.prems(1) by (simp add: optionalValid_def UINT_MAX_def)
  have v: "list_all optionalValid rs" using Cons.prems(1) by simp
  show ?case
  proof (cases "odIsCommand r")
    case True
    show ?thesis
    proof (cases "odData r = commandId")
      case eq: True
      then show ?thesis
        using True Cons.prems
        by (simp add: optionalFindLoop_scoped optionalScoped_def optionalUnscoped_def
              split: list.splits)
    next
      case False
      then show ?thesis
        using True Cons.prems optionalFindLoop_other[OF v, of "odData r" commandId typeFind result] d
        by (simp add: optionalScoped_def optionalUnscoped_def split: list.splits)
    qed
  next
    case False
    have s: "optionalScoped commandId (r # rs) = optionalScoped commandId rs"
      using False by (simp add: optionalScoped_def)
    have u: "optionalUnscoped (r # rs) = r # optionalUnscoped rs"
      using False by (simp add: optionalUnscoped_def)
    show ?thesis
    proof (cases "odType r = typeFind")
      case True
      then show ?thesis
        using False Cons.IH[OF v Cons.prems(2), of "Some r"] Cons.prems(2)
        by (auto simp: s u split: list.splits)
    next
      case nt: False
      then show ?thesis
        using False Cons.IH[OF v Cons.prems(2), of result]
        by (simp add: s u split: list.splits)
    qed
  qed
qed

text \<open>
  Claim C5, as amended. For an option whose optional data is a well-formed array of records
  (types 1 to 255, lists below 256 entries, data below \<open>2^16\<close>, ended by NULL), a tag other than
  \<open>End\<close> and a command id below \<open>UINT_MAX\<close>, \<open>parseRuleOptionDataFind\<close> returns the first
  record of the tag in the first block scoped to the requested command by a \<open>Command\<close>
  record; if that block has no such record, or there is no such block, it returns the last
  record of the tag among the unscoped records in front of the first \<open>Command\<close> record; if
  there is none either, \<open>found\<close> is false. An option without optional data is never found.
\<close>

theorem parseRuleOptionDataFind_first:
  "(optData (parseRuleOption rules ! optionId) = Some (optionalList rs)
      \<and> list_all optionalValid rs \<and> 0 < typeFind \<and> commandId < UINT_MAX \<longrightarrow>
    pdView (parseRuleOptionDataFind rules typeFind commandId optionId) =
      map_option odView (optionalFindFirst typeFind commandId rs))
   \<and> (optData (parseRuleOption rules ! optionId) = None \<longrightarrow>
        \<not> pdFound (parseRuleOptionDataFind rules typeFind commandId optionId))"
proof (intro conjI impI)
  assume a: "optData (parseRuleOption rules ! optionId) = Some (optionalList rs)
      \<and> list_all optionalValid rs \<and> 0 < typeFind \<and> commandId < UINT_MAX"
  have z: "pdView parseRuleOptionDataZero = map_option odView None"
    by (simp add: pdView_def parseRuleOptionDataZero_def)
  have "pdView (parseRuleOptionDataFindLoop ([] @ concat (map optionalPush rs) @ [CellInt 0])
                   typeFind commandId (length ([] :: cell list)) UINT_MAX parseRuleOptionDataZero)
         = map_option odView (optionalFindLoop typeFind commandId UINT_MAX None rs)"
    using a z by (intro loop_records) simp_all
  moreover have "optionalFindLoop typeFind commandId UINT_MAX None rs
      = optionalFindFirst typeFind commandId rs"
    using a by (simp add: optionalFindLoop_unscoped optionalFindFirst_def split: list.splits)
  ultimately show "pdView (parseRuleOptionDataFind rules typeFind commandId optionId) =
      map_option odView (optionalFindFirst typeFind commandId rs)"
    using a by (simp add: parseRuleOptionDataFind_def optionalList_def)
next
  assume "optData (parseRuleOption rules ! optionId) = None"
  then show "\<not> pdFound (parseRuleOptionDataFind rules typeFind commandId optionId)"
    by (simp add: parseRuleOptionDataFind_def parseRuleOptionDataZero_def)
qed


lemmas exScoped_eval =
  exScopedRules_def exScopedData_def exDefault_def exCommand_def exOption_def exRules_def
  optionalList_def optionalPush_def parseRuleOptionDataTypeDefault_def
  parseRuleOptionDataTypeCommand_def parseRuleOptionDataTypeEnd_def UINT_MAX_def

theorem parseRuleOptionDataFind_first_witness:
  "optData (parseRuleOption exScopedRules ! 0) = Some (optionalList exScopedData)
   \<and> list_all optionalValid exScopedData
   \<and> 0 < parseRuleOptionDataTypeDefault \<and> (0::nat) < UINT_MAX
   \<and> pdView (parseRuleOptionDataFind exScopedRules parseRuleOptionDataTypeDefault 0 0)
       = Some (0, [CellStr 4096 ''detail''])
   \<and> optData (parseRuleOption exScopedRules ! 1) = None
   \<and> \<not> pdFound (parseRuleOptionDataFind exScopedRules parseRuleOptionDataTypeDefault 0 1)"
proof -
  have h: "optData (parseRuleOption exScopedRules ! 0) = Some (optionalList exScopedData)
      \<and> list_all optionalValid exScopedData
      \<and> 0 < parseRuleOptionDataTypeDefault \<and> (0::nat) < UINT_MAX"
    by (simp add: exScoped_eval optionalValid_def)
  have n: "optData (parseRuleOption exScopedRules ! 1) = None"
    by (simp add: exScoped_eval)
  have f: "map_option odView (optionalFindFirst parseRuleOptionDataTypeDefault 0 exScopedData)
      = Some (0, [CellStr 4096 ''detail''])"
    by (simp add: optionalFindFirst_def optionalScoped_def optionalUnscoped_def odIsCommand_def
          odView_def exScoped_eval)
  have r1: "pdView (parseRuleOptionDataFind exScopedRules parseRuleOptionDataTypeDefault 0 0)
       = Some (0, [CellStr 4096 ''detail''])"
    using parseRuleOptionDataFind_first[of exScopedRules 0 exScopedData
            parseRuleOptionDataTypeDefault 0, THEN conjunct1, THEN mp, OF h]
    by (simp only: f)
  have r2: "\<not> pdFound (parseRuleOptionDataFind exScopedRules parseRuleOptionDataTypeDefault 0 1)"
    by (rule parseRuleOptionDataFind_first[of exScopedRules 1 exScopedData
            parseRuleOptionDataTypeDefault 0, THEN conjunct2, THEN mp, OF n])
  show ?thesis using h n r1 r2 by simp
qed

text \<open>
  The claim as stated fails: with two records of the tag in the block of the command, the
  lookup returns the first one, \<open>detail\<close>, and not the last one, \<open>debug\<close>.
\<close>

theorem parseRuleOptionDataFind_last_counterexample:
  "pdView (parseRuleOptionDataFind exScopedRules parseRuleOptionDataTypeDefault 0 0)
     = Some (0, [CellStr 4096 ''detail''])
   \<and> map_option odView (optionalFindSpec parseRuleOptionDataTypeDefault 0 exScopedData)
       = Some (0, [CellStr 4096 ''debug''])"
proof -
  have "pdView (parseRuleOptionDataFindLoop (optionalList exScopedData)
                  parseRuleOptionDataTypeDefault 0 0 UINT_MAX parseRuleOptionDataZero)
     = Some (0, [CellStr 4096 ''detail''])"
    by (simp add: parseRuleOptionDataFindLoop.simps exScoped_eval pdView_def
          parseRuleOptionDataZero_def)
  moreover have "optData (parseRuleOption exScopedRules ! 0) = Some (optionalList exScopedData)"
    by (simp add: exScopedRules_def exOption_def)
  moreover have "map_option odView (optionalFindSpec parseRuleOptionDataTypeDefault 0 exScopedData)
       = Some (0, [CellStr 4096 ''debug''])"
    by (simp add: optionalFindSpec_def optionalUnscoped_def odIsCommand_def odView_def
          exScoped_eval)
  ultimately show ?thesis by (simp add: parseRuleOptionDataFind_def)
qed

subsection \<open>Values found are kept by the later sources\<close>

lemma parseOptionIdxValue_other:
  "optionId' \<noteq> optionId \<Longrightarrow>
   parseOptionIdxValue rules pol optionId k optionId' = pol optionId'"
  by (simp add: parseOptionIdxValue_def)

lemma parseOptionIdxValue_keep:
  assumes "optGroup (parseRuleOption rules ! optionId) \<or> k = 0" "k' < length (pol optionId')"
  shows "k' < length (parseOptionIdxValue rules pol optionId k optionId')
         \<and> parseOptionIdxValue rules pol optionId k optionId' ! k' = pol optionId' ! k'"
  using assms by (auto simp: parseOptionIdxValue_def nth_append)

lemma parseOptionIdxValue_alloc:
  assumes "optGroup (parseRuleOption rules ! optionId) \<or> k = 0"
  shows "k < length (parseOptionIdxValue rules pol optionId k optionId)"
  using assms by (auto simp: parseOptionIdxValue_def)

lemma parseOptionIdxValue_new:
  assumes "length (pol optionId') \<le> k'" "k' < length (parseOptionIdxValue rules pol optionId k optionId')"
  shows "parseOptionIdxValue rules pol optionId k optionId' ! k' = parseOptionValueZero"
  using assms
  by (auto simp: parseOptionIdxValue_def nth_append nth_Cons split: if_splits nat.splits)

lemma parseOptionIdxValue_found:
  assumes "optGroup (parseRuleOption rules ! optionId) \<or> k = 0"
  shows "parseOptionIsFound (parseOptionIdxValue rules pol optionId k) optionId' k'
         = parseOptionIsFound pol optionId' k'"
proof (cases "k' < length (pol optionId')")
  case True
  then show ?thesis
    using parseOptionIdxValue_keep[of rules optionId k k' pol optionId'] assms
    by (simp add: parseOptionIsFound_def)
next
  case False
  then show ?thesis
    using parseOptionIdxValue_new[of pol optionId' k' rules optionId k]
    by (auto simp: parseOptionIsFound_def parseOptionValueZero_def)
qed

text \<open>The pattern shared by the three sources: grow, then write only a value not yet found.\<close>

lemma parseOptionSet_keep:
  assumes "optGroup (parseRuleOption rules ! optionId) \<or> k = 0"
    and "parseOptionIsFound pol optionId' k'"
    and "\<not> pvFound (parseOptionGet (parseOptionIdxValue rules pol optionId k) optionId k)"
  shows "k' < length (parseOptionSet (parseOptionIdxValue rules pol optionId k) optionId k v optionId')
     \<and> parseOptionSet (parseOptionIdxValue rules pol optionId k) optionId k v optionId' ! k'
         = pol optionId' ! k'"
proof -
  have l: "k' < length (pol optionId')" using assms(2) by (simp add: parseOptionIsFound_def)
  have keep: "k' < length (parseOptionIdxValue rules pol optionId k optionId')
         \<and> parseOptionIdxValue rules pol optionId k optionId' ! k' = pol optionId' ! k'"
    using parseOptionIdxValue_keep[of rules optionId k k' pol optionId'] assms(1) l by simp
  have "\<not> (optionId' = optionId \<and> k' = k)"
    using assms keep by (auto simp: parseOptionGet_def parseOptionIsFound_def)
  then show ?thesis
    using keep by (auto simp: parseOptionSet_def)
qed

lemma parseOptionGrow_keep:
  assumes "optGroup (parseRuleOption rules ! optionId) \<or> k = 0"
    and "parseOptionIsFound pol optionId' k'"
  shows "k' < length (parseOptionIdxValue rules pol optionId k optionId')
     \<and> parseOptionIdxValue rules pol optionId k optionId' ! k' = pol optionId' ! k'"
  using assms parseOptionIdxValue_keep[of rules optionId k k' pol optionId']
  by (simp add: parseOptionIsFound_def)

lemma cfgParseOption_valid:
  assumes "optionListValid rules" "porFound (cfgParseOption rules key)"
  shows "aliasKeyValid rules (cfgParseOption rules key)"
proof (cases "find (\<lambda>a. aliasName a = key) (optionList rules)")
  case None
  then show ?thesis using assms(2) by (simp add: cfgParseOption_def cfgParseOptionResultZero_def)
next
  case (Some a)
  then have "a \<in> set (optionList rules)"
    by (auto simp: find_Some_iff)
  then have "aliasKeyValid rules (cfgParseOptionInfo (aliasVal a))"
    using assms(1) by (simp add: optionListValid_def list_all_iff)
  then show ?thesis using Some by (simp add: cfgParseOption_def)
qed




lemma foldE_keep:
  assumes step: "\<And>s x s'. f s x = Inr s' \<Longrightarrow> P s \<Longrightarrow> P s' \<and> Q s' = Q s"
    and "foldE f s xs = Inr s'" "P s"
  shows "P s' \<and> Q s' = Q s"
  using assms(2,3)
proof (induction xs arbitrary: s)
  case Nil
  then show ?case by simp
next
  case (Cons x xs)
  then obtain mid where m: "f s x = Inr mid" "foldE f mid xs = Inr s'"
    by (auto split: sum.splits)
  have "P mid \<and> Q mid = Q s" using step[OF m(1) Cons.prems(2)] .
  then show ?case using Cons.IH[OF m(2)] by simp
qed

lemma configParseIniKey_keep:
  assumes "optionListValid rules" "configParseIniKey rules config ini section st key = Inr st'"
    "parseOptionIsFound (isOptionList st) optionId k"
  shows "k < length (isOptionList st' optionId)
         \<and> isOptionList st' optionId ! k = isOptionList st optionId ! k"
proof (cases "porFound (cfgParseOption rules key)")
  case False
  then show ?thesis
    using assms(2,3)
    by (auto simp: configParseIniKey_def Let_def parseOptionIsFound_def split: if_splits)
next
  case True
  let ?o = "cfgParseOption rules key"
  let ?pol = "isOptionList st"
  have v: "optGroup (parseRuleOption rules ! porId ?o) \<or> porKeyIdx ?o = 0"
    using cfgParseOption_valid[OF assms(1)] True by (simp add: aliasKeyValid_def)
  note g = parseOptionGrow_keep[of rules "porId ?o" "porKeyIdx ?o" ?pol optionId k, OF v assms(3)]
  have s: "\<And>w. \<not> pvFound (parseOptionGet (parseOptionIdxValue rules ?pol (porId ?o) (porKeyIdx ?o))
                    (porId ?o) (porKeyIdx ?o)) \<Longrightarrow>
     k < length (parseOptionSet (parseOptionIdxValue rules ?pol (porId ?o) (porKeyIdx ?o))
                  (porId ?o) (porKeyIdx ?o) w optionId)
     \<and> parseOptionSet (parseOptionIdxValue rules ?pol (porId ?o) (porKeyIdx ?o))
                  (porId ?o) (porKeyIdx ?o) w optionId ! k = ?pol optionId ! k"
    using parseOptionSet_keep[of rules "porId ?o" "porKeyIdx ?o" ?pol optionId k] v assms(3)
    by blast
  show ?thesis
    using assms(2,3) True g s
    by (auto simp: configParseIniKey_def Let_def parseOptionIsFound_def
          split: if_splits option.splits)
qed

lemma configParseIniSection_keep:
  assumes "optionListValid rules" "configParseIniSection rules config ini pol section = Inr pol'"
    "parseOptionIsFound pol optionId k"
  shows "k < length (pol' optionId) \<and> pol' optionId ! k = pol optionId ! k"
proof -
  let ?P = "\<lambda>st. parseOptionIsFound (isOptionList st) optionId k"
  let ?Q = "\<lambda>st. (k < length (isOptionList st optionId), isOptionList st optionId ! k)"
  obtain st' where f: "foldE (configParseIniKey rules config ini section)
      \<lparr>isOptionFound = [], isOptionList = pol\<rparr> (iniSectionKeyList ini section) = Inr st'"
    and p: "pol' = isOptionList st'"
    using assms(2) by (auto simp: configParseIniSection_def split: sum.splits)
  have "?P st' \<and> ?Q st' = ?Q \<lparr>isOptionFound = [], isOptionList = pol\<rparr>"
  proof (rule foldE_keep[where f = "configParseIniKey rules config ini section", OF _ f])
    fix s x s'
    assume a: "configParseIniKey rules config ini section s x = Inr s'" "?P s"
    show "?P s' \<and> ?Q s' = ?Q s"
      using configParseIniKey_keep[OF assms(1) a(1) a(2)] a(2)
      by (simp add: parseOptionIsFound_def)
  next
    show "?P \<lparr>isOptionFound = [], isOptionList = pol\<rparr>" using assms(3) by simp
  qed
  then show ?thesis using p assms(3) by (simp add: parseOptionIsFound_def)
qed

lemma configParseIni_keep:
  assumes "optionListValid rules" "configParseIni rules config ini pol sectionList = Inr pol'"
    "parseOptionIsFound pol optionId k"
  shows "k < length (pol' optionId) \<and> pol' optionId ! k = pol optionId ! k"
proof -
  let ?P = "\<lambda>pol. parseOptionIsFound pol optionId k"
  let ?Q = "\<lambda>pol. (k < length (pol optionId), pol optionId ! k)"
  have "?P pol' \<and> ?Q pol' = ?Q pol"
  proof (rule foldE_keep[where f = "configParseIniSection rules config ini" and xs = sectionList])
    fix s x s'
    assume a: "configParseIniSection rules config ini s x = Inr s'" "?P s"
    show "?P s' \<and> ?Q s' = ?Q s"
      using configParseIniSection_keep[OF assms(1) a(1) a(2)] a(2)
      by (simp add: parseOptionIsFound_def)
  next
    show "foldE (configParseIniSection rules config ini) pol sectionList = Inr pol'"
      using assms(2) by (simp add: configParseIni_def)
  next
    show "?P pol" using assms(3) .
  qed
  then show ?thesis using assms(3) by (simp add: parseOptionIsFound_def)
qed








lemma configParseFile_keep:
  assumes "optionListValid rules" "configParseFile world rules config pol = Inr pol'"
    "parseOptionIsFound pol optionId k"
  shows "k < length (pol' optionId) \<and> pol' optionId ! k = pol optionId ! k"
proof -
  have "pol' = pol \<or> (\<exists>ini sectionList. configParseIni rules config ini pol sectionList = Inr pol')"
    using assms(2)
    by (auto simp: configParseFile_def split: option.splits sum.splits)
  then show ?thesis
    using configParseIni_keep[OF assms(1) _ assms(3)] assms(3)
    by (auto simp: parseOptionIsFound_def)
qed


subsection \<open>What the phases leave unchanged\<close>

lemma foldE_inv:
  assumes step: "\<And>s x s'. f s x = Inr s' \<Longrightarrow> Q s' = Q s"
    and "foldE f s xs = Inr s'"
  shows "Q s' = Q s"
  using foldE_keep[where f = f and P = "\<lambda>s. True" and Q = Q, OF _ assms(2)] step by simp

lemma foldl_inv:
  assumes "\<And>s x. Q (f s x) = Q s"
  shows "Q (foldl f s xs) = Q s"
  using assms by (induction xs arbitrary: s) simp_all

lemma configParseArg_group:
  assumes "configParseArg rules st r = Inr st'"
  shows "cfgOptionGroup (psConfig st') = cfgOptionGroup (psConfig st)"
  using assms
  by (cases r)
     (auto simp: configParseArg_def configParseCommand_def split: if_splits sum.splits list.splits)

lemma configParseArgList_group:
  assumes "configParseArgList rules st argList = Inr st'"
  shows "cfgOptionGroup (psConfig st') = cfgOptionGroup (psConfig st)"
  using assms
proof (induction argList arbitrary: st)
  case Nil
  then show ?case by simp
next
  case (Cons r rs)
  then obtain mid where m: "configParseArg rules st r = Inr mid"
    "configParseArgList rules mid rs = Inr st'"
    by (auto split: sum.splits)
  show ?case using Cons.IH[OF m(2)] configParseArg_group[OF m(1)] by simp
qed

lemma configParseArgEnd_group:
  assumes "configParseArgEnd rules st = Inr config"
  shows "cfgOptionGroup config = cfgOptionGroup (psConfig st)"
  using assms by (auto simp: configParseArgEnd_def Let_def split: if_splits)

text \<open>The phases before and after the group phase leave the index maps as they are.\<close>

lemma configParseGroupKey_indexMap:
  "cgIndexMap (cfgOptionGroup (gsConfig (configParseGroupKey indexList groupId st k)) g)
   = cgIndexMap (cfgOptionGroup (gsConfig st) g)"
  by (simp add: configParseGroupKey_def configGroupUpd_def)

lemma configParseGroupOption_indexMap:
  assumes "configParseGroupOption rules pol st optionId = Inr st'"
  shows "cgIndexMap (cfgOptionGroup (gsConfig st') g) = cgIndexMap (cfgOptionGroup (gsConfig st) g)"
proof -
  have f: "cgIndexMap (cfgOptionGroup (gsConfig (foldl (configParseGroupKey il gid) s ks)) g)
      = cgIndexMap (cfgOptionGroup (gsConfig s) g)" for il gid s ks
    by (rule foldl_inv) (simp add: configParseGroupKey_indexMap)
  show ?thesis
    using assms
    by (auto simp: configParseGroupOption_def Let_def f configOptionUpd_def configGroupUpd_def
          split: if_splits)
qed

lemma configParseIndexMapKey_low:
  "p < n \<Longrightarrow> fst (foldl (configParseIndexMapKey m) (f, n) ks) p = f p"
proof (induction ks arbitrary: f n)
  case Nil
  then show ?case by simp
next
  case (Cons k ks)
  show ?case
  proof (cases "m k")
    case True
    then have e: "foldl (configParseIndexMapKey m) (f, n) (k # ks)
        = foldl (configParseIndexMapKey m) (f(n := k), n + 1) ks"
      by (simp add: configParseIndexMapKey_def)
    have "fst (foldl (configParseIndexMapKey m) (f(n := k), n + 1) ks) p = (f(n := k)) p"
      by (rule Cons.IH) (use Cons.prems in simp)
    moreover have "(f(n := k)) p = f p" using Cons.prems by simp
    ultimately show ?thesis unfolding e by (rule trans)
  next
    case False
    then show ?thesis using Cons by (simp add: configParseIndexMapKey_def)
  qed
qed

lemma configParseGroupIndexMap_pg:
  assumes "cgIndexMap (cfgOptionGroup config (cfgOptGrpPg rules)) 0 = 0"
  shows "cgIndexMap (cfgOptionGroup (configParseGroupIndexMap rules groupIdxMap config groupId)
           (cfgOptGrpPg rules)) 0 = 0"
  using assms configParseIndexMapKey_low[of 0 1]
  by (auto simp: configParseGroupIndexMap_def Let_def configGroupUpd_def)

lemma configParseGroup_pg:
  assumes "configParseGroup rules config pol = Inr config'"
    "cgIndexMap (cfgOptionGroup config (cfgOptGrpPg rules)) 0 = 0"
  shows "cgIndexMap (cfgOptionGroup config' (cfgOptGrpPg rules)) 0 = 0"
proof -
  obtain st where s: "foldE (configParseGroupOption rules pol)
      \<lparr>gsConfig = config, gsGroupIdxMap = (\<lambda>g k. False)\<rparr> [0..<CFG_OPTION_TOTAL rules] = Inr st"
    and c: "config' = foldl (configParseGroupIndexMap rules (gsGroupIdxMap st)) (gsConfig st)
                 [0..<CFG_OPTION_GROUP_TOTAL rules]"
    using assms(1) by (auto simp: configParseGroup_def split: sum.splits)
  have "cgIndexMap (cfgOptionGroup (gsConfig st) (cfgOptGrpPg rules))
      = cgIndexMap (cfgOptionGroup (gsConfig \<lparr>gsConfig = config, gsGroupIdxMap = (\<lambda>g k. False)\<rparr>)
          (cfgOptGrpPg rules))"
    by (rule foldE_inv[where f = "configParseGroupOption rules pol", OF _ s])
       (simp add: configParseGroupOption_indexMap)
  then have z: "cgIndexMap (cfgOptionGroup (gsConfig st) (cfgOptGrpPg rules)) 0 = 0"
    using assms(2) by simp
  have "cgIndexMap (cfgOptionGroup (foldl (configParseGroupIndexMap rules m) cfg gs)
           (cfgOptGrpPg rules)) 0 = 0"
    if "cgIndexMap (cfgOptionGroup cfg (cfgOptGrpPg rules)) 0 = 0" for m cfg gs
    using that by (induction gs arbitrary: cfg) (simp_all add: configParseGroupIndexMap_pg)
  then show ?thesis using z c by simp
qed

lemma configParseResolveOption_group:
  assumes "configParseResolveOption world rules pol config optionOrderIdx = Inr config'"
  shows "cfgOptionGroup config' = cfgOptionGroup config"
proof (cases "coValid (cfgOption config (optionResolveOrder rules ! optionOrderIdx))")
  case False
  then show ?thesis using assms by (simp add: configParseResolveOption_def Let_def)
next
  case True
  let ?id = "optionResolveOrder rules ! optionOrderIdx"
  obtain total where f: "foldE (configParseResolveStore world rules pol ?id)
       (configOptionUpd config ?id (\<lambda>opt. opt\<lparr>coIndex := replicate total configOptionValueZero\<rparr>))
       [0..<total] = Inr config'"
    using assms True by (simp add: configParseResolveOption_def Let_def)
  have "cfgOptionGroup config' = cfgOptionGroup
       (configOptionUpd config ?id (\<lambda>opt. opt\<lparr>coIndex := replicate total configOptionValueZero\<rparr>))"
    by (rule foldE_inv[where f = "configParseResolveStore world rules pol ?id", OF _ f])
       (auto simp: configParseResolveStore_def configOptionUpd_def split: sum.splits)
  then show ?thesis by (simp add: configOptionUpd_def)
qed

lemma configParseResolve_group:
  assumes "configParseResolve world rules config pol = Inr config'"
  shows "cfgOptionGroup config' = cfgOptionGroup config"
  by (rule foldE_inv[where f = "configParseResolveOption world rules pol",
        OF _ assms[unfolded configParseResolve_def]])
     (simp add: configParseResolveOption_group)

lemma configParseGroupDefault_indexMap:
  assumes "configParseGroupDefault rules config groupId = Inr config'"
  shows "cgIndexMap (cfgOptionGroup config' g) = cgIndexMap (cfgOptionGroup config g)"
  using assms
  by (auto simp: configParseGroupDefault_def Let_def configGroupUpd_def
        split: if_splits sum.splits option.splits)

subsection \<open>Evaluation of the examples\<close>

lemma upt11: "[0..<11] = [0,1,2,3,4,5,6,7,8,9,10]"
  by (simp add: upt_rec)

lemma upt2: "[0..<2] = [0,1]" by (simp add: upt_rec)

lemma upt4: "[0..<4] = [0,1,2,3]" by (simp add: upt_rec)

lemma rep4: "replicate 4 x = [x, x, x, x]"
  by (simp add: numeral_eq_Suc)

lemma configParseIndexMapKey_none:
  "\<forall>k\<in>set ks. \<not> m k \<Longrightarrow> foldl (configParseIndexMapKey m) st ks = st"
  by (induction ks arbitrary: st) (simp_all add: configParseIndexMapKey_def)

lemma ex_indexMap:
  "foldl (configParseIndexMapKey ((\<lambda>k. False)(0 := True, Suc 0 := True)))
     (\<lambda>i. 0, Suc 0) [Suc 0..<256] = ((\<lambda>i. 0)(Suc 0 := Suc 0), 2)"
proof -
  have "[Suc 0..<256] = Suc 0 # [2..<256]" by (simp add: upt_rec)
  then show ?thesis
    by (simp add: configParseIndexMapKey_none) (simp add: configParseIndexMapKey_def)
qed

lemmas exFind_eval =
  parseRuleOptionDataFind_def exOption_def exDefault_def optionalList_def optionalPush_def
  parseRuleOptionDataFindLoop.simps parseRuleOptionDataTypeDefault_def
  parseRuleOptionDataTypeCommand_def parseRuleOptionDataTypeEnd_def
  parseRuleOptionDataTypeDepend_def parseRuleOptionDataTypeAllowList_def
  parseRuleOptionDataTypeAllowRange_def parseRuleOptionDataTypeRequired_def
  UINT_MAX_def Let_def parseRuleOptionDataZero_def

lemmas exArg_eval =
  parseStateNew_def configParseArg_def configParseOptionArg_def Let_def
  exRules_def cfgParseOptionInfo_def cfgParseOptionSecure_def exOption_def parseOptionIdxValue_def
  parseOptionGet_def parseOptionSet_def required_argument_def configParseCommand_def cfgCommandId_def
  configNew_def cfgCmdRoleDefault_def parseOptionValueZero_def exConfig_def exPol_def exValue_def
  rep4

lemmas exGroup_eval =
  configParseGroup_def configParseGroupOption_def Let_def upt11 upt2 upt4
  exRules_def exOption_def exConfig_def configNew_def cfgParseOptionValid_def configOptionUpd_def
  configGroupUpd_def exPol_def configParseGroupKey_def exValue_def parseOptionValueZero_def
  configOptionZero_def configOptionGroupZero_def configParseGroupIndexMap_def ex_indexMap
  exGrouped_def exGroupedOption_def

lemmas exResolve_eval =
  configParseResolve_def configParseResolveOption_def configParseResolveStore_def
  configParseResolveIdx_def configParseOptionKeyIdx_def configParseOptionValue_def
  optionSet_def configParseDepend_def configParseValue_def configParseDefault_def
  cfgParseOptionDefault_def cfgParseOptionType_def cfgParseOptionRequired_def
  cfgParseOptionKeyIdxName_def strLstGet_def strBeginsWithZ_def strEndsWithZ_def
  cvtZToInt64_def isDigit_def digitsToNat_def
  Let_def upt11 upt2 exFind_eval
  exRules_def exConfig_def configNew_def configOptionUpd_def
  configGroupUpd_def exPol_def exValue_def parseOptionValueZero_def
  configOptionZero_def configOptionGroupZero_def configOptionValueZero_def
  exGrouped_def exGroupedOption_def exResolved_def exResolvedOption_def exResolvedValue_def


lemmas exFile_eval =
  configParseFile_def cfgFileLoad_def parseOptionFound_def storageGetP_def storageListP_def
  exWorldFile_def exWorld_def configParseStanza_def configParseSectionList_def configParseIni_def
  configParseIniSection_def configParseIniKey_def exIni_def cfgCommandName_def
  CFGDEF_SECTION_GLOBAL_def cfgFileLoadPart_def LF_STR_def strLstGet_def
  PGBACKREST_CONFIG_ORIG_PATH_FILE_def cfgParseOptionDefault_def

lemmas exDefault_eval =
  configParseGroupDefault_def cfgOptionTest_def

lemma ex_indexMap0:
  "foldl (configParseIndexMapKey ((\<lambda>k. False)(0 := True))) st [Suc 0..<256] = st"
  by (rule configParseIndexMapKey_none) simp


lemma ex_stanza_phase1:
  "configParseArgList exRules (parseStateNew exRules ''pgbackrest'') exStanzaArgs
   = Inr \<lparr>psConfig = exConfig, psOptionList = exStanzaParam, psCommandSet = True,
           psArgFound = True\<rparr>"
  by (simp add: exStanzaArgs_def exStanzaParam_def exArg_eval)

lemma ex_stanza_argEnd:
  "configParseArgEnd exRules
     \<lparr>psConfig = exConfig, psOptionList = pol, psCommandSet = True, psArgFound = True\<rparr>
   = Inr exConfig"
  by (simp add: configParseArgEnd_def exConfig_def configNew_def)

subsection \<open>From the parsed options to the configuration\<close>

lemma configParse_phases:
  assumes "configParse world rules exe argList = Inr config"
  shows "\<exists>st parsed. configParseArgList rules (parseStateNew rules exe) argList = Inr st
      \<and> configParseArgEnd rules st = Inr parsed
      \<and> ((\<not> (cfgCommand parsed \<noteq> cfgCmdNone rules \<and> cfgCommand parsed \<noteq> cfgCmdVersion rules
                \<and> cfgCommand parsed \<noteq> cfgCmdHelp rules)
           \<and> foldE (configParseGroupDefault rules) parsed [0..<CFG_OPTION_GROUP_TOTAL rules]
               = Inr config)
         \<or> (\<exists>envPol filePol grouped resolved.
               configParseEnvList rules parsed (psOptionList st) (environ world) = Inr envPol
             \<and> configParseFile world rules parsed envPol = Inr filePol
             \<and> configParseGroup rules parsed filePol = Inr grouped
             \<and> configParseResolve world rules grouped filePol = Inr resolved
             \<and> foldE (configParseGroupDefault rules) resolved [0..<CFG_OPTION_GROUP_TOTAL rules]
                 = Inr config))"
  using assms
  by (auto simp: configParse_def split: sum.splits if_splits)
















subsection \<open>Evaluation of the example\<close>

lemma ex_valid: "optionListValid exRules"
  by (simp add: optionListValid_def aliasKeyValid_def exRules_def cfgParseOptionInfo_def exOption_def)


lemma ex_opt7: "parseRuleOption exRules ! 7 = exOption ''log-level'' cfgOptTypeString True cfgSectionGlobal False [exDefault ''warn'']"
  by (simp add: exRules_def)







lemma ex_option_logLevel: "cfgParseOption exRules ''log-level'' =
   \<lparr>porFound = True, porId = 7, porKeyIdx = 0, porNegate = False, porReset = False, porDeprecated = False\<rparr>"
  by (simp add: cfgParseOption_def exRules_def cfgParseOptionInfo_def)

lemma ex_valid7: "cfgParseOptionValid exRules (cfgCommand exConfig) (cfgCommandRole exConfig) 7"
  by (simp add: cfgParseOptionValid_def exConfig_def configNew_def ex_opt7 exOption_def)

lemma ex_grow7: "parseOptionIdxValue exRules exLogLevelParam 7 0 = exLogLevelParam"
  by (simp add: parseOptionIdxValue_def exLogLevelParam_def)

lemma ex_found7: "pvFound (parseOptionGet exLogLevelParam 7 0)"
  by (simp add: parseOptionGet_def exLogLevelParam_def exValue_def)


lemma ex_default0: "cfgParseOptionDefault exRules 0 0 = Some ''/etc/pgbackrest/pgbackrest.conf''"
  by (simp add: cfgParseOptionDefault_def parseRuleOptionDataFind_def exRules_def exOption_def
        exDefault_def optionalList_def optionalPush_def parseRuleOptionDataFindLoop.simps
        parseRuleOptionDataTypeDefault_def parseRuleOptionDataTypeCommand_def
        parseRuleOptionDataTypeEnd_def UINT_MAX_def Let_def)

lemma ex_default1: "cfgParseOptionDefault exRules 0 1 = Some ''/etc/pgbackrest/conf.d''"
  by (simp add: cfgParseOptionDefault_def parseRuleOptionDataFind_def exRules_def exOption_def
        exDefault_def optionalList_def optionalPush_def parseRuleOptionDataFindLoop.simps
        parseRuleOptionDataTypeDefault_def parseRuleOptionDataTypeCommand_def
        parseRuleOptionDataTypeEnd_def UINT_MAX_def Let_def)

lemma ex_ids: "cfgOptConfig exRules = 0" "cfgOptConfigPath exRules = 2"
  "cfgOptConfigIncludePath exRules = 1" "cfgOptStanza exRules = 3"
  by (simp_all add: exRules_def)

lemma ex_load:
  "cfgFileLoad exWorldFile exRules exLogLevelParam ''/etc/pgbackrest/pgbackrest.conf''
     ''/etc/pgbackrest/conf.d'' PGBACKREST_CONFIG_ORIG_PATH_FILE = Inr (Some ''[global]'')"
  unfolding cfgFileLoad_def ex_ids
  by (simp add: parseOptionFound_def exLogLevelParam_def storageGetP_def storageListP_def
        exWorldFile_def exWorld_def)

lemma ex_commandName: "cfgCommandName exRules (cfgCommand exConfig) = ''backup''"
  by (simp add: cfgCommandName_def exConfig_def exRules_def)

lemma ex_option_config: "cfgParseOption exRules ''config'' =
   \<lparr>porFound = True, porId = 0, porKeyIdx = 0, porNegate = False, porReset = False, porDeprecated = False\<rparr>"
  by (simp add: cfgParseOption_def exRules_def cfgParseOptionInfo_def)

lemma ex_section0: "optSection (parseRuleOption exRules ! 0) = cfgSectionCommandLine"
  by (simp add: exRules_def exOption_def)

lemma ex_section7: "optSection (parseRuleOption exRules ! 7) = cfgSectionGlobal"
  by (simp add: exRules_def exOption_def)

lemma ex_keymax: "CFG_OPTION_KEY_MAX exRules = 256"
  by (simp add: exRules_def)

lemma ex_iniKey1:
  "configParseIniKey exRules exConfig exIni ''global''
     \<lparr>isOptionFound = [], isOptionList = exLogLevelParam\<rparr> ''log-level''
   = Inr \<lparr>isOptionFound = [(1792, ''log-level'')], isOptionList = exLogLevelParam\<rparr>"
  unfolding configParseIniKey_def Let_def ex_option_logLevel
  by (simp add: ex_section7 ex_keymax ex_valid7 ex_grow7 ex_found7)

lemma ex_iniKey2:
  "configParseIniKey exRules exConfig exIni ''global''
     \<lparr>isOptionFound = [(1792, ''log-level'')], isOptionList = exLogLevelParam\<rparr> ''config''
   = Inr \<lparr>isOptionFound = [(1792, ''log-level'')], isOptionList = exLogLevelParam\<rparr>"
  unfolding configParseIniKey_def Let_def ex_option_config
  by (simp add: ex_section0)

lemma ex_ini:
  "configParseIni exRules exConfig exIni exLogLevelParam
     (configParseSectionList exRules exConfig None) = Inr exLogLevelParam"
proof -
  have k: "iniSectionKeyList exIni ''global:backup'' = []"
    "iniSectionKeyList exIni ''global'' = [''log-level'', ''config'']"
    by (simp_all add: exIni_def)
  have s1: "configParseIniSection exRules exConfig exIni exLogLevelParam ''global:backup''
        = Inr exLogLevelParam"
    by (simp add: configParseIniSection_def k)
  have s2: "configParseIniSection exRules exConfig exIni exLogLevelParam ''global''
        = Inr exLogLevelParam"
    by (simp add: configParseIniSection_def k ex_iniKey1 ex_iniKey2)
  show ?thesis
    by (simp add: configParseIni_def configParseSectionList_def ex_commandName
          CFGDEF_SECTION_GLOBAL_def s1 s2)
qed

lemma ex_file: "configParseFile exWorldFile exRules exConfig exLogLevelParam = Inr exLogLevelParam"
proof -
  have c: "cfgCommand exConfig = 0" by (simp add: exConfig_def)
  have p: "iniParse exWorldFile ''[global]'' = Inr exIni"
    by (simp add: exWorldFile_def exWorld_def)
  have s: "configParseStanza exRules exLogLevelParam = Inr None"
    by (simp add: configParseStanza_def ex_ids exLogLevelParam_def)
  show ?thesis
    unfolding configParseFile_def c ex_ids ex_default0 ex_default1
    by (simp add: ex_load p s ex_ini)
qed


lemma ex_find7:
  "\<not> pdFound (parseRuleOptionDataFind exRules parseRuleOptionDataTypeDepend 0 7)"
  "\<not> pdFound (parseRuleOptionDataFind exRules parseRuleOptionDataTypeAllowList 0 7)"
  by (simp_all add: ex_opt7 exFind_eval)

lemma ex_resolve7:
  "configParseResolveIdx exWorldFile exRules exLogLevelParam exConfig 7 0
   = Inr \<lparr>covNegate = False, covReset = False, covSource = cfgSourceParam,
           covValue = Some (VarStr ''detail'')\<rparr>"
proof -
  have c: "cfgCommand exConfig = 0" by (simp add: exConfig_def)
  have k: "configParseOptionKeyIdx exRules exConfig 7 0 = 0"
    by (simp add: configParseOptionKeyIdx_def ex_opt7 exOption_def)
  have v: "configParseOptionValue exLogLevelParam 7 0 = exValue cfgSourceParam ''detail''"
    by (simp add: configParseOptionValue_def exLogLevelParam_def)
  have t: "cfgParseOptionType exRules 7 = cfgOptTypeString"
    by (simp add: cfgParseOptionType_def ex_opt7 exOption_def)
  have s: "optionSet exRules 7 (exValue cfgSourceParam ''detail'')"
    by (simp add: optionSet_def exValue_def)
  have d: "configParseDepend exRules exConfig 7 0 0 True (exValue cfgSourceParam ''detail'') = Inr True"
    by (simp add: configParseDepend_def c ex_find7)
  have p: "configParseValue exWorldFile exRules exConfig 7 0 (exValue cfgSourceParam ''detail'')
           = Inr (VarStr ''detail'')"
    unfolding configParseValue_def Let_def t c
    by (simp add: ex_find7 strLstGet_def exValue_def)
  show ?thesis
    unfolding configParseResolveIdx_def Let_def k v
    by (simp add: s d p) (simp add: exValue_def)
qed

subsection \<open>Precedence of the sources\<close>














subsection \<open>Command-line-only options\<close>

lemma parseOptionSet_other:
  "optionId' \<noteq> optionId \<Longrightarrow> parseOptionSet pol optionId k v optionId' = pol optionId'"
  by (simp add: parseOptionSet_def)

lemma configParseIniKey_commandLine:
  assumes "optSection (parseRuleOption rules ! optionId) = cfgSectionCommandLine"
    "configParseIniKey rules config ini section st key = Inr st'"
  shows "isOptionList st' optionId = isOptionList st optionId"
proof (cases "optSection (parseRuleOption rules ! porId (cfgParseOption rules key)) = cfgSectionCommandLine")
  case True
  then show ?thesis
    using assms(2) by (auto simp: configParseIniKey_def Let_def split: if_splits)
next
  case False
  then have n: "optionId \<noteq> porId (cfgParseOption rules key)" using assms(1) by auto
  show ?thesis
    using assms(2) False
      parseOptionIdxValue_other[OF n, of rules "isOptionList st" "porKeyIdx (cfgParseOption rules key)"]
      parseOptionSet_other[OF n]
    by (auto simp: configParseIniKey_def Let_def split: if_splits option.splits)
qed

lemma configParseIniSection_commandLine:
  assumes "optSection (parseRuleOption rules ! optionId) = cfgSectionCommandLine"
    "configParseIniSection rules config ini pol section = Inr pol'"
  shows "pol' optionId = pol optionId"
proof -
  obtain st' where f: "foldE (configParseIniKey rules config ini section)
      \<lparr>isOptionFound = [], isOptionList = pol\<rparr> (iniSectionKeyList ini section) = Inr st'"
    and p: "pol' = isOptionList st'"
    using assms(2) by (auto simp: configParseIniSection_def split: sum.splits)
  have "True \<and> isOptionList st' optionId = isOptionList \<lparr>isOptionFound = [], isOptionList = pol\<rparr> optionId"
    by (rule foldE_keep[where f = "configParseIniKey rules config ini section"
          and P = "\<lambda>s. True" and Q = "\<lambda>s. isOptionList s optionId", OF _ f])
       (simp_all add: configParseIniKey_commandLine[OF assms(1)])
  then show ?thesis using p by simp
qed

lemma configParseIni_commandLine:
  assumes "optSection (parseRuleOption rules ! optionId) = cfgSectionCommandLine"
    "configParseIni rules config ini pol sectionList = Inr pol'"
  shows "pol' optionId = pol optionId"
proof -
  have f: "foldE (configParseIniSection rules config ini) pol sectionList = Inr pol'"
    using assms(2) by (simp add: configParseIni_def)
  have "True \<and> pol' optionId = pol optionId"
    by (rule foldE_keep[where f = "configParseIniSection rules config ini"
          and P = "\<lambda>s. True" and Q = "\<lambda>s. s optionId", OF _ f])
       (simp_all add: configParseIniSection_commandLine[OF assms(1)])
  then show ?thesis by simp
qed

lemma configParseFile_commandLine:
  assumes "optSection (parseRuleOption rules ! optionId) = cfgSectionCommandLine"
    "configParseFile world rules config pol = Inr pol'"
  shows "pol' optionId = pol optionId"
proof -
  have "pol' = pol \<or> (\<exists>ini sectionList. configParseIni rules config ini pol sectionList = Inr pol')"
    using assms(2)
    by (auto simp: configParseFile_def split: option.splits sum.splits)
  then show ?thesis
    using configParseIni_commandLine[OF assms(1)] by auto
qed

text \<open>What the environment importer stores for an accepted entry with a value.\<close>

lemma configParseEnv_store:
  assumes "strBeginsWithZ keyValue PGBACKREST_ENV" "CHR ''='' \<in> set keyValue"
    "envAccepted rules config keyValue" "envValue keyValue \<noteq> []"
    "aliasKeyValid rules (cfgParseOption rules (envKey keyValue))"
    "\<not> parseOptionIsFound pol (porId (cfgParseOption rules (envKey keyValue)))
          (porKeyIdx (cfgParseOption rules (envKey keyValue)))"
    "cfgParseOptionType rules (porId (cfgParseOption rules (envKey keyValue))) = cfgOptTypeBoolean
     \<longrightarrow> envValue keyValue = ''y'' \<or> envValue keyValue = ''n''"
  shows "\<exists>pol'. configParseEnv rules config pol keyValue = Inr pol'
     \<and> parseOptionIsFound pol' (porId (cfgParseOption rules (envKey keyValue)))
          (porKeyIdx (cfgParseOption rules (envKey keyValue)))
     \<and> pvSource (pol' (porId (cfgParseOption rules (envKey keyValue)))
          ! porKeyIdx (cfgParseOption rules (envKey keyValue))) = cfgSourceConfig
     \<and> (cfgParseOptionType rules (porId (cfgParseOption rules (envKey keyValue)))
            = cfgOptTypeBoolean \<longrightarrow> envValue keyValue = ''n'' \<longrightarrow>
          pvNegate (pol' (porId (cfgParseOption rules (envKey keyValue)))
            ! porKeyIdx (cfgParseOption rules (envKey keyValue))))
     \<and> (cfgParseOptionType rules (porId (cfgParseOption rules (envKey keyValue)))
            \<noteq> cfgOptTypeBoolean \<longrightarrow>
          pvValueList (pol' (porId (cfgParseOption rules (envKey keyValue)))
            ! porKeyIdx (cfgParseOption rules (envKey keyValue)))
          = Some (if optMulti (parseRuleOption rules
                                 ! porId (cfgParseOption rules (envKey keyValue)))
                  then strLstNewSplitChr (envValue keyValue) (CHR '':'')
                  else [envValue keyValue]))"
proof -
  let ?o = "cfgParseOption rules (envKey keyValue)"
  let ?g = "parseOptionIdxValue rules pol (porId ?o) (porKeyIdx ?o)"
  let ?v = "parseOptionGet ?g (porId ?o) (porKeyIdx ?o)"
  have v: "optGroup (parseRuleOption rules ! porId ?o) \<or> porKeyIdx ?o = 0"
    using assms(5) by (simp add: aliasKeyValid_def)
  have al: "porKeyIdx ?o < length (?g (porId ?o))"
    using parseOptionIdxValue_alloc[of rules "porId ?o" "porKeyIdx ?o" pol] v by simp
  have nf: "\<not> parseOptionIsFound ?g (porId ?o) (porKeyIdx ?o)"
    using parseOptionIdxValue_found[of rules "porId ?o" "porKeyIdx ?o" pol "porId ?o" "porKeyIdx ?o"]
      v assms(6) by simp
  then have nf': "\<not> pvFound ?v"
    using al by (simp add: parseOptionIsFound_def parseOptionGet_def)
  have e: "configParseEnv rules config pol keyValue =
      Inr (parseOptionSet ?g (porId ?o) (porKeyIdx ?o)
             (if cfgParseOptionType rules (porId ?o) = cfgOptTypeBoolean then
                (if envValue keyValue = ''n''
                 then ?v\<lparr>pvFound := True, pvSource := cfgSourceConfig, pvNegate := True\<rparr>
                 else ?v\<lparr>pvFound := True, pvSource := cfgSourceConfig\<rparr>)
              else if optMulti (parseRuleOption rules ! porId ?o) then
                ?v\<lparr>pvFound := True, pvSource := cfgSourceConfig,
                    pvValueList := Some (strLstNewSplitChr (envValue keyValue) (CHR '':''))\<rparr>
              else
                ?v\<lparr>pvFound := True, pvSource := cfgSourceConfig,
                    pvValueList := Some [envValue keyValue]\<rparr>))"
    using assms(1-4,7) nf'
    by (auto simp: configParseEnv_def Let_def envAccepted_def)
  show ?thesis
    unfolding e using al
    by (simp add: parseOptionSet_def parseOptionIsFound_def)
qed


text \<open>
  Claim C2, as amended. Options whose rule section is command-line-only never take effect
  from a configuration file: whatever the files hold, the configuration file phase leaves
  the parsed values of such an option exactly as they were. The environment importer does
  not look at the section of an option: an entry with the prefix \<open>PGBACKREST_\<close> that names a
  known option valid for the command and role (no negate or reset alias), with a value that
  is not empty and, for a boolean option, is \<open>y\<close> or \<open>n\<close>, is stored with the source \<open>config\<close>
  when the option has not been found yet, be the option command-line-only or not: \<open>n\<close>
  negates a boolean option, the value of a multi option is split at the colons, and the
  value of any other option is stored as a single string. (The alias found has key index 0
  when the option is outside a group, as in every generated table.)
\<close>

theorem configParse_commandLineOnly:
  "(optSection (parseRuleOption rules ! optionId) = cfgSectionCommandLine
      \<and> configParseFile world rules config pol = Inr pol' \<longrightarrow>
    pol' optionId = pol optionId)
   \<and> (strBeginsWithZ keyValue PGBACKREST_ENV \<and> CHR ''='' \<in> set keyValue
        \<and> envAccepted rules config keyValue \<and> envValue keyValue \<noteq> []
        \<and> aliasKeyValid rules (cfgParseOption rules (envKey keyValue))
        \<and> \<not> parseOptionIsFound envPol (porId (cfgParseOption rules (envKey keyValue)))
              (porKeyIdx (cfgParseOption rules (envKey keyValue)))
        \<and> (cfgParseOptionType rules (porId (cfgParseOption rules (envKey keyValue)))
              = cfgOptTypeBoolean
            \<longrightarrow> envValue keyValue = ''y'' \<or> envValue keyValue = ''n'')
      \<longrightarrow>
       (\<exists>envPol'. configParseEnv rules config envPol keyValue = Inr envPol'
          \<and> parseOptionIsFound envPol' (porId (cfgParseOption rules (envKey keyValue)))
               (porKeyIdx (cfgParseOption rules (envKey keyValue)))
          \<and> pvSource (envPol' (porId (cfgParseOption rules (envKey keyValue)))
               ! porKeyIdx (cfgParseOption rules (envKey keyValue))) = cfgSourceConfig
          \<and> (cfgParseOptionType rules (porId (cfgParseOption rules (envKey keyValue)))
                 = cfgOptTypeBoolean \<longrightarrow> envValue keyValue = ''n'' \<longrightarrow>
               pvNegate (envPol' (porId (cfgParseOption rules (envKey keyValue)))
                 ! porKeyIdx (cfgParseOption rules (envKey keyValue))))
          \<and> (cfgParseOptionType rules (porId (cfgParseOption rules (envKey keyValue)))
                 \<noteq> cfgOptTypeBoolean \<longrightarrow>
               pvValueList (envPol' (porId (cfgParseOption rules (envKey keyValue)))
                 ! porKeyIdx (cfgParseOption rules (envKey keyValue)))
               = Some (if optMulti (parseRuleOption rules
                                      ! porId (cfgParseOption rules (envKey keyValue)))
                       then strLstNewSplitChr (envValue keyValue) (CHR '':'')
                       else [envValue keyValue]))))"
proof (intro conjI impI)
  assume "optSection (parseRuleOption rules ! optionId) = cfgSectionCommandLine
      \<and> configParseFile world rules config pol = Inr pol'"
  then show "pol' optionId = pol optionId"
    using configParseFile_commandLine by blast
next
  assume a: "strBeginsWithZ keyValue PGBACKREST_ENV \<and> CHR ''='' \<in> set keyValue
        \<and> envAccepted rules config keyValue \<and> envValue keyValue \<noteq> []
        \<and> aliasKeyValid rules (cfgParseOption rules (envKey keyValue))
        \<and> \<not> parseOptionIsFound envPol (porId (cfgParseOption rules (envKey keyValue)))
              (porKeyIdx (cfgParseOption rules (envKey keyValue)))
        \<and> (cfgParseOptionType rules (porId (cfgParseOption rules (envKey keyValue)))
              = cfgOptTypeBoolean
            \<longrightarrow> envValue keyValue = ''y'' \<or> envValue keyValue = ''n'')"
  show "\<exists>envPol'. configParseEnv rules config envPol keyValue = Inr envPol'
          \<and> parseOptionIsFound envPol' (porId (cfgParseOption rules (envKey keyValue)))
               (porKeyIdx (cfgParseOption rules (envKey keyValue)))
          \<and> pvSource (envPol' (porId (cfgParseOption rules (envKey keyValue)))
               ! porKeyIdx (cfgParseOption rules (envKey keyValue))) = cfgSourceConfig
          \<and> (cfgParseOptionType rules (porId (cfgParseOption rules (envKey keyValue)))
                 = cfgOptTypeBoolean \<longrightarrow> envValue keyValue = ''n'' \<longrightarrow>
               pvNegate (envPol' (porId (cfgParseOption rules (envKey keyValue)))
                 ! porKeyIdx (cfgParseOption rules (envKey keyValue))))
          \<and> (cfgParseOptionType rules (porId (cfgParseOption rules (envKey keyValue)))
                 \<noteq> cfgOptTypeBoolean \<longrightarrow>
               pvValueList (envPol' (porId (cfgParseOption rules (envKey keyValue)))
                 ! porKeyIdx (cfgParseOption rules (envKey keyValue)))
               = Some (if optMulti (parseRuleOption rules
                                      ! porId (cfgParseOption rules (envKey keyValue)))
                       then strLstNewSplitChr (envValue keyValue) (CHR '':'')
                       else [envValue keyValue]))"
    by (rule configParseEnv_store) (use a in simp_all)
qed

lemma ex_envKey_stanza: "envKey ''PGBACKREST_STANZA=demo'' = ''stanza''"
  by (simp add: envKey_def PGBACKREST_ENV_def strLower_def chrLower_def strReplaceChr_def)

lemma ex_envValue_stanza: "envValue ''PGBACKREST_STANZA=demo'' = ''demo''"
  by (simp add: envValue_def)

lemma ex_option_stanza: "cfgParseOption exRules ''stanza'' =
   \<lparr>porFound = True, porId = 3, porKeyIdx = 0, porNegate = False, porReset = False, porDeprecated = False\<rparr>"
  by (simp add: cfgParseOption_def exRules_def cfgParseOptionInfo_def)

lemma ex_opt3: "parseRuleOption exRules ! 3 = exOption ''stanza'' cfgOptTypeString True cfgSectionCommandLine False []"
  by (simp add: exRules_def)

lemma ex_valid3: "cfgParseOptionValid exRules (cfgCommand exConfig) (cfgCommandRole exConfig) 3"
  by (simp add: cfgParseOptionValid_def exConfig_def configNew_def ex_opt3 exOption_def)

lemma ex_env_stanza:
  "configParseEnv exRules exConfig (\<lambda>optionId. []) ''PGBACKREST_STANZA=demo''
   = Inr ((\<lambda>optionId. [])(3 := [exValue cfgSourceConfig ''demo'']))"
proof -
  have t: "cfgParseOptionType exRules 3 = cfgOptTypeString"
    by (simp add: cfgParseOptionType_def ex_opt3 exOption_def)
  have m: "\<not> optMulti (parseRuleOption exRules ! 3)"
    by (simp add: ex_opt3 exOption_def)
  have g: "parseOptionIdxValue exRules (\<lambda>optionId. []) 3 0 = (\<lambda>optionId. [])(3 := [parseOptionValueZero])"
    by (simp add: parseOptionIdxValue_def ex_opt3 exOption_def)
  show ?thesis
    unfolding configParseEnv_def Let_def ex_envKey_stanza ex_envValue_stanza ex_option_stanza
    by (simp add: ex_valid3 t m g parseOptionGet_def parseOptionSet_def parseOptionValueZero_def
          exValue_def)
       (simp add: strBeginsWithZ_def PGBACKREST_ENV_def)
qed

lemma ex_find3:
  "\<not> pdFound (parseRuleOptionDataFind exRules parseRuleOptionDataTypeDepend 0 3)"
  "\<not> pdFound (parseRuleOptionDataFind exRules parseRuleOptionDataTypeAllowList 0 3)"
  by (simp_all add: ex_opt3 exFind_eval)

lemma ex_resolve3:
  "configParseResolveIdx exWorld exRules ((\<lambda>optionId. [])(3 := [exValue cfgSourceConfig ''demo'']))
     exConfig 3 0
   = Inr \<lparr>covNegate = False, covReset = False, covSource = cfgSourceConfig,
           covValue = Some (VarStr ''demo'')\<rparr>"
proof -
  have c: "cfgCommand exConfig = 0" by (simp add: exConfig_def)
  have k: "configParseOptionKeyIdx exRules exConfig 3 0 = 0"
    by (simp add: configParseOptionKeyIdx_def ex_opt3 exOption_def)
  have v: "configParseOptionValue ((\<lambda>optionId. [])(3 := [exValue cfgSourceConfig ''demo''])) 3 0
           = exValue cfgSourceConfig ''demo''"
    by (simp add: configParseOptionValue_def)
  have t: "cfgParseOptionType exRules 3 = cfgOptTypeString"
    by (simp add: cfgParseOptionType_def ex_opt3 exOption_def)
  have s: "optionSet exRules 3 (exValue cfgSourceConfig ''demo'')"
    by (simp add: optionSet_def exValue_def)
  have d: "configParseDepend exRules exConfig 3 0 0 True (exValue cfgSourceConfig ''demo'') = Inr True"
    by (simp add: configParseDepend_def c ex_find3)
  have p: "configParseValue exWorld exRules exConfig 3 0 (exValue cfgSourceConfig ''demo'')
           = Inr (VarStr ''demo'')"
    unfolding configParseValue_def Let_def t c
    by (simp add: ex_find3 strLstGet_def exValue_def)
  show ?thesis
    unfolding configParseResolveIdx_def Let_def k v
    by (simp add: s d p) (simp add: exValue_def)
qed

lemma ex_envKey_online: "envKey ''PGBACKREST_ONLINE=n'' = ''online''"
  by (simp add: envKey_def PGBACKREST_ENV_def strLower_def chrLower_def strReplaceChr_def)

lemma ex_envValue_online: "envValue ''PGBACKREST_ONLINE=n'' = ''n''"
  by (simp add: envValue_def)

lemma ex_option_online: "cfgParseOption exOnlineRules ''online'' =
   \<lparr>porFound = True, porId = 0, porKeyIdx = 0, porNegate = False, porReset = False, porDeprecated = False\<rparr>"
  by (simp add: cfgParseOption_def exOnlineRules_def cfgParseOptionInfo_def)

lemma ex_type_online: "cfgParseOptionType exOnlineRules 0 = cfgOptTypeBoolean"
  by (simp add: cfgParseOptionType_def exOnlineRules_def exOption_def)

theorem configParse_commandLineOnly_witness:
  "optSection (parseRuleOption exRules ! 0) = cfgSectionCommandLine
   \<and> configParseFile exWorldFile exRules exConfig exLogLevelParam = Inr exLogLevelParam
   \<and> exLogLevelParam 0 = []
   \<and> strBeginsWithZ ''PGBACKREST_STANZA=demo'' PGBACKREST_ENV
   \<and> CHR ''='' \<in> set ''PGBACKREST_STANZA=demo''
   \<and> envAccepted exRules exConfig ''PGBACKREST_STANZA=demo''
   \<and> envValue ''PGBACKREST_STANZA=demo'' \<noteq> []
   \<and> aliasKeyValid exRules (cfgParseOption exRules (envKey ''PGBACKREST_STANZA=demo''))
   \<and> \<not> parseOptionIsFound (\<lambda>optionId. []) 3 0
   \<and> cfgParseOptionType exRules 3 = cfgOptTypeString
   \<and> \<not> optMulti (parseRuleOption exRules ! 3)
   \<and> (\<exists>envPol'. configParseEnv exRules exConfig (\<lambda>optionId. []) ''PGBACKREST_STANZA=demo''
          = Inr envPol'
        \<and> parseOptionIsFound envPol' 3 0 \<and> pvSource (envPol' 3 ! 0) = cfgSourceConfig
        \<and> pvValueList (envPol' 3 ! 0) = Some [''demo''])
   \<and> envAccepted exOnlineRules exConfig ''PGBACKREST_ONLINE=n''
   \<and> cfgParseOptionType exOnlineRules 0 = cfgOptTypeBoolean
   \<and> (\<exists>envPol'. configParseEnv exOnlineRules exConfig (\<lambda>optionId. []) ''PGBACKREST_ONLINE=n''
          = Inr envPol'
        \<and> parseOptionIsFound envPol' 0 0 \<and> pvSource (envPol' 0 ! 0) = cfgSourceConfig
        \<and> pvNegate (envPol' 0 ! 0))"
proof -
  have h1: "optSection (parseRuleOption exRules ! 0) = cfgSectionCommandLine
      \<and> configParseFile exWorldFile exRules exConfig exLogLevelParam = Inr exLogLevelParam"
    using ex_section0 ex_file by simp
  have r1: "exLogLevelParam 0 = exLogLevelParam 0"
    by (rule configParse_commandLineOnly[where rules = exRules and optionId = 0
          and world = exWorldFile and config = exConfig and pol = exLogLevelParam
          and pol' = exLogLevelParam, THEN conjunct1, THEN mp, OF h1])
  have e: "exLogLevelParam 0 = []" by (simp add: exLogLevelParam_def)
  have o: "porId (cfgParseOption exRules (envKey ''PGBACKREST_STANZA=demo'')) = 3"
    "porKeyIdx (cfgParseOption exRules (envKey ''PGBACKREST_STANZA=demo'')) = 0"
    by (simp_all add: ex_envKey_stanza ex_option_stanza)
  have t: "cfgParseOptionType exRules 3 = cfgOptTypeString"
    "\<not> optMulti (parseRuleOption exRules ! 3)"
    by (simp_all add: cfgParseOptionType_def ex_opt3 exOption_def)
  have h2: "strBeginsWithZ ''PGBACKREST_STANZA=demo'' PGBACKREST_ENV
      \<and> CHR ''='' \<in> set ''PGBACKREST_STANZA=demo''
      \<and> envAccepted exRules exConfig ''PGBACKREST_STANZA=demo''
      \<and> envValue ''PGBACKREST_STANZA=demo'' \<noteq> []
      \<and> aliasKeyValid exRules (cfgParseOption exRules (envKey ''PGBACKREST_STANZA=demo''))
      \<and> \<not> parseOptionIsFound (\<lambda>optionId. [])
            (porId (cfgParseOption exRules (envKey ''PGBACKREST_STANZA=demo'')))
            (porKeyIdx (cfgParseOption exRules (envKey ''PGBACKREST_STANZA=demo'')))
      \<and> (cfgParseOptionType exRules (porId (cfgParseOption exRules (envKey ''PGBACKREST_STANZA=demo'')))
            = cfgOptTypeBoolean
          \<longrightarrow> envValue ''PGBACKREST_STANZA=demo'' = ''y''
              \<or> envValue ''PGBACKREST_STANZA=demo'' = ''n'')"
    unfolding o
    by (simp add: strBeginsWithZ_def PGBACKREST_ENV_def envAccepted_def ex_envKey_stanza
          ex_envValue_stanza ex_option_stanza ex_valid3 aliasKeyValid_def parseOptionIsFound_def
          t ex_opt3 exOption_def)
  note r2 = configParse_commandLineOnly[where rules = exRules and config = exConfig
          and keyValue = "''PGBACKREST_STANZA=demo''" and envPol = "\<lambda>optionId. []",
          THEN conjunct2, THEN mp, OF h2, unfolded o ex_envValue_stanza]
  have o': "porId (cfgParseOption exOnlineRules (envKey ''PGBACKREST_ONLINE=n'')) = 0"
    "porKeyIdx (cfgParseOption exOnlineRules (envKey ''PGBACKREST_ONLINE=n'')) = 0"
    by (simp_all add: ex_envKey_online ex_option_online)
  have a3: "envAccepted exOnlineRules exConfig ''PGBACKREST_ONLINE=n''"
  proof -
    have "cfgParseOptionValid exOnlineRules (cfgCommand exConfig) (cfgCommandRole exConfig) 0"
      by (simp add: cfgParseOptionValid_def exConfig_def configNew_def exOnlineRules_def
            exOption_def)
    then show ?thesis
      by (simp add: envAccepted_def ex_envKey_online ex_option_online)
  qed
  have h3: "strBeginsWithZ ''PGBACKREST_ONLINE=n'' PGBACKREST_ENV
      \<and> CHR ''='' \<in> set ''PGBACKREST_ONLINE=n''
      \<and> envAccepted exOnlineRules exConfig ''PGBACKREST_ONLINE=n''
      \<and> envValue ''PGBACKREST_ONLINE=n'' \<noteq> []
      \<and> aliasKeyValid exOnlineRules (cfgParseOption exOnlineRules (envKey ''PGBACKREST_ONLINE=n''))
      \<and> \<not> parseOptionIsFound (\<lambda>optionId. [])
            (porId (cfgParseOption exOnlineRules (envKey ''PGBACKREST_ONLINE=n'')))
            (porKeyIdx (cfgParseOption exOnlineRules (envKey ''PGBACKREST_ONLINE=n'')))
      \<and> (cfgParseOptionType exOnlineRules
              (porId (cfgParseOption exOnlineRules (envKey ''PGBACKREST_ONLINE=n'')))
            = cfgOptTypeBoolean
          \<longrightarrow> envValue ''PGBACKREST_ONLINE=n'' = ''y''
              \<or> envValue ''PGBACKREST_ONLINE=n'' = ''n'')"
    unfolding o'
    by (simp add: strBeginsWithZ_def PGBACKREST_ENV_def a3 ex_envKey_online
          ex_envValue_online ex_option_online aliasKeyValid_def parseOptionIsFound_def)
  note r3 = configParse_commandLineOnly[where rules = exOnlineRules and config = exConfig
          and keyValue = "''PGBACKREST_ONLINE=n''" and envPol = "\<lambda>optionId. []",
          THEN conjunct2, THEN mp, OF h3, unfolded o' ex_envValue_online]
  have c2: "\<exists>envPol'. configParseEnv exRules exConfig (\<lambda>optionId. []) ''PGBACKREST_STANZA=demo''
          = Inr envPol'
        \<and> parseOptionIsFound envPol' 3 0 \<and> pvSource (envPol' 3 ! 0) = cfgSourceConfig
        \<and> pvValueList (envPol' 3 ! 0) = Some [''demo'']"
    using r2 by (simp add: t)
  have c3: "\<exists>envPol'. configParseEnv exOnlineRules exConfig (\<lambda>optionId. []) ''PGBACKREST_ONLINE=n''
          = Inr envPol'
        \<and> parseOptionIsFound envPol' 0 0 \<and> pvSource (envPol' 0 ! 0) = cfgSourceConfig
        \<and> pvNegate (envPol' 0 ! 0)"
    using r3 by (simp add: ex_type_online)
  show ?thesis
    using h1 e h2[unfolded o] t c2 a3 ex_type_online c3 by simp
qed

text \<open>
  The claim as stated fails for the environment: \<open>stanza\<close> is command-line-only in the
  example table, and \<open>PGBACKREST_STANZA=demo\<close> is stored in the parsed options and
  materialised in the configuration.
\<close>

theorem configParse_commandLineOnly_counterexample:
  "optSection (parseRuleOption exRules ! 3) = cfgSectionCommandLine
   \<and> configParseEnvList exRules exConfig (\<lambda>optionId. []) [''PGBACKREST_STANZA=demo'']
       = Inr ((\<lambda>optionId. [])(3 := [exValue cfgSourceConfig ''demo'']))
   \<and> configParseResolveIdx exWorld exRules
         ((\<lambda>optionId. [])(3 := [exValue cfgSourceConfig ''demo''])) exConfig 3 0
       = Inr \<lparr>covNegate = False, covReset = False, covSource = cfgSourceConfig,
               covValue = Some (VarStr ''demo'')\<rparr>"
  by (simp add: ex_opt3 exOption_def ex_env_stanza ex_resolve3)

subsection \<open>Order of the sections\<close>

lemma foldE_append:
  "foldE f s (xs @ ys) = (case foldE f s xs of Inl e \<Rightarrow> Inl e | Inr m \<Rightarrow> foldE f m ys)"
  by (induction xs arbitrary: s) (auto split: sum.splits)

lemma parseOptionSet_found_other:
  "\<not> (optionId' = optionId \<and> k' = k) \<Longrightarrow>
   parseOptionIsFound (parseOptionSet pol optionId' k' v) optionId k
   = parseOptionIsFound pol optionId k"
  by (auto simp: parseOptionIsFound_def parseOptionSet_def)

lemma map_of_snoc: "map_of xs n \<noteq> None \<Longrightarrow> map_of (xs @ [e]) n \<noteq> None"
  by (simp add: map_add_def split: option.splits)

lemma map_of_snoc_same: "map_of (xs @ [(n, v)]) n \<noteq> None"
  by (simp add: map_add_def split: option.splits)

text \<open>One key of a section: either the value of \<open>(optionId, k)\<close> is found afterwards exactly
  when it was found before, or the key provides the option and is recorded as seen.\<close>

lemma configParseIniKey_effect:
  assumes "optionListValid rules"
    and "configParseIniKey rules config ini section st key = Inr st'"
  shows "(parseOptionIsFound (isOptionList st') optionId k
            = parseOptionIsFound (isOptionList st) optionId k)
         \<or> (iniKeyProvides rules config section key optionId k
             \<and> map_of (isOptionFound st') (optionId * CFG_OPTION_KEY_MAX rules + k) \<noteq> None)"
    and "map_of (isOptionFound st) n \<noteq> None \<Longrightarrow> map_of (isOptionFound st') n \<noteq> None"
proof -
  let ?o = "cfgParseOption rules key"
  let ?g = "parseOptionIdxValue rules (isOptionList st) (porId ?o) (porKeyIdx ?o)"
  show "map_of (isOptionFound st) n \<noteq> None \<Longrightarrow> map_of (isOptionFound st') n \<noteq> None"
    using assms(2) map_of_snoc[of "isOptionFound st" n]
    by (auto simp: configParseIniKey_def Let_def split: if_splits option.splits)
  show "(parseOptionIsFound (isOptionList st') optionId k
            = parseOptionIsFound (isOptionList st) optionId k)
         \<or> (iniKeyProvides rules config section key optionId k
             \<and> map_of (isOptionFound st') (optionId * CFG_OPTION_KEY_MAX rules + k) \<noteq> None)"
  proof (cases "porFound ?o")
    case False
    then show ?thesis using assms(2) by (auto simp: configParseIniKey_def Let_def)
  next
    case True
    have v: "optGroup (parseRuleOption rules ! porId ?o) \<or> porKeyIdx ?o = 0"
      using cfgParseOption_valid[OF assms(1)] True by (simp add: aliasKeyValid_def)
    have g: "parseOptionIsFound ?g optionId k = parseOptionIsFound (isOptionList st) optionId k"
      using parseOptionIdxValue_found[OF v] .
    show ?thesis
    proof (cases "porId ?o = optionId \<and> porKeyIdx ?o = k")
      case False
      then have "parseOptionIsFound (parseOptionSet ?g (porId ?o) (porKeyIdx ?o) w) optionId k
          = parseOptionIsFound (isOptionList st) optionId k" for w
        using parseOptionSet_found_other[of "porId ?o" optionId "porKeyIdx ?o" k ?g w] g by auto
      then have "parseOptionIsFound (isOptionList st') optionId k
            = parseOptionIsFound (isOptionList st) optionId k"
        using assms(2) g
        by (auto simp: configParseIniKey_def Let_def split: if_splits option.splits)
      then show ?thesis by simp
    next
      case same: True
      show ?thesis
      proof (cases "iniKeyProvides rules config section key optionId k")
        case False
        then have "isOptionList st' = isOptionList st"
          using assms(2) same True
          by (auto simp: configParseIniKey_def Let_def iniKeyProvides_def
                split: if_splits option.splits)
        then show ?thesis by simp
      next
        case True
        have f: "isOptionFound st'
            = isOptionFound st @ [(optionId * CFG_OPTION_KEY_MAX rules + k, key)]"
          using assms(2) same True
          by (auto simp: configParseIniKey_def Let_def iniKeyProvides_def
                split: if_splits option.splits)
        have "map_of (isOptionFound st') (optionId * CFG_OPTION_KEY_MAX rules + k) \<noteq> None"
          unfolding f by (rule map_of_snoc_same)
        then show ?thesis using True by simp
      qed
    qed
  qed
qed

text \<open>What a key that provides the option stores when the value is not found yet.\<close>

lemma configParseIniKey_provides:
  assumes "optionListValid rules"
    and "iniKeyProvides rules config section key optionId k"
    and "configParseIniKey rules config ini section st key = Inr st'"
    and "\<not> parseOptionIsFound (isOptionList st) optionId k"
  shows "parseOptionIsFound (isOptionList st') optionId k
     \<and> pvSource (isOptionList st' optionId ! k) = cfgSourceConfig
     \<and> (iniSectionKeyIsList ini section key \<longrightarrow>
          pvValueList (isOptionList st' optionId ! k) = Some (iniGetList ini section key))
     \<and> (\<not> iniSectionKeyIsList ini section key
          \<and> cfgParseOptionType rules optionId \<noteq> cfgOptTypeBoolean \<longrightarrow>
          pvValueList (isOptionList st' optionId ! k) = Some [iniGet ini section key])
     \<and> (\<not> iniSectionKeyIsList ini section key
          \<and> cfgParseOptionType rules optionId = cfgOptTypeBoolean
          \<and> iniGet ini section key = ''n'' \<longrightarrow>
          pvNegate (isOptionList st' optionId ! k))"
proof -
  let ?o = "cfgParseOption rules key"
  have o: "porId ?o = optionId" "porKeyIdx ?o = k" "porFound ?o"
    using assms(2) by (simp_all add: iniKeyProvides_def)
  let ?g = "parseOptionIdxValue rules (isOptionList st) optionId k"
  let ?v = "parseOptionGet ?g optionId k"
  have v: "optGroup (parseRuleOption rules ! optionId) \<or> k = 0"
    using cfgParseOption_valid[OF assms(1), of key] o by (simp add: aliasKeyValid_def)
  have al: "k < length (?g optionId)"
    using parseOptionIdxValue_alloc[OF v] .
  have nf: "\<not> parseOptionIsFound ?g optionId k"
    using assms(4) parseOptionIdxValue_found[OF v, of "isOptionList st" optionId k] by simp
  then have nf': "\<not> pvFound ?v"
    using al by (simp add: parseOptionIsFound_def parseOptionGet_def)
  have e: "\<exists>w. isOptionList st' = parseOptionSet ?g optionId k w \<and> pvFound w
      \<and> pvSource w = cfgSourceConfig
      \<and> (iniSectionKeyIsList ini section key \<longrightarrow>
            pvValueList w = Some (iniGetList ini section key))
      \<and> (\<not> iniSectionKeyIsList ini section key
            \<and> cfgParseOptionType rules optionId \<noteq> cfgOptTypeBoolean \<longrightarrow>
            pvValueList w = Some [iniGet ini section key])
      \<and> (\<not> iniSectionKeyIsList ini section key
            \<and> cfgParseOptionType rules optionId = cfgOptTypeBoolean
            \<and> iniGet ini section key = ''n'' \<longrightarrow> pvNegate w)"
    using assms(2,3) nf' o
    by (auto simp: configParseIniKey_def Let_def iniKeyProvides_def
          split: if_splits option.splits)
  then obtain w where w: "isOptionList st' = parseOptionSet ?g optionId k w" "pvFound w"
      "pvSource w = cfgSourceConfig"
      "iniSectionKeyIsList ini section key \<longrightarrow>
            pvValueList w = Some (iniGetList ini section key)"
      "\<not> iniSectionKeyIsList ini section key
            \<and> cfgParseOptionType rules optionId \<noteq> cfgOptTypeBoolean \<longrightarrow>
            pvValueList w = Some [iniGet ini section key]"
      "\<not> iniSectionKeyIsList ini section key
            \<and> cfgParseOptionType rules optionId = cfgOptTypeBoolean
            \<and> iniGet ini section key = ''n'' \<longrightarrow> pvNegate w"
    by blast
  have s: "isOptionList st' optionId ! k = w" "k < length (isOptionList st' optionId)"
    using al by (simp_all add: w(1) parseOptionSet_def)
  show ?thesis
    using w(2-6) s by (simp add: parseOptionIsFound_def)
qed

lemma configParseIniSection_fold:
  assumes "configParseIniSection rules config ini pol section = Inr pol'"
  obtains st' where "foldE (configParseIniKey rules config ini section)
      \<lparr>isOptionFound = [], isOptionList = pol\<rparr> (iniSectionKeyList ini section) = Inr st'"
    and "pol' = isOptionList st'"
  using assms by (auto simp: configParseIniSection_def split: sum.splits)

text \<open>A section that does not provide the option leaves it not found.\<close>

lemma configParseIniSection_unprovided:
  assumes "optionListValid rules"
    and "configParseIniSection rules config ini pol section = Inr pol'"
    and "\<not> iniSectionProvides rules config ini section optionId k"
    and "\<not> parseOptionIsFound pol optionId k"
  shows "\<not> parseOptionIsFound pol' optionId k"
proof -
  obtain st' where f: "foldE (configParseIniKey rules config ini section)
      \<lparr>isOptionFound = [], isOptionList = pol\<rparr> (iniSectionKeyList ini section) = Inr st'"
    and p: "pol' = isOptionList st'"
    using configParseIniSection_fold[OF assms(2)] by blast
  have n: "\<forall>key\<in>set (iniSectionKeyList ini section).
      \<not> iniKeyProvides rules config section key optionId k"
    using assms(3) by (simp add: iniSectionProvides_def list_ex_iff)
  have "\<not> parseOptionIsFound (isOptionList t') optionId k"
    if "foldE (configParseIniKey rules config ini section) t keys = Inr t'"
      "\<not> parseOptionIsFound (isOptionList t) optionId k"
      "\<forall>key\<in>set keys. \<not> iniKeyProvides rules config section key optionId k"
    for keys t t'
    using that
  proof (induction keys arbitrary: t)
    case Nil
    then show ?case by simp
  next
    case (Cons key keys)
    then obtain mid where m: "configParseIniKey rules config ini section t key = Inr mid"
      "foldE (configParseIniKey rules config ini section) mid keys = Inr t'"
      by (auto split: sum.splits)
    have "\<not> parseOptionIsFound (isOptionList mid) optionId k"
      using configParseIniKey_effect(1)[OF assms(1) m(1), where optionId = optionId and k = k] Cons.prems(2,3) by simp
    then show ?case using Cons.IH[OF m(2)] Cons.prems(3) by simp
  qed
  then show ?thesis using f p assms(4) n by simp
qed

text \<open>A section that provides the option stores the value of the key, once.\<close>

lemma configParseIniSection_provided:
  assumes "optionListValid rules"
    and "configParseIniSection rules config ini pol section = Inr pol'"
    and "key \<in> set (iniSectionKeyList ini section)"
    and "iniKeyProvides rules config section key optionId k"
    and "\<not> parseOptionIsFound pol optionId k"
  shows "parseOptionIsFound pol' optionId k
     \<and> pvSource (pol' optionId ! k) = cfgSourceConfig
     \<and> (iniSectionKeyIsList ini section key \<longrightarrow>
          pvValueList (pol' optionId ! k) = Some (iniGetList ini section key))
     \<and> (\<not> iniSectionKeyIsList ini section key
          \<and> cfgParseOptionType rules optionId \<noteq> cfgOptTypeBoolean \<longrightarrow>
          pvValueList (pol' optionId ! k) = Some [iniGet ini section key])
     \<and> (\<not> iniSectionKeyIsList ini section key
          \<and> cfgParseOptionType rules optionId = cfgOptTypeBoolean
          \<and> iniGet ini section key = ''n'' \<longrightarrow>
          pvNegate (pol' optionId ! k))"
proof -
  let ?f = "configParseIniKey rules config ini section"
  let ?n = "optionId * CFG_OPTION_KEY_MAX rules + k"
  let ?J = "\<lambda>s. parseOptionIsFound (isOptionList s) optionId k
               \<longrightarrow> map_of (isOptionFound s) ?n \<noteq> None"
  obtain st' where f: "foldE ?f \<lparr>isOptionFound = [], isOptionList = pol\<rparr>
      (iniSectionKeyList ini section) = Inr st'"
    and p: "pol' = isOptionList st'"
    using configParseIniSection_fold[OF assms(2)] by blast
  obtain pre post where sp: "iniSectionKeyList ini section = pre @ key # post"
    using assms(3) by (meson split_list)
  obtain s1 s2 where s1: "foldE ?f \<lparr>isOptionFound = [], isOptionList = pol\<rparr> pre = Inr s1"
    and s2: "?f s1 key = Inr s2" and s3: "foldE ?f s2 post = Inr st'"
    using f unfolding sp foldE_append by (auto split: sum.splits)
  have "?J s1 \<and> True = True"
  proof (rule foldE_keep[where f = ?f and P = ?J and Q = "\<lambda>s. True", OF _ s1])
    fix s x s'
    assume a: "?f s x = Inr s'" "?J s"
    show "?J s' \<and> True = True"
      using configParseIniKey_effect(1)[OF assms(1) a(1), where optionId = optionId and k = k]
        configParseIniKey_effect(2)[OF assms(1) a(1), where n = ?n] a(2) by auto
  next
    show "?J \<lparr>isOptionFound = [], isOptionList = pol\<rparr>" using assms(5) by simp
  qed
  then have j: "?J s1" by simp
  have m: "map_of (isOptionFound s1) ?n = None"
    using s2 assms(4)
    by (auto simp: configParseIniKey_def Let_def iniKeyProvides_def
          split: if_splits option.splits)
  have nf: "\<not> parseOptionIsFound (isOptionList s1) optionId k" using j m by auto
  note st = configParseIniKey_provides[OF assms(1) assms(4) s2 nf]
  have "parseOptionIsFound (isOptionList st') optionId k
      \<and> (k < length (isOptionList st' optionId), isOptionList st' optionId ! k)
          = (k < length (isOptionList s2 optionId), isOptionList s2 optionId ! k)"
  proof (rule foldE_keep[where f = ?f and P = "\<lambda>s. parseOptionIsFound (isOptionList s) optionId k"
        and Q = "\<lambda>s. (k < length (isOptionList s optionId), isOptionList s optionId ! k)",
        OF _ s3])
    fix s x s'
    assume a: "?f s x = Inr s'" "parseOptionIsFound (isOptionList s) optionId k"
    show "parseOptionIsFound (isOptionList s') optionId k
        \<and> (k < length (isOptionList s' optionId), isOptionList s' optionId ! k)
            = (k < length (isOptionList s optionId), isOptionList s optionId ! k)"
      using configParseIniKey_keep[OF assms(1) a(1) a(2)] a(2)
      by (simp add: parseOptionIsFound_def)
  next
    show "parseOptionIsFound (isOptionList s2) optionId k" using st by simp
  qed
  then have "pol' optionId ! k = isOptionList s2 optionId ! k"
    "parseOptionIsFound pol' optionId k"
    using p by simp_all
  then show ?thesis using st by simp
qed

lemma configParseIni_unprovided:
  assumes "optionListValid rules"
    and "configParseIni rules config ini pol sections = Inr pol'"
    and "\<forall>s\<in>set sections. \<not> iniSectionProvides rules config ini s optionId k"
    and "\<not> parseOptionIsFound pol optionId k"
  shows "\<not> parseOptionIsFound pol' optionId k"
  using assms(2-4) unfolding configParseIni_def
proof (induction sections arbitrary: pol)
  case Nil
  then show ?case by simp
next
  case (Cons s sections)
  then obtain mid where m: "configParseIniSection rules config ini pol s = Inr mid"
    "foldE (configParseIniSection rules config ini) mid sections = Inr pol'"
    by (auto split: sum.splits)
  have "\<not> parseOptionIsFound mid optionId k"
    using configParseIniSection_unprovided[OF assms(1) m(1)] Cons.prems(2,3) by simp
  then show ?case using Cons.IH[OF m(2)] Cons.prems(2) by simp
qed

text \<open>The configuration file phase is the merge of the sections in the search order.\<close>

lemma configParseFile_sections:
  assumes "cfgParseOptionDefault rules (cfgCommand config) (cfgOptConfig rules)
           = Some optConfigDefault"
    and "cfgParseOptionDefault rules (cfgCommand config) (cfgOptConfigIncludePath rules)
         = Some optConfigIncludePathDefault"
    and "cfgFileLoad world rules pol optConfigDefault optConfigIncludePathDefault
           PGBACKREST_CONFIG_ORIG_PATH_FILE = Inr (Some configString)"
    and "iniParse world configString = Inr ini"
    and "configParseFile world rules config pol = Inr pol'"
  shows "configParseFile world rules config pol
         = configParseIni rules config ini pol
             (sectionSearchOrder (parsedStanza rules pol)
                (cfgCommandName rules (cfgCommand config)))"
proof -
  obtain stanza where st: "configParseStanza rules pol = Inr stanza"
    and f: "configParseFile world rules config pol
            = configParseIni rules config ini pol (configParseSectionList rules config stanza)"
    using assms by (auto simp: configParseFile_def split: sum.splits)
  have "stanza = parsedStanza rules pol"
    using st
    by (auto simp: configParseStanza_def parsedStanza_def strLstGet_def
          split: if_splits option.splits sum.splits list.splits)
  moreover have "configParseSectionList rules config stanza
      = sectionSearchOrder stanza (cfgCommandName rules (cfgCommand config))"
    by (simp add: configParseSectionList_def sectionSearchOrder_def CFGDEF_SECTION_GLOBAL_def)
  ultimately show ?thesis using f by simp
qed

lemma configParseFile_sectionOrder:
  assumes "optionListValid rules"
    and "cfgParseOptionDefault rules (cfgCommand config) (cfgOptConfig rules)
         = Some optConfigDefault"
    and "cfgParseOptionDefault rules (cfgCommand config) (cfgOptConfigIncludePath rules)
         = Some optConfigIncludePathDefault"
    and "cfgFileLoad world rules pol optConfigDefault optConfigIncludePathDefault
           PGBACKREST_CONFIG_ORIG_PATH_FILE = Inr (Some configString)"
    and "iniParse world configString = Inr ini"
    and "configParseFile world rules config pol = Inr pol'"
  shows
    "configParseFile world rules config pol
     = configParseIni rules config ini pol
         (sectionSearchOrder (parsedStanza rules pol) (cfgCommandName rules (cfgCommand config)))
   \<and> (sectionSearchOrder (parsedStanza rules pol) (cfgCommandName rules (cfgCommand config))
          = earlier @ sectionName # later
        \<and> \<not> parseOptionIsFound pol optionId k
        \<and> (\<forall>s\<in>set earlier. \<not> iniSectionProvides rules config ini s optionId k)
        \<and> key \<in> set (iniSectionKeyList ini sectionName)
        \<and> iniKeyProvides rules config sectionName key optionId k \<longrightarrow>
       parseOptionIsFound pol' optionId k
       \<and> pvSource (pol' optionId ! k) = cfgSourceConfig
       \<and> (iniSectionKeyIsList ini sectionName key \<longrightarrow>
            pvValueList (pol' optionId ! k) = Some (iniGetList ini sectionName key))
       \<and> (\<not> iniSectionKeyIsList ini sectionName key
            \<and> cfgParseOptionType rules optionId \<noteq> cfgOptTypeBoolean \<longrightarrow>
            pvValueList (pol' optionId ! k) = Some [iniGet ini sectionName key])
       \<and> (\<not> iniSectionKeyIsList ini sectionName key
            \<and> cfgParseOptionType rules optionId = cfgOptTypeBoolean
            \<and> iniGet ini sectionName key = ''n'' \<longrightarrow>
            pvNegate (pol' optionId ! k)))
   \<and> (\<not> parseOptionIsFound pol optionId k
        \<and> (\<forall>s\<in>set (sectionSearchOrder (parsedStanza rules pol)
                        (cfgCommandName rules (cfgCommand config))).
              \<not> iniSectionProvides rules config ini s optionId k) \<longrightarrow>
       \<not> parseOptionIsFound pol' optionId k)
   \<and> (parseOptionIsFound pol optionId k \<longrightarrow>
       parseOptionIsFound pol' optionId k \<and> pol' optionId ! k = pol optionId ! k)"
proof -
  let ?sections = "sectionSearchOrder (parsedStanza rules pol)
                     (cfgCommandName rules (cfgCommand config))"
  have f: "configParseFile world rules config pol = configParseIni rules config ini pol ?sections"
    using configParseFile_sections[OF assms(2-6)] .
  then have i: "configParseIni rules config ini pol ?sections = Inr pol'"
    using assms(6) by simp
  have a: "parseOptionIsFound pol' optionId k
       \<and> pvSource (pol' optionId ! k) = cfgSourceConfig
       \<and> (iniSectionKeyIsList ini sectionName key \<longrightarrow>
            pvValueList (pol' optionId ! k) = Some (iniGetList ini sectionName key))
       \<and> (\<not> iniSectionKeyIsList ini sectionName key
            \<and> cfgParseOptionType rules optionId \<noteq> cfgOptTypeBoolean \<longrightarrow>
            pvValueList (pol' optionId ! k) = Some [iniGet ini sectionName key])
       \<and> (\<not> iniSectionKeyIsList ini sectionName key
            \<and> cfgParseOptionType rules optionId = cfgOptTypeBoolean
            \<and> iniGet ini sectionName key = ''n'' \<longrightarrow>
            pvNegate (pol' optionId ! k))"
    if h: "?sections = earlier @ sectionName # later"
      "\<not> parseOptionIsFound pol optionId k"
      "\<forall>s\<in>set earlier. \<not> iniSectionProvides rules config ini s optionId k"
      "key \<in> set (iniSectionKeyList ini sectionName)"
      "iniKeyProvides rules config sectionName key optionId k"
  proof -
    obtain m1 m2 where m1: "configParseIni rules config ini pol earlier = Inr m1"
      and m2: "configParseIniSection rules config ini m1 sectionName = Inr m2"
      and m3: "configParseIni rules config ini m2 later = Inr pol'"
      using i unfolding h(1) configParseIni_def foldE_append
      by (auto split: sum.splits)
    have n1: "\<not> parseOptionIsFound m1 optionId k"
      using configParseIni_unprovided[OF assms(1) m1 h(3) h(2)] .
    note st = configParseIniSection_provided[OF assms(1) m2 h(4) h(5) n1]
    have "k < length (pol' optionId) \<and> pol' optionId ! k = m2 optionId ! k"
      using configParseIni_keep[OF assms(1) m3] st by simp
    then show ?thesis using st by (simp add: parseOptionIsFound_def)
  qed
  have b: "\<not> parseOptionIsFound pol' optionId k"
    if "\<not> parseOptionIsFound pol optionId k"
      "\<forall>s\<in>set ?sections. \<not> iniSectionProvides rules config ini s optionId k"
    using configParseIni_unprovided[OF assms(1) i that(2) that(1)] .
  have c: "parseOptionIsFound pol' optionId k \<and> pol' optionId ! k = pol optionId ! k"
    if "parseOptionIsFound pol optionId k"
    using configParseFile_keep[OF assms(1) assms(6) that] that
    by (simp add: parseOptionIsFound_def)
  show ?thesis
    using f a b c by blast
qed

text \<open>The run of \<open>--stanza=demo backup\<close> with the example document as configuration file.\<close>

lemma ex_stanza_defaults:
  "cfgParseOptionDefault exRules (cfgCommand exConfig) (cfgOptConfig exRules)
   = Some ''/etc/pgbackrest/pgbackrest.conf''"
  "cfgParseOptionDefault exRules (cfgCommand exConfig) (cfgOptConfigIncludePath exRules)
   = Some ''/etc/pgbackrest/conf.d''"
  by (simp_all add: cfgParseOptionDefault_def exRules_def exConfig_def exFind_eval)

lemma ex_stanza_load:
  "cfgFileLoad exWorldFile exRules exStanzaParam ''/etc/pgbackrest/pgbackrest.conf''
     ''/etc/pgbackrest/conf.d'' PGBACKREST_CONFIG_ORIG_PATH_FILE = Inr (Some ''[global]'')"
  by (simp add: cfgFileLoad_def exRules_def parseOptionFound_def exStanzaParam_def
        storageGetP_def storageListP_def exWorldFile_def exWorld_def)

lemma ex_stanza_merge:
  "configParseFile exWorldFile exRules exConfig exStanzaParam = Inr exStanzaMerged"
  by (simp add: exFile_eval exStanzaParam_def exStanzaMerged_def exRules_def
        cfgParseOptionInfo_def cfgParseOption_def cfgParseOptionValid_def cfgParseOptionType_def
        strBeginsWithZ_def rep4 Let_def exFind_eval
        exOption_def exConfig_def configNew_def parseOptionIdxValue_def parseOptionGet_def
        parseOptionSet_def exValue_def parseOptionValueZero_def)

lemma ex_stanza_sections:
  "sectionSearchOrder (parsedStanza exRules exStanzaParam)
     (cfgCommandName exRules (cfgCommand exConfig))
   = [''demo:backup''] @ ''demo'' # [''global:backup'', ''global'']"
  by (simp add: sectionSearchOrder_def parsedStanza_def exStanzaParam_def exValue_def
        cfgCommandName_def exConfig_def exRules_def)

lemma ex_stanza_provides:
  "\<forall>s\<in>set [''demo:backup'']. \<not> iniSectionProvides exRules exConfig exIni s 7 0"
  "''log-level'' \<in> set (iniSectionKeyList exIni ''demo'')"
  "iniKeyProvides exRules exConfig ''demo'' ''log-level'' 7 0"
proof -
  show "\<forall>s\<in>set [''demo:backup'']. \<not> iniSectionProvides exRules exConfig exIni s 7 0"
    by (simp add: iniSectionProvides_def exIni_def)
  show "''log-level'' \<in> set (iniSectionKeyList exIni ''demo'')"
    by (simp add: exIni_def)
  have "cfgParseOptionValid exRules (cfgCommand exConfig) (cfgCommandRole exConfig) 7"
    "optSection (parseRuleOption exRules ! 7) = cfgSectionGlobal"
    by (simp_all add: cfgParseOptionValid_def exConfig_def configNew_def exRules_def exOption_def)
  then show "iniKeyProvides exRules exConfig ''demo'' ''log-level'' 7 0"
    by (simp add: iniKeyProvides_def ex_option_logLevel)
qed

lemma ex_stanza_run:
  "\<exists>config.
     (case (case configParseGroup exRules exConfig exStanzaMerged of
              Inl e \<Rightarrow> Inl e
            | Inr grouped \<Rightarrow> configParseResolve exWorldFile exRules grouped exStanzaMerged) of
        Inl e \<Rightarrow> Inl e
      | Inr resolved \<Rightarrow>
          foldE (configParseGroupDefault exRules) resolved
            [0..<CFG_OPTION_GROUP_TOTAL exRules]) = Inr config
     \<and> coIndex (cfgOption config 7)
         = [\<lparr>covNegate = False, covReset = False, covSource = cfgSourceConfig,
              covValue = Some (VarStr ''detail'')\<rparr>]"
  by (simp add: exWorldFile_def exWorld_def exStanzaMerged_def exStanzaParam_def exGroup_eval
        exResolve_eval exDefault_eval ex_indexMap0)

lemma ex_stanza_file_parse:
  "\<exists>config. configParse exWorldFile exRules ''pgbackrest'' exStanzaArgs = Inr config
     \<and> coIndex (cfgOption config 7)
         = [\<lparr>covNegate = False, covReset = False, covSource = cfgSourceConfig,
              covValue = Some (VarStr ''detail'')\<rparr>]"
proof -
  have c: "cfgCommand exConfig \<noteq> cfgCmdNone exRules \<and> cfgCommand exConfig \<noteq> cfgCmdVersion exRules
      \<and> cfgCommand exConfig \<noteq> cfgCmdHelp exRules"
    by (simp add: exConfig_def exRules_def)
  have e: "configParseEnvList exRules exConfig exStanzaParam (environ exWorldFile)
      = Inr exStanzaParam"
    by (simp add: exWorldFile_def exWorld_def)
  show ?thesis
    unfolding configParse_def
    using ex_stanza_run by (simp add: ex_stanza_phase1 ex_stanza_argEnd c e ex_stanza_merge)
qed

text \<open>
  Claim C6. In every run of \<open>configParse\<close> for a command other than help and version in which
  the configuration files are loaded and parsed, the values passed on to the group and
  validation phases are those of the configuration file phase, and this phase is the merge
  of the sections of the document in the fixed order \<open>[stanza:command]\<close>, \<open>[stanza]\<close>,
  \<open>[global:command]\<close>, \<open>[global]\<close>, the two stanza sections being present only when a stanza
  is known. For a given \<open>(option_id, key_index)\<close> not found before the phase, the first
  section in that order that provides the option wins: the value of its key is stored with
  the source \<open>config\<close> (the list of a key with several values, the single value of any
  other key of an option that is not boolean, the negation for the value \<open>n\<close> of a boolean
  option), whatever the later sections hold for the option; when no section provides the
  option it stays not found; and a value found before the phase is left as it is by every
  section.
\<close>

theorem configParse_sectionOrder:
  assumes "optionListValid rules"
    and "configParse world rules exe argList = Inr parsed"
    and "configParseArgList rules (parseStateNew rules exe) argList = Inr st"
    and "configParseArgEnd rules st = Inr config"
    and "cfgCommand config \<noteq> cfgCmdNone rules \<and> cfgCommand config \<noteq> cfgCmdVersion rules
         \<and> cfgCommand config \<noteq> cfgCmdHelp rules"
    and "configParseEnvList rules config (psOptionList st) (environ world) = Inr pol"
    and "cfgParseOptionDefault rules (cfgCommand config) (cfgOptConfig rules)
         = Some optConfigDefault"
    and "cfgParseOptionDefault rules (cfgCommand config) (cfgOptConfigIncludePath rules)
         = Some optConfigIncludePathDefault"
    and "cfgFileLoad world rules pol optConfigDefault optConfigIncludePathDefault
           PGBACKREST_CONFIG_ORIG_PATH_FILE = Inr (Some configString)"
    and "iniParse world configString = Inr ini"
  shows
    "\<exists>pol' grouped resolved.
       configParseFile world rules config pol = Inr pol'
     \<and> configParseGroup rules config pol' = Inr grouped
     \<and> configParseResolve world rules grouped pol' = Inr resolved
     \<and> foldE (configParseGroupDefault rules) resolved [0..<CFG_OPTION_GROUP_TOTAL rules]
         = Inr parsed
     \<and> configParseFile world rules config pol
         = configParseIni rules config ini pol
             (sectionSearchOrder (parsedStanza rules pol)
                (cfgCommandName rules (cfgCommand config)))
     \<and> (sectionSearchOrder (parsedStanza rules pol) (cfgCommandName rules (cfgCommand config))
            = earlier @ sectionName # later
          \<and> \<not> parseOptionIsFound pol optionId k
          \<and> (\<forall>s\<in>set earlier. \<not> iniSectionProvides rules config ini s optionId k)
          \<and> key \<in> set (iniSectionKeyList ini sectionName)
          \<and> iniKeyProvides rules config sectionName key optionId k \<longrightarrow>
         parseOptionIsFound pol' optionId k
         \<and> pvSource (pol' optionId ! k) = cfgSourceConfig
         \<and> (iniSectionKeyIsList ini sectionName key \<longrightarrow>
              pvValueList (pol' optionId ! k) = Some (iniGetList ini sectionName key))
         \<and> (\<not> iniSectionKeyIsList ini sectionName key
              \<and> cfgParseOptionType rules optionId \<noteq> cfgOptTypeBoolean \<longrightarrow>
              pvValueList (pol' optionId ! k) = Some [iniGet ini sectionName key])
         \<and> (\<not> iniSectionKeyIsList ini sectionName key
              \<and> cfgParseOptionType rules optionId = cfgOptTypeBoolean
              \<and> iniGet ini sectionName key = ''n'' \<longrightarrow>
              pvNegate (pol' optionId ! k)))
     \<and> (\<not> parseOptionIsFound pol optionId k
          \<and> (\<forall>s\<in>set (sectionSearchOrder (parsedStanza rules pol)
                          (cfgCommandName rules (cfgCommand config))).
                \<not> iniSectionProvides rules config ini s optionId k) \<longrightarrow>
         \<not> parseOptionIsFound pol' optionId k)
     \<and> (parseOptionIsFound pol optionId k \<longrightarrow>
         parseOptionIsFound pol' optionId k \<and> pol' optionId ! k = pol optionId ! k)"
proof -
  obtain pol' grouped resolved where
    f: "configParseFile world rules config pol = Inr pol'"
    and g: "configParseGroup rules config pol' = Inr grouped"
    and r: "configParseResolve world rules grouped pol' = Inr resolved"
    and d: "foldE (configParseGroupDefault rules) resolved [0..<CFG_OPTION_GROUP_TOTAL rules]
         = Inr parsed"
    using configParse_phases[OF assms(2)] assms(3-6) by auto
  note s = configParseFile_sectionOrder[OF assms(1) assms(7-10) f,
      where earlier = earlier and sectionName = sectionName and later = later
        and optionId = optionId and k = k and key = key]
  show ?thesis
    using f g r d s by blast
qed

theorem configParse_sectionOrder_witness:
  "optionListValid exRules
   \<and> configParseArgList exRules (parseStateNew exRules ''pgbackrest'') exStanzaArgs
       = Inr \<lparr>psConfig = exConfig, psOptionList = exStanzaParam, psCommandSet = True,
               psArgFound = True\<rparr>
   \<and> configParseEnvList exRules exConfig exStanzaParam (environ exWorldFile) = Inr exStanzaParam
   \<and> cfgFileLoad exWorldFile exRules exStanzaParam ''/etc/pgbackrest/pgbackrest.conf''
        ''/etc/pgbackrest/conf.d'' PGBACKREST_CONFIG_ORIG_PATH_FILE = Inr (Some ''[global]'')
   \<and> iniParse exWorldFile ''[global]'' = Inr exIni
   \<and> sectionSearchOrder (parsedStanza exRules exStanzaParam)
        (cfgCommandName exRules (cfgCommand exConfig))
       = [''demo:backup'', ''demo'', ''global:backup'', ''global'']
   \<and> \<not> parseOptionIsFound exStanzaParam 7 0
   \<and> iniKeyProvides exRules exConfig ''demo'' ''log-level'' 7 0
   \<and> iniGet exIni ''demo'' ''log-level'' = ''detail''
   \<and> iniGet exIni ''global'' ''log-level'' = ''info''
   \<and> (\<exists>parsed pol'. configParse exWorldFile exRules ''pgbackrest'' exStanzaArgs = Inr parsed
        \<and> configParseFile exWorldFile exRules exConfig exStanzaParam = Inr pol'
        \<and> parseOptionIsFound pol' 7 0
        \<and> pvSource (pol' 7 ! 0) = cfgSourceConfig
        \<and> pvValueList (pol' 7 ! 0) = Some [''detail'']
        \<and> coIndex (cfgOption parsed 7)
            = [\<lparr>covNegate = False, covReset = False, covSource = cfgSourceConfig,
                 covValue = Some (VarStr ''detail'')\<rparr>])"
proof -
  let ?st = "\<lparr>psConfig = exConfig, psOptionList = exStanzaParam, psCommandSet = True,
               psArgFound = True\<rparr>"
  have p: "iniParse exWorldFile ''[global]'' = Inr exIni"
    by (simp add: exWorldFile_def exWorld_def)
  have n: "\<not> parseOptionIsFound exStanzaParam 7 0"
    by (simp add: parseOptionIsFound_def exStanzaParam_def)
  have t: "\<not> iniSectionKeyIsList exIni ''demo'' ''log-level''
      \<and> cfgParseOptionType exRules 7 \<noteq> cfgOptTypeBoolean"
    by (simp add: exIni_def cfgParseOptionType_def exRules_def exOption_def)
  have g: "iniGet exIni ''demo'' ''log-level'' = ''detail''"
    "iniGet exIni ''global'' ''log-level'' = ''info''"
    by (simp_all add: exIni_def)
  have c: "cfgCommand exConfig \<noteq> cfgCmdNone exRules \<and> cfgCommand exConfig \<noteq> cfgCmdVersion exRules
      \<and> cfgCommand exConfig \<noteq> cfgCmdHelp exRules"
    by (simp add: exConfig_def exRules_def)
  have e: "configParseEnvList exRules exConfig (psOptionList ?st) (environ exWorldFile)
      = Inr exStanzaParam"
    by (simp add: exWorldFile_def exWorld_def)
  have a: "configParseArgEnd exRules ?st = Inr exConfig"
    using ex_stanza_argEnd .
  obtain parsed where r: "configParse exWorldFile exRules ''pgbackrest'' exStanzaArgs = Inr parsed"
    and i: "coIndex (cfgOption parsed 7)
         = [\<lparr>covNegate = False, covReset = False, covSource = cfgSourceConfig,
              covValue = Some (VarStr ''detail'')\<rparr>]"
    using ex_stanza_file_parse by blast
  have h: "sectionSearchOrder (parsedStanza exRules exStanzaParam)
          (cfgCommandName exRules (cfgCommand exConfig))
          = [''demo:backup''] @ ''demo'' # [''global:backup'', ''global'']
        \<and> \<not> parseOptionIsFound exStanzaParam 7 0
        \<and> (\<forall>s\<in>set [''demo:backup'']. \<not> iniSectionProvides exRules exConfig exIni s 7 0)
        \<and> ''log-level'' \<in> set (iniSectionKeyList exIni ''demo'')
        \<and> iniKeyProvides exRules exConfig ''demo'' ''log-level'' 7 0"
    using ex_stanza_sections n ex_stanza_provides by simp
  from configParse_sectionOrder[OF ex_valid r ex_stanza_phase1 a c e ex_stanza_defaults
      ex_stanza_load p, where earlier = "[''demo:backup'']" and sectionName = "''demo''"
      and later = "[''global:backup'', ''global'']" and optionId = 7 and k = 0
      and key = "''log-level''"]
  obtain pol' where f: "configParseFile exWorldFile exRules exConfig exStanzaParam = Inr pol'"
    and w: "sectionSearchOrder (parsedStanza exRules exStanzaParam)
            (cfgCommandName exRules (cfgCommand exConfig))
            = [''demo:backup''] @ ''demo'' # [''global:backup'', ''global'']
          \<and> \<not> parseOptionIsFound exStanzaParam 7 0
          \<and> (\<forall>s\<in>set [''demo:backup'']. \<not> iniSectionProvides exRules exConfig exIni s 7 0)
          \<and> ''log-level'' \<in> set (iniSectionKeyList exIni ''demo'')
          \<and> iniKeyProvides exRules exConfig ''demo'' ''log-level'' 7 0 \<longrightarrow>
         parseOptionIsFound pol' 7 0
         \<and> pvSource (pol' 7 ! 0) = cfgSourceConfig
         \<and> (iniSectionKeyIsList exIni ''demo'' ''log-level'' \<longrightarrow>
              pvValueList (pol' 7 ! 0) = Some (iniGetList exIni ''demo'' ''log-level''))
         \<and> (\<not> iniSectionKeyIsList exIni ''demo'' ''log-level''
              \<and> cfgParseOptionType exRules 7 \<noteq> cfgOptTypeBoolean \<longrightarrow>
              pvValueList (pol' 7 ! 0) = Some [iniGet exIni ''demo'' ''log-level''])
         \<and> (\<not> iniSectionKeyIsList exIni ''demo'' ''log-level''
              \<and> cfgParseOptionType exRules 7 = cfgOptTypeBoolean
              \<and> iniGet exIni ''demo'' ''log-level'' = ''n'' \<longrightarrow>
              pvNegate (pol' 7 ! 0))"
    by (elim exE conjE) (rule that)
  have v: "parseOptionIsFound pol' 7 0 \<and> pvSource (pol' 7 ! 0) = cfgSourceConfig
      \<and> pvValueList (pol' 7 ! 0) = Some [''detail'']"
    using w[THEN mp, OF h] t g(1) by simp
  have x: "\<exists>parsed pol'. configParse exWorldFile exRules ''pgbackrest'' exStanzaArgs = Inr parsed
        \<and> configParseFile exWorldFile exRules exConfig exStanzaParam = Inr pol'
        \<and> parseOptionIsFound pol' 7 0
        \<and> pvSource (pol' 7 ! 0) = cfgSourceConfig
        \<and> pvValueList (pol' 7 ! 0) = Some [''detail'']
        \<and> coIndex (cfgOption parsed 7)
            = [\<lparr>covNegate = False, covReset = False, covSource = cfgSourceConfig,
                 covValue = Some (VarStr ''detail'')\<rparr>]"
    using r f v i by blast
  have s: "sectionSearchOrder (parsedStanza exRules exStanzaParam)
        (cfgCommandName exRules (cfgCommand exConfig))
       = [''demo:backup'', ''demo'', ''global:backup'', ''global'']"
    using ex_stanza_sections by simp
  show ?thesis
    using ex_valid ex_stanza_phase1 e ex_stanza_load p s n ex_stanza_provides(3) g x by simp
qed

subsection \<open>The index map of the pg group\<close>

text \<open>The run of the example arguments, phase by phase.\<close>

lemma ex_phase1: "configParseArgList exRules (parseStateNew exRules ''pgbackrest'') exArgs
   = Inr \<lparr>psConfig = exConfig, psOptionList = exPol, psCommandSet = True, psArgFound = True\<rparr>"
  by (simp add: exArgs_def parseStateNew_def configParseArg_def configParseOptionArg_def Let_def
     exRules_def cfgParseOptionInfo_def cfgParseOptionSecure_def exOption_def parseOptionIdxValue_def
     parseOptionGet_def parseOptionSet_def required_argument_def configParseCommand_def cfgCommandId_def
     configNew_def cfgCmdRoleDefault_def parseOptionValueZero_def exConfig_def exPol_def exValue_def
     rep4)

lemma ex_group: "configParseGroup exRules exConfig exPol = Inr exGrouped"
  by (simp add: configParseGroup_def configParseGroupOption_def Let_def upt11 upt2 upt4
     exRules_def exOption_def exConfig_def configNew_def cfgParseOptionValid_def configOptionUpd_def
     configGroupUpd_def exPol_def configParseGroupKey_def exValue_def parseOptionValueZero_def
     configOptionZero_def configOptionGroupZero_def configParseGroupIndexMap_def ex_indexMap
     exGrouped_def exGroupedOption_def)
     (simp add: numeral_2_eq_2)

lemma ex_argEnd:
  "configParseArgEnd exRules
     \<lparr>psConfig = exConfig, psOptionList = exPol, psCommandSet = True, psArgFound = True\<rparr>
   = Inr exConfig"
  by (simp add: configParseArgEnd_def exConfig_def configNew_def)

lemma ex_fileNone: "configParseFile exWorld exRules exConfig exPol = Inr exPol"
proof -
  have c: "cfgCommand exConfig = 0" by (simp add: exConfig_def)
  have l: "cfgFileLoad exWorld exRules exPol ''/etc/pgbackrest/pgbackrest.conf''
     ''/etc/pgbackrest/conf.d'' PGBACKREST_CONFIG_ORIG_PATH_FILE = Inr None"
    unfolding cfgFileLoad_def ex_ids
    by (simp add: parseOptionFound_def exPol_def storageGetP_def storageListP_def exWorld_def)
  show ?thesis
    unfolding configParseFile_def c ex_ids using ex_default1 by (simp add: ex_default0 l)
qed

lemma ex_resolve: "configParseResolve exWorld exRules exGrouped exPol = Inr exResolved"
  by (simp add: configParseResolve_def configParseResolveOption_def configParseResolveStore_def
     configParseResolveIdx_def configParseOptionKeyIdx_def configParseOptionValue_def
     optionSet_def configParseDepend_def configParseValue_def configParseDefault_def
     cfgParseOptionDefault_def cfgParseOptionType_def cfgParseOptionRequired_def
     cfgParseOptionKeyIdxName_def strLstGet_def strBeginsWithZ_def strEndsWithZ_def
     cvtZToInt64_def isDigit_def digitsToNat_def
     Let_def upt11 upt2 exFind_eval
     exRules_def exConfig_def configNew_def configOptionUpd_def
     configGroupUpd_def exPol_def exValue_def parseOptionValueZero_def
     configOptionZero_def configOptionGroupZero_def configOptionValueZero_def
     exGrouped_def exGroupedOption_def exResolved_def exResolvedOption_def exResolvedValue_def)
     (simp add: numeral_2_eq_2)

lemma ex_groupDefault:
  "foldE (configParseGroupDefault exRules) exResolved [0..<CFG_OPTION_GROUP_TOTAL exRules]
   = Inr exParsed"
  by (simp add: configParseGroupDefault_def cfgOptionTest_def Let_def upt2
     exRules_def exConfig_def configNew_def configGroupUpd_def
     configOptionZero_def configOptionGroupZero_def
     exGrouped_def exGroupedOption_def exResolved_def exResolvedOption_def exResolvedValue_def
     exParsed_def)

lemma ex_parse: "configParse exWorld exRules ''pgbackrest'' exArgs = Inr exParsed"
proof -
  have c: "cfgCommand exConfig \<noteq> cfgCmdNone exRules \<and> cfgCommand exConfig \<noteq> cfgCmdVersion exRules
      \<and> cfgCommand exConfig \<noteq> cfgCmdHelp exRules"
    by (simp add: exConfig_def exRules_def)
  have e: "configParseEnvList exRules exConfig exPol (environ exWorld) = Inr exPol"
    by (simp add: exWorld_def)
  show ?thesis
    unfolding configParse_def
    by (simp add: ex_phase1 ex_argEnd c e ex_fileNone ex_group ex_resolve ex_groupDefault)
qed

text \<open>
  Claim C10. In every parse that returns a configuration, entry 0 of the index map of the pg
  group holds key index 0 (the key \<open>pg1\<close>): the map starts zeroed, the loop that writes it
  scans from key index 1 and writes from position 1 on, so that position 0 is never written,
  whichever keys of the group were set and whatever index total was counted; no other phase
  writes an index map.
\<close>

theorem configParse_pgIndexMap:
  "configParse world rules exe argList = Inr config \<Longrightarrow>
   cgIndexMap (cfgOptionGroup config (cfgOptGrpPg rules)) 0 = 0"
proof -
  assume a: "configParse world rules exe argList = Inr config"
  obtain st where s: "configParseArgList rules (parseStateNew rules exe) argList = Inr st"
    using a by (auto simp: configParse_def split: sum.splits)
  obtain parsed where p: "configParseArgEnd rules st = Inr parsed"
    using a s by (auto simp: configParse_def split: sum.splits)
  have g0: "cfgOptionGroup parsed = (\<lambda>i. configOptionGroupZero)"
    using configParseArgList_group[OF s] configParseArgEnd_group[OF p]
    by (simp add: parseStateNew_def configNew_def)
  then have z0: "cgIndexMap (cfgOptionGroup parsed (cfgOptGrpPg rules)) 0 = 0"
    by (simp add: configOptionGroupZero_def)
  obtain resolved where r:
    "foldE (configParseGroupDefault rules) resolved [0..<CFG_OPTION_GROUP_TOTAL rules] = Inr config"
    and rz: "cgIndexMap (cfgOptionGroup resolved (cfgOptGrpPg rules)) 0 = 0"
  proof (cases "cfgCommand parsed \<noteq> cfgCmdNone rules \<and> cfgCommand parsed \<noteq> cfgCmdVersion rules
            \<and> cfgCommand parsed \<noteq> cfgCmdHelp rules")
    case False
    then have "foldE (configParseGroupDefault rules) parsed [0..<CFG_OPTION_GROUP_TOTAL rules]
        = Inr config"
      using a s p by (auto simp: configParse_def split: sum.splits)
    then show ?thesis using that z0 by blast
  next
    case True
    then obtain envPol filePol grouped resolved where
      e: "configParseGroup rules parsed filePol = Inr grouped"
        "configParseResolve world rules grouped filePol = Inr resolved"
        "foldE (configParseGroupDefault rules) resolved [0..<CFG_OPTION_GROUP_TOTAL rules]
          = Inr config"
      using a s p by (auto simp: configParse_def split: sum.splits)
    have "cgIndexMap (cfgOptionGroup grouped (cfgOptGrpPg rules)) 0 = 0"
      using configParseGroup_pg[OF e(1) z0] .
    then have "cgIndexMap (cfgOptionGroup resolved (cfgOptGrpPg rules)) 0 = 0"
      using configParseResolve_group[OF e(2)] by simp
    then show ?thesis using that e(3) by blast
  qed
  have "cgIndexMap (cfgOptionGroup config (cfgOptGrpPg rules))
      = cgIndexMap (cfgOptionGroup resolved (cfgOptGrpPg rules))"
    by (rule foldE_inv[where f = "configParseGroupDefault rules", OF _ r])
       (simp add: configParseGroupDefault_indexMap)
  then show ?thesis using rz by simp
qed

theorem configParse_pgIndexMap_witness:
  "configParse exWorld exRules ''pgbackrest'' exArgs = Inr exParsed
   \<and> cgIndexTotal (cfgOptionGroup exParsed (cfgOptGrpPg exRules)) = 2
   \<and> cgIndexMap (cfgOptionGroup exParsed (cfgOptGrpPg exRules)) 0 = 0"
  using configParse_pgIndexMap[OF ex_parse] ex_parse
  by (simp add: exParsed_def exRules_def)

subsection \<open>Defaults and required options\<close>

text \<open>The evaluation of the example runs.\<close>

lemma ex_default7: "cfgParseOptionDefault exRules (cfgCommand exGrouped) 7 = Some ''warn''"
  by (simp add: cfgParseOptionDefault_def exRules_def exFind_eval exGrouped_def exConfig_def)

lemma ex_default10:
  "cfgParseOptionDefault exRules (cfgCommand exGrouped) 10 = Some ''/var/spool/pgbackrest''"
  by (simp add: cfgParseOptionDefault_def exRules_def exFind_eval exGrouped_def exConfig_def)

lemma ex_default6: "cfgParseOptionDefault exRules (cfgCommand exGrouped) 6 = None"
  by (simp add: cfgParseOptionDefault_def exRules_def exFind_eval exGrouped_def exConfig_def)

lemma ex_defaultOnline: "cfgParseOptionDefault exOnlineRules (cfgCommand exConfig) 0 = Some ''1''"
  by (simp add: cfgParseOptionDefault_def exOnlineRules_def exRules_def exFind_eval exConfig_def)

lemma ex_slot7:
  "configParseOptionValue exPol 7 (configParseOptionKeyIdx exRules exGrouped 7 0)
   = parseOptionValueZero"
  by (simp add: configParseOptionValue_def exPol_def)

lemma ex_slot6:
  "configParseOptionKeyIdx exRules exGrouped 6 0 = 0"
  "configParseOptionValue exStanzaParam 6 0 = parseOptionValueZero"
  by (simp_all add: configParseOptionValue_def exStanzaParam_def configParseOptionKeyIdx_def
        exGrouped_def exRules_def exOption_def configOptionGroupZero_def)

lemma ex_slotOnline:
  "configParseOptionValue (\<lambda>optionId. []) 0 (configParseOptionKeyIdx exOnlineRules exConfig 0 0)
   = parseOptionValueZero"
  by (simp add: configParseOptionValue_def)

lemma ex_slot10:
  "configParseOptionKeyIdx exRules exGrouped 10 0 = 0"
  "configParseOptionValue exNegPol 10 0 = exNegValue"
  by (simp_all add: configParseOptionValue_def exNegPol_def configParseOptionKeyIdx_def
        exRules_def exOption_def)

lemma ex_unset:
  "\<not> optionSet rules optionId parseOptionValueZero" "\<not> pvNegate parseOptionValueZero"
  "\<not> pvReset parseOptionValueZero"
  by (simp_all add: optionSet_def parseOptionValueZero_def)

lemma ex_depend:
  "configParseDepend exRules exGrouped 7 0 k False pv = Inr True"
  "configParseDepend exRules exGrouped 6 0 k False pv = Inr True"
  "configParseDepend exRules exGrouped 10 0 k False pv = Inr True"
  "configParseDepend exOnlineRules exConfig 0 0 k False pv = Inr True"
  by (simp_all add: configParseDepend_def exRules_def exOnlineRules_def exFind_eval exGrouped_def
        exConfig_def)

lemma ex_type:
  "cfgParseOptionType exRules 7 = cfgOptTypeString"
  "cfgParseOptionType exRules 10 = cfgOptTypePath"
  "cfgParseOptionType exOnlineRules 0 = cfgOptTypeBoolean"
  by (simp_all add: cfgParseOptionType_def exRules_def exOnlineRules_def exOption_def)

lemma ex_required6:
  "cfgParseOptionRequired exRules (cfgCommand exGrouped) 6 \<and> \<not> cfgHelp exGrouped"
  "cfgCommandName exRules (cfgCommand exGrouped) @ '' command requires option: ''
     @ cfgParseOptionKeyIdxName exRules 6 0
     @ (if optSection (parseRuleOption exRules ! 6) = cfgSectionStanza
        then [CHR 0x0A] @ ''HINT: does this stanza exist?'' else [])
   = ''backup command requires option: pg1-path'' @ [CHR 0x0A] @ ''HINT: does this stanza exist?''"
  by (simp_all add: cfgParseOptionRequired_def exRules_def exFind_eval exGrouped_def exConfig_def
        configNew_def cfgCommandName_def cfgParseOptionKeyIdxName_def exOption_def)

lemma ex_stanza_file: "configParseFile exWorld exRules exConfig exStanzaParam = Inr exStanzaParam"
proof -
  have c: "cfgCommand exConfig = 0" by (simp add: exConfig_def)
  have l: "cfgFileLoad exWorld exRules exStanzaParam ''/etc/pgbackrest/pgbackrest.conf''
     ''/etc/pgbackrest/conf.d'' PGBACKREST_CONFIG_ORIG_PATH_FILE = Inr None"
    unfolding cfgFileLoad_def ex_ids
    by (simp add: parseOptionFound_def exStanzaParam_def storageGetP_def storageListP_def exWorld_def)
  show ?thesis
    unfolding configParseFile_def c ex_ids using ex_default1 by (simp add: ex_default0 l)
qed

lemma ex_stanza_resolve:
  "(case configParseGroup exRules exConfig exStanzaParam of
      Inl e \<Rightarrow> Inl e
    | Inr grouped \<Rightarrow> configParseResolve exWorld exRules grouped exStanzaParam)
   = Inl exRequiredError"
  by (simp add: exGroup_eval exResolve_eval exStanzaParam_def exRequiredError_def
        cfgCommandName_def)

lemma ex_stanza_parse:
  "configParse exWorld exRules ''pgbackrest'' exStanzaArgs = Inl exRequiredError"
proof -
  have c: "cfgCommand exConfig \<noteq> cfgCmdNone exRules \<and> cfgCommand exConfig \<noteq> cfgCmdVersion exRules
      \<and> cfgCommand exConfig \<noteq> cfgCmdHelp exRules"
    by (simp add: exConfig_def exRules_def)
  have e: "configParseEnvList exRules exConfig exStanzaParam (environ exWorld) = Inr exStanzaParam"
    by (simp add: exWorld_def)
  show ?thesis
    unfolding configParse_def
    by (simp add: ex_stanza_phase1 ex_stanza_argEnd c e ex_stanza_file ex_stanza_resolve)
qed

lemma ex_neg_phase1:
  "configParseArgList exRules (parseStateNew exRules ''pgbackrest'') exNegArgs
   = Inr \<lparr>psConfig = exConfig, psOptionList = exNegPol, psCommandSet = True,
           psArgFound = True\<rparr>"
  by (simp add: exNegArgs_def exNegPol_def exNegValue_def exArg_eval)

lemma ex_neg_file: "configParseFile exWorld exRules exConfig exNegPol = Inr exNegPol"
proof -
  have c: "cfgCommand exConfig = 0" by (simp add: exConfig_def)
  have l: "cfgFileLoad exWorld exRules exNegPol ''/etc/pgbackrest/pgbackrest.conf''
     ''/etc/pgbackrest/conf.d'' PGBACKREST_CONFIG_ORIG_PATH_FILE = Inr None"
    unfolding cfgFileLoad_def ex_ids
    by (simp add: parseOptionFound_def exNegPol_def exPol_def storageGetP_def storageListP_def
          exWorld_def)
  show ?thesis
    unfolding configParseFile_def c ex_ids using ex_default1 by (simp add: ex_default0 l)
qed

lemma ex_neg_group: "configParseGroup exRules exConfig exNegPol = Inr exGrouped"
  by (simp add: exGroup_eval exNegPol_def exNegValue_def) (simp add: numeral_2_eq_2)

lemma ex_neg_resolve: "configParseResolve exWorld exRules exGrouped exNegPol = Inr exNegResolved"
  by (simp add: exResolve_eval exNegPol_def exNegValue_def exNegResolved_def exNegOption_def
        exNegSlot_def)
     (simp add: numeral_2_eq_2)

lemma ex_neg_groupDefault:
  "foldE (configParseGroupDefault exRules) exNegResolved [0..<CFG_OPTION_GROUP_TOTAL exRules]
   = Inr exNegParsed"
  by (simp add: configParseGroupDefault_def cfgOptionTest_def Let_def upt2
     exRules_def exConfig_def configNew_def configGroupUpd_def
     configOptionZero_def configOptionGroupZero_def
     exGrouped_def exGroupedOption_def exResolved_def exResolvedOption_def exResolvedValue_def
     exParsed_def exNegResolved_def exNegParsed_def exNegOption_def exNegSlot_def)

lemma ex_neg_parse: "configParse exWorld exRules ''pgbackrest'' exNegArgs = Inr exNegParsed"
proof -
  have c: "cfgCommand exConfig \<noteq> cfgCmdNone exRules \<and> cfgCommand exConfig \<noteq> cfgCmdVersion exRules
      \<and> cfgCommand exConfig \<noteq> cfgCmdHelp exRules"
    by (simp add: exConfig_def exRules_def)
  have e: "configParseEnvList exRules exConfig exNegPol (environ exWorld) = Inr exNegPol"
    by (simp add: exWorld_def)
  show ?thesis
    unfolding configParse_def
    by (simp add: ex_neg_phase1 ex_stanza_argEnd c e ex_neg_file ex_neg_group ex_neg_resolve
          ex_neg_groupDefault)
qed

text \<open>
  Claim C7. For an option slot whose depend check is resolved and that is not set. If the
  slot is not negated: when a default exists for the command and option, the slot holds the
  default with the source \<open>default\<close>, a boolean being true exactly when the default string
  is \<open>1\<close>, a path or string being the default string, and an integer, size or time being
  the default string read as a base-10 signed 64-bit integer; when no default exists and the
  option is required for the command and help was not requested, the result is
  \<open>OptionRequiredError\<close> with the message \<open>command requires option\<close>, followed by the hint
  \<open>does this stanza exist?\<close> exactly when the section of the option is \<open>stanza\<close>; else the
  value stays null. If the slot is negated (a negated option that is not boolean), it takes
  no default and raises no error, whatever the default and the required flag are: the value
  is null and the source of the parsed option is recorded.
\<close>

theorem configParseResolveIdx_default:
  assumes "pv = configParseOptionValue pol optionId
                  (configParseOptionKeyIdx rules config optionId optionListIdx)"
    and "configParseDepend rules config optionId optionListIdx
           (configParseOptionKeyIdx rules config optionId optionListIdx)
           (optionSet rules optionId pv) pv = Inr True"
    and "\<not> optionSet rules optionId pv"
  shows
    "(\<not> pvNegate pv \<longrightarrow>
      (\<forall>value. cfgParseOptionDefault rules (cfgCommand config) optionId = Some value \<longrightarrow>
        (cfgParseOptionType rules optionId = cfgOptTypeBoolean \<longrightarrow>
           configParseResolveIdx world rules pol config optionId optionListIdx
           = Inr \<lparr>covNegate = False, covReset = pvReset pv, covSource = cfgSourceDefault,
                   covValue = Some (VarBool (value = ''1''))\<rparr>)
      \<and> (cfgParseOptionType rules optionId = cfgOptTypePath
           \<or> cfgParseOptionType rules optionId = cfgOptTypeString \<longrightarrow>
           configParseResolveIdx world rules pol config optionId optionListIdx
           = Inr \<lparr>covNegate = False, covReset = pvReset pv, covSource = cfgSourceDefault,
                   covValue = Some (VarStr value)\<rparr>)
      \<and> (cfgParseOptionType rules optionId = cfgOptTypeInteger
           \<or> cfgParseOptionType rules optionId = cfgOptTypeSize
           \<or> cfgParseOptionType rules optionId = cfgOptTypeTime \<longrightarrow>
           configParseResolveIdx world rules pol config optionId optionListIdx
           = map_sum id
               (\<lambda>v. \<lparr>covNegate = False, covReset = pvReset pv, covSource = cfgSourceDefault,
                      covValue = Some (VarInt64 v)\<rparr>)
               (cvtZToInt64 value))))
   \<and> (\<not> pvNegate pv \<longrightarrow>
      cfgParseOptionDefault rules (cfgCommand config) optionId = None \<longrightarrow>
        (cfgParseOptionRequired rules (cfgCommand config) optionId \<and> \<not> cfgHelp config \<longrightarrow>
           configParseResolveIdx world rules pol config optionId optionListIdx
           = Inl (Throw OptionRequiredError
                (cfgCommandName rules (cfgCommand config) @ '' command requires option: ''
                   @ cfgParseOptionKeyIdxName rules optionId
                       (configParseOptionKeyIdx rules config optionId optionListIdx)
                   @ (if optSection (parseRuleOption rules ! optionId) = cfgSectionStanza
                      then [CHR 0x0A] @ ''HINT: does this stanza exist?'' else []))))
      \<and> (\<not> (cfgParseOptionRequired rules (cfgCommand config) optionId \<and> \<not> cfgHelp config) \<longrightarrow>
           configParseResolveIdx world rules pol config optionId optionListIdx
           = Inr \<lparr>covNegate = False, covReset = pvReset pv, covSource = cfgSourceDefault,
                   covValue = None\<rparr>))
   \<and> (pvNegate pv \<longrightarrow>
        configParseResolveIdx world rules pol config optionId optionListIdx
        = Inr \<lparr>covNegate = True, covReset = pvReset pv, covSource = pvSource pv,
                covValue = None\<rparr>)"
proof (cases "pvNegate pv")
  case True
  then show ?thesis
    using assms unfolding configParseResolveIdx_def Let_def by simp
next
  case False
  let ?k = "configParseOptionKeyIdx rules config optionId optionListIdx"
  have r: "configParseResolveIdx world rules pol config optionId optionListIdx
      = (case configParseDefault rules config optionId ?k of
           Inl e \<Rightarrow> Inl e
         | Inr value \<Rightarrow>
             Inr \<lparr>covNegate = False, covReset = pvReset pv, covSource = cfgSourceDefault,
                   covValue = value\<rparr>)"
    using assms False unfolding configParseResolveIdx_def Let_def
    by (simp split: sum.splits)
  show ?thesis
    unfolding r configParseDefault_def using False
    by (auto split: sum.splits simp: map_sum_def)
qed

theorem configParseResolveIdx_default_witness:
  "cfgParseOptionDefault exRules (cfgCommand exGrouped) 7 = Some ''warn''
   \<and> configParseResolveIdx exWorld exRules exPol exGrouped 7 0
       = Inr \<lparr>covNegate = False, covReset = False, covSource = cfgSourceDefault,
               covValue = Some (VarStr ''warn'')\<rparr>
   \<and> cfgParseOptionDefault exOnlineRules (cfgCommand exConfig) 0 = Some ''1''
   \<and> configParseResolveIdx exWorld exOnlineRules (\<lambda>optionId. []) exConfig 0 0
       = Inr \<lparr>covNegate = False, covReset = False, covSource = cfgSourceDefault,
               covValue = Some (VarBool True)\<rparr>
   \<and> cfgParseOptionDefault exRules (cfgCommand exGrouped) 6 = None
   \<and> configParseResolveIdx exWorld exRules exStanzaParam exGrouped 6 0 = Inl exRequiredError
   \<and> configParse exWorld exRules ''pgbackrest'' exStanzaArgs = Inl exRequiredError
   \<and> pvNegate exNegValue \<and> \<not> optionSet exRules 10 exNegValue
   \<and> configParseResolveIdx exWorld exRules exNegPol exGrouped 10 0
       = Inr \<lparr>covNegate = True, covReset = False, covSource = cfgSourceParam,
               covValue = None\<rparr>"
proof -
  have a: "configParseResolveIdx exWorld exRules exPol exGrouped 7 0
       = Inr \<lparr>covNegate = False, covReset = pvReset parseOptionValueZero,
               covSource = cfgSourceDefault, covValue = Some (VarStr ''warn'')\<rparr>"
    using configParseResolveIdx_default[where rules = exRules and config = exGrouped
        and pol = exPol and optionId = 7 and optionListIdx = 0 and pv = parseOptionValueZero
        and world = exWorld, THEN conjunct1, rule_format, OF _ _ _ _ ex_default7,
        THEN conjunct2, THEN conjunct1]
    by (simp add: ex_slot7 ex_unset ex_depend ex_type)
  have b: "configParseResolveIdx exWorld exOnlineRules (\<lambda>optionId. []) exConfig 0 0
       = Inr \<lparr>covNegate = False, covReset = pvReset parseOptionValueZero,
               covSource = cfgSourceDefault, covValue = Some (VarBool (''1'' = ''1''))\<rparr>"
    using configParseResolveIdx_default[where rules = exOnlineRules and config = exConfig
        and pol = "\<lambda>optionId. []" and optionId = 0 and optionListIdx = 0
        and pv = parseOptionValueZero
        and world = exWorld, THEN conjunct1, rule_format, OF _ _ _ _ ex_defaultOnline,
        THEN conjunct1]
    by (simp add: ex_slotOnline ex_unset ex_depend ex_type)
  have c0: "configParseResolveIdx exWorld exRules exStanzaParam exGrouped 6 0
       = Inl (Throw OptionRequiredError
                (cfgCommandName exRules (cfgCommand exGrouped) @ '' command requires option: ''
                   @ cfgParseOptionKeyIdxName exRules 6
                       (configParseOptionKeyIdx exRules exGrouped 6 0)
                   @ (if optSection (parseRuleOption exRules ! 6) = cfgSectionStanza
                      then [CHR 0x0A] @ ''HINT: does this stanza exist?'' else [])))"
    by (rule configParseResolveIdx_default[where rules = exRules and config = exGrouped
        and pol = exStanzaParam and optionId = 6 and optionListIdx = 0
        and pv = parseOptionValueZero
        and world = exWorld, THEN conjunct2, THEN conjunct1, rule_format,
        OF _ _ _ _ ex_default6, THEN conjunct1, rule_format, OF _ _ _ _ ex_required6(1)])
       (simp_all add: ex_slot6 ex_unset ex_depend)
  have c: "configParseResolveIdx exWorld exRules exStanzaParam exGrouped 6 0 = Inl exRequiredError"
    unfolding c0 ex_slot6(1) ex_required6(2) exRequiredError_def by (rule refl)
  have n: "pvNegate exNegValue" "\<not> optionSet exRules 10 exNegValue"
    by (simp_all add: optionSet_def exNegValue_def ex_type)
  have d: "configParseResolveIdx exWorld exRules exNegPol exGrouped 10 0
       = Inr \<lparr>covNegate = True, covReset = pvReset exNegValue, covSource = pvSource exNegValue,
               covValue = None\<rparr>"
    by (rule configParseResolveIdx_default[where rules = exRules and config = exGrouped
        and pol = exNegPol and optionId = 10 and optionListIdx = 0 and pv = exNegValue
        and world = exWorld, THEN conjunct2, THEN conjunct2, rule_format])
       (simp_all add: ex_slot10 n ex_depend)
  have e: "pvReset exNegValue = False" "pvSource exNegValue = cfgSourceParam"
    by (simp_all add: exNegValue_def)
  show ?thesis
    using a b c d n
    by (simp add: ex_default7 ex_defaultOnline ex_default6 ex_stanza_parse ex_unset e)
qed

text \<open>
  A negated option that is not boolean is not set, yet it takes no default: \<open>--no-spool-path\<close>
  leaves the value of \<open>spool-path\<close> null and records the source \<open>param\<close>, although the
  option has the default \<open>/var/spool/pgbackrest\<close>.
\<close>

theorem configParseResolveIdx_default_counterexample:
  "cfgParseOptionDefault exRules (cfgCommand exGrouped) 10 = Some ''/var/spool/pgbackrest''
   \<and> coValid (cfgOption exGrouped 10)
   \<and> configParseOptionValue exNegPol 10 (configParseOptionKeyIdx exRules exGrouped 10 0)
       = exNegValue
   \<and> configParseDepend exRules exGrouped 10 0 (configParseOptionKeyIdx exRules exGrouped 10 0)
         (optionSet exRules 10 exNegValue) exNegValue = Inr True
   \<and> \<not> optionSet exRules 10 exNegValue
   \<and> configParseResolveIdx exWorld exRules exNegPol exGrouped 10 0 = Inr exNegSlot
   \<and> covValue exNegSlot = None
   \<and> configParse exWorld exRules ''pgbackrest'' exNegArgs = Inr exNegParsed
   \<and> coIndex (cfgOption exNegParsed 10) = [exNegSlot]"
proof -
  have s: "\<not> optionSet exRules 10 exNegValue"
    by (simp add: optionSet_def exNegValue_def ex_type)
  have v: "coValid (cfgOption exGrouped 10)"
    by (simp add: exGrouped_def exGroupedOption_def)
  have r: "configParseResolveIdx exWorld exRules exNegPol exGrouped 10 0 = Inr exNegSlot"
    unfolding configParseResolveIdx_def Let_def ex_slot10
    using s by (simp add: ex_depend) (simp add: exNegValue_def exNegSlot_def)
  have i: "coIndex (cfgOption exNegParsed 10) = [exNegSlot]"
    by (simp add: exNegParsed_def exNegOption_def)
  show ?thesis
    using s by (simp add: ex_default10 v ex_slot10 ex_depend r i ex_neg_parse) (simp add: exNegSlot_def)
qed


end
